theory Spec2Isabelle
  imports Main
begin

section \<open>JavaScript values and the operators the controllers use\<close>

text \<open>
  The webhook controllers (both variants of \<^verbatim>\<open>iclosedWebhookController.js\<close>) and
  \<^verbatim>\<open>src/services/automationService.js\<close> read an arbitrary JSON body. A value is a JSON
  value or \<^verbatim>\<open>undefined\<close> (the result of reading a missing property). Numbers are
  modelled as integers: the handlers only test them for truthiness, compare them and
  pass them on. A string is a list of characters, which have the code points below 256.
\<close>

datatype json =
    JUndefined
  | JNull
  | JBool bool
  | JNum int
  | JStr string
  | JArr "json list"
  | JObj "(string \<times> json) list"

text \<open>An exception: the JavaScript error classes the code can meet, each with its message.
  \<open>StorageError\<close> stands for every error thrown by the Prisma client.\<close>

datatype error =
    TypeError string
  | ReferenceError string
  | Error string
  | StorageError string

fun message :: "error \<Rightarrow> string" where
  "message (TypeError m) = m"
| "message (ReferenceError m) = m"
| "message (Error m) = m"
| "message (StorageError m) = m"

type_synonym 'a res = "error + 'a"

fun truthy :: "json \<Rightarrow> bool" where
  "truthy JUndefined = False"
| "truthy JNull = False"
| "truthy (JBool b) = b"
| "truthy (JNum n) = (n \<noteq> 0)"
| "truthy (JStr s) = (s \<noteq> [])"
| "truthy (JArr xs) = True"
| "truthy (JObj kvs) = True"

fun nullish :: "json \<Rightarrow> bool" where
  "nullish JUndefined = True"
| "nullish JNull = True"
| "nullish v = False"

text \<open>\<^verbatim>\<open>o.k\<close>: a TypeError on \<^verbatim>\<open>undefined\<close> and \<^verbatim>\<open>null\<close>, the stored value on an object,
  \<^verbatim>\<open>undefined\<close> on every other value (none of the field names the handlers read is a
  property of a string, number, boolean or array).\<close>

abbreviation sq :: string where
  "sq \<equiv> [CHR 0x27]"

abbreviation dq :: string where
  "dq \<equiv> [CHR 0x22]"

fun js_get :: "json \<Rightarrow> string \<Rightarrow> json res" where
  "js_get JUndefined k =
     Inl (TypeError (''Cannot read properties of undefined (reading '' @ sq @ k @ sq @ '')''))"
| "js_get JNull k =
     Inl (TypeError (''Cannot read properties of null (reading '' @ sq @ k @ sq @ '')''))"
| "js_get (JObj kvs) k = Inr (case map_of kvs k of None \<Rightarrow> JUndefined | Some v \<Rightarrow> v)"
| "js_get v k = Inr JUndefined"

text \<open>\<^verbatim>\<open>o?.k\<close>\<close>

definition js_optget :: "json \<Rightarrow> string \<Rightarrow> json res" where
  "js_optget v k = (if nullish v then Inr JUndefined else js_get v k)"

text \<open>Sequencing of two evaluations that may throw.\<close>

definition res_bind :: "'a res \<Rightarrow> ('a \<Rightarrow> 'b res) \<Rightarrow> 'b res" where
  "res_bind r f = (case r of Inl e \<Rightarrow> Inl e | Inr x \<Rightarrow> f x)"

text \<open>\<^verbatim>\<open>a || b\<close>: \<open>b\<close> is evaluated only when \<open>a\<close> is falsy.\<close>

definition or_else :: "json res \<Rightarrow> json res \<Rightarrow> json res" where
  "or_else a b = (case a of Inl e \<Rightarrow> Inl e | Inr v \<Rightarrow> if truthy v then Inr v else b)"

text \<open>\<^verbatim>\<open>o.k1 || o.k2 || ... || final\<close>\<close>

fun or_fields :: "json \<Rightarrow> string list \<Rightarrow> json res \<Rightarrow> json res" where
  "or_fields v [] final = final"
| "or_fields v (k # ks) final = or_else (js_get v k) (or_fields v ks final)"

subsection \<open>The built-in functions of the runtime\<close>

text \<open>
  The handlers call four things whose result is computed by the JavaScript runtime and not
  by code of the repository: \<^verbatim>\<open>String.prototype.toLowerCase\<close> (the case mapping of Unicode),
  \<^verbatim>\<open>s.trim().split(/\s+/)\<close> (the white space of Unicode), the conversion of a number to a
  string in a template literal (the shortest digits that identify a double, in exponent
  form from \<^verbatim>\<open>1e21\<close> on), and the operators \<^verbatim>\<open><=\<close> and \<^verbatim>\<open>>=\<close> between a number and an arbitrary
  value (which convert the value to a number first). They are not modelled: they are the
  fields of the record \<open>runtime\<close>, the first argument of every definition that reaches one
  of them, and every statement below holds whatever they compute.
\<close>

record runtime =
  rt_toLowerCase :: "string \<Rightarrow> string"
  rt_trimSplit :: "string \<Rightarrow> string list"
  rt_numToString :: "int \<Rightarrow> string"
  rt_le :: "int \<Rightarrow> json \<Rightarrow> bool"
  rt_ge :: "int \<Rightarrow> json \<Rightarrow> bool"

subsection \<open>Strings\<close>

text \<open>\<^verbatim>\<open>v.toLowerCase()\<close> on a payload value, where \<open>recv\<close> is the text of the expression \<^verbatim>\<open>v\<close>
  in the source: only a string has the method, and the TypeError for another value names
  the expression.\<close>

fun js_toLowerCase :: "runtime \<Rightarrow> string \<Rightarrow> json \<Rightarrow> string res" where
  "js_toLowerCase rt recv (JStr s) = Inr (rt_toLowerCase rt s)"
| "js_toLowerCase rt recv JUndefined =
     Inl (TypeError (''Cannot read properties of undefined (reading '' @ sq @ ''toLowerCase'' @ sq @ '')''))"
| "js_toLowerCase rt recv JNull =
     Inl (TypeError (''Cannot read properties of null (reading '' @ sq @ ''toLowerCase'' @ sq @ '')''))"
| "js_toLowerCase rt recv v = Inl (TypeError (recv @ ''.toLowerCase is not a function''))"

fun starts_with :: "string \<Rightarrow> string \<Rightarrow> bool" where
  "starts_with s [] = True"
| "starts_with [] (c # t) = False"
| "starts_with (x # s) (c # t) = (x = c \<and> starts_with s t)"

text \<open>\<^verbatim>\<open>s.includes(t)\<close>\<close>

fun str_includes :: "string \<Rightarrow> string \<Rightarrow> bool" where
  "str_includes [] t = (t = [])"
| "str_includes (x # s) t = (starts_with (x # s) t \<or> str_includes s t)"

fun join :: "string \<Rightarrow> string list \<Rightarrow> string" where
  "join sep [] = []"
| "join sep [x] = x"
| "join sep (x # y # ys) = x @ sep @ join sep (y # ys)"

fun digit_char :: "nat \<Rightarrow> char" where
  "digit_char n = (''0123456789'' ! (n mod 10))"

fun nat_digits :: "nat \<Rightarrow> nat \<Rightarrow> string" where
  "nat_digits 0 n = []"
| "nat_digits (Suc fuel) n =
     (if n < 10 then [digit_char n] else nat_digits fuel (n div 10) @ [digit_char n])"

definition show_nat :: "nat \<Rightarrow> string" where
  "show_nat n = nat_digits (Suc n) n"

definition show_int :: "int \<Rightarrow> string" where
  "show_int i = (if i < 0 then CHR ''-'' # show_nat (nat (- i)) else show_nat (nat i))"

text \<open>String conversion, as a template literal \<^verbatim>\<open>`${v}`\<close> does it; the digits of a number are
  the runtime's.\<close>

fun js_toString :: "runtime \<Rightarrow> json \<Rightarrow> string" where
  "js_toString rt JUndefined = ''undefined''"
| "js_toString rt JNull = ''null''"
| "js_toString rt (JBool b) = (if b then ''true'' else ''false'')"
| "js_toString rt (JNum n) = rt_numToString rt n"
| "js_toString rt (JStr s) = s"
| "js_toString rt (JArr xs) =
     join '','' (map (\<lambda>x. if nullish x then [] else js_toString rt x) xs)"
| "js_toString rt (JObj kvs) = ''[object Object]''"

definition of_opt :: "string option \<Rightarrow> json" where
  "of_opt x = (case x of None \<Rightarrow> JNull | Some s \<Rightarrow> JStr s)"

text \<open>\<^verbatim>\<open>parseName\<close> (the same local function in both controllers): null twice for a value
  that is falsy or no string; else \<^verbatim>\<open>nameParts[0]\<close> and, unless there is one part only,
  \<^verbatim>\<open>nameParts.slice(1).join(' ')\<close>.\<close>

definition parseName :: "runtime \<Rightarrow> json \<Rightarrow> string option \<times> string option" where
  "parseName rt fullName =
     (case fullName of
        JStr s \<Rightarrow>
          (if s = [] then (None, None)
           else (case rt_trimSplit rt s of
                   [p] \<Rightarrow> (Some p, None)
                 | p # ps \<Rightarrow> (Some p, Some (join '' '' ps))
                 | [] \<Rightarrow> (None, Some [])))
      | _ \<Rightarrow> (None, None))"

text \<open>\<^verbatim>\<open>a || b\<close> on two nullable strings (\<^verbatim>\<open>firstName || existingContact.firstName\<close>).\<close>

definition or_opt :: "string option \<Rightarrow> string option \<Rightarrow> string option" where
  "or_opt a b = (case a of None \<Rightarrow> b | Some s \<Rightarrow> if s = [] then b else Some s)"


section \<open>The store\<close>

text \<open>
  One record per table the controllers touch, with the columns they read or write.
  Identifiers are strings, as in the payloads; a new row takes its identifier from a
  counter.
\<close>

record user =
  u_id :: string
  u_createdAt :: nat

record contact =
  c_id :: string
  c_firstName :: "string option"
  c_lastName :: "string option"
  c_email :: "string option"
  c_phone :: "string option"
  c_userId :: string

record pipeline =
  p_id :: string
  p_name :: string
  p_userId :: string

record stage =
  s_id :: string
  s_name :: string
  s_order :: int
  s_pipelineId :: string

record deal =
  d_id :: string
  d_title :: string
  d_value :: int
  d_stageId :: string
  d_pipelineId :: string
  d_contactId :: "string option"
  d_userId :: string
  d_data :: json

record activity =
  a_id :: string
  a_type :: string
  a_note :: string
  a_data :: json
  a_contactId :: "string option"
  a_dealId :: "string option"
  a_userId :: string

text \<open>The delivery identifier is the column \<^verbatim>\<open>idempotencyKey\<close> in the permissive controller
  and \<^verbatim>\<open>eventId\<close> in the secured one; both look it up with \<^verbatim>\<open>findUnique\<close>.\<close>

record webhookLog =
  l_key :: string
  l_endpoint :: string
  l_payload :: json
  l_status :: nat
  l_processedAt :: string

record task =
  t_id :: string
  t_title :: string
  t_description :: string
  t_dueDate :: json
  t_assignedTo :: string
  t_contactId :: string

record workflow =
  wf_id :: string
  wf_name :: string
  wf_isActive :: bool
  wf_triggers :: "string list"
  wf_actions :: "(string \<times> json) list list"
  wf_conditions :: json

record db =
  users :: "user list"
  contacts :: "contact list"
  pipelines :: "pipeline list"
  stages :: "stage list"
  deals :: "deal list"
  activities :: "activity list"
  webhookLogs :: "webhookLog list"
  tasks :: "task list"
  workflows :: "workflow list"
  nextId :: nat

text \<open>A deal as a query returns it: a relation is present only when the query's
  \<^verbatim>\<open>include\<close> names it, otherwise the property is \<^verbatim>\<open>undefined\<close> (\<open>None\<close>).\<close>

record deal_loaded =
  dl_row :: deal
  dl_stage :: "stage option"
  dl_pipeline :: "pipeline option"
  dl_pipeline_stages :: "stage list"

record contact_loaded =
  cl_row :: contact
  cl_deals :: "deal_loaded list"

subsection \<open>Computations on the store that may throw\<close>

text \<open>
  A computation runs on the store and a schedule of storage faults, and yields a value or
  an exception together with the store it leaves behind: what was written before an
  exception stays written (no transaction is used anywhere). Every call of the Prisma
  client takes the next entry of the schedule: \<open>Some m\<close> makes the call throw with message
  \<open>m\<close> and write nothing, \<open>None\<close> (or an exhausted schedule) lets it run.
\<close>

type_synonym world = "db \<times> string option list"

type_synonym 'a io = "world \<Rightarrow> 'a res \<times> world"

definition io_ret :: "'a \<Rightarrow> 'a io" where
  "io_ret x = (\<lambda>w. (Inr x, w))"

definition io_throw :: "error \<Rightarrow> 'a io" where
  "io_throw e = (\<lambda>w. (Inl e, w))"

definition io_lift :: "'a res \<Rightarrow> 'a io" where
  "io_lift r = (\<lambda>w. (r, w))"

definition io_bind :: "'a io \<Rightarrow> ('a \<Rightarrow> 'b io) \<Rightarrow> 'b io" where
  "io_bind m f = (\<lambda>w. case m w of (Inl e, w') \<Rightarrow> (Inl e, w') | (Inr x, w') \<Rightarrow> f x w')"

text \<open>\<^verbatim>\<open>try { m } catch (error) { h error }\<close>\<close>

definition io_catch :: "'a io \<Rightarrow> (error \<Rightarrow> 'a io) \<Rightarrow> 'a io" where
  "io_catch m h = (\<lambda>w. case m w of (Inl e, w') \<Rightarrow> h e w' | (Inr x, w') \<Rightarrow> (Inr x, w'))"

definition dbcall :: "(db \<Rightarrow> ('a \<times> db) res) \<Rightarrow> 'a io" where
  "dbcall q = (\<lambda>w. case w of (d, fs) \<Rightarrow>
     (case fs of
        Some m # fs' \<Rightarrow> (Inl (StorageError m), (d, fs'))
      | _ \<Rightarrow> (case q d of
                Inl e \<Rightarrow> (Inl e, (d, tl fs))
              | Inr (x, d') \<Rightarrow> (Inr x, (d', tl fs)))))"

definition fresh_id :: "db \<Rightarrow> string" where
  "fresh_id d = ''id-'' @ show_nat (nextId d)"

subsection \<open>Argument validation of the Prisma client\<close>

definition req_str :: "json \<Rightarrow> string res" where
  "req_str v = (case v of JStr s \<Rightarrow> Inr s
                | _ \<Rightarrow> Inl (StorageError ''Invalid value provided. Expected String''))"

definition opt_str :: "json \<Rightarrow> string option res" where
  "opt_str v = (case v of JStr s \<Rightarrow> Inr (Some s) | JNull \<Rightarrow> Inr None | JUndefined \<Rightarrow> Inr None
                | _ \<Rightarrow> Inl (StorageError ''Invalid value provided. Expected String or Null''))"

definition req_num :: "json \<Rightarrow> int res" where
  "req_num v = (case v of JNum n \<Rightarrow> Inr n
                | _ \<Rightarrow> Inl (StorageError ''Invalid value provided. Expected Float''))"

subsection \<open>The queries\<close>

definition stages_of :: "db \<Rightarrow> string \<Rightarrow> stage list" where
  "stages_of d pid = filter (\<lambda>s. s_pipelineId s = pid) (stages d)"

definition webhookLog_findUnique :: "string \<Rightarrow> webhookLog option io" where
  "webhookLog_findUnique k = dbcall (\<lambda>d. Inr (find (\<lambda>l. l_key l = k) (webhookLogs d), d))"

definition webhookLog_create :: "webhookLog \<Rightarrow> webhookLog io" where
  "webhookLog_create row = dbcall (\<lambda>d.
     if find (\<lambda>l. l_key l = l_key row) (webhookLogs d) \<noteq> None
     then Inl (StorageError ''Unique constraint failed'')
     else Inr (row, d\<lparr>webhookLogs := webhookLogs d @ [row]\<rparr>))"

definition user_findUnique :: "string \<Rightarrow> user option io" where
  "user_findUnique i = dbcall (\<lambda>d. Inr (find (\<lambda>u. u_id u = i) (users d), d))"

text \<open>\<^verbatim>\<open>orderBy: { createdAt: 'asc' }\<close>: the earliest user, the first of them in table order.\<close>

fun earliest :: "user list \<Rightarrow> user option" where
  "earliest [] = None"
| "earliest (u # us) =
     (case earliest us of
        None \<Rightarrow> Some u
      | Some v \<Rightarrow> if u_createdAt u \<le> u_createdAt v then Some u else Some v)"

definition user_findFirst :: "user option io" where
  "user_findFirst = dbcall (\<lambda>d. Inr (earliest (users d), d))"

definition contact_findUnique_email :: "string \<Rightarrow> contact option io" where
  "contact_findUnique_email e = dbcall (\<lambda>d. Inr (find (\<lambda>c. c_email c = Some e) (contacts d), d))"

text \<open>\<^verbatim>\<open>update({ where: { id }, data })\<close>: throws when no row has the identifier.\<close>

definition contact_update :: "string \<Rightarrow> (contact \<Rightarrow> contact) \<Rightarrow> contact io" where
  "contact_update i upd = dbcall (\<lambda>d.
     case find (\<lambda>c. c_id c = i) (contacts d) of
       None \<Rightarrow> Inl (StorageError ''Record to update not found'')
     | Some c \<Rightarrow>
         Inr (upd c, d\<lparr>contacts := map (\<lambda>r. if c_id r = i then upd r else r) (contacts d)\<rparr>))"

definition contact_create ::
  "string option \<Rightarrow> string option \<Rightarrow> string \<Rightarrow> string option \<Rightarrow> string \<Rightarrow> contact io" where
  "contact_create fn ln e ph uid = dbcall (\<lambda>d.
     if find (\<lambda>c. c_email c = Some e) (contacts d) \<noteq> None
     then Inl (StorageError ''Unique constraint failed'')
     else (let row = \<lparr>c_id = fresh_id d, c_firstName = fn, c_lastName = ln, c_email = Some e,
                       c_phone = ph, c_userId = uid\<rparr>
           in Inr (row, d\<lparr>contacts := contacts d @ [row], nextId := Suc (nextId d)\<rparr>)))"

definition pipeline_findFirst :: "string \<Rightarrow> (pipeline \<times> stage list) option io" where
  "pipeline_findFirst uid = dbcall (\<lambda>d.
     Inr (map_option (\<lambda>p. (p, stages_of d (p_id p))) (find (\<lambda>p. p_userId p = uid) (pipelines d)), d))"

definition pipeline_findUnique :: "string \<Rightarrow> (pipeline \<times> stage list) option io" where
  "pipeline_findUnique i = dbcall (\<lambda>d.
     Inr (map_option (\<lambda>p. (p, stages_of d (p_id p))) (find (\<lambda>p. p_id p = i) (pipelines d)), d))"

definition pipeline_create :: "string \<Rightarrow> string \<Rightarrow> pipeline io" where
  "pipeline_create nm uid = dbcall (\<lambda>d.
     let row = \<lparr>p_id = fresh_id d, p_name = nm, p_userId = uid\<rparr>
     in Inr (row, d\<lparr>pipelines := pipelines d @ [row], nextId := Suc (nextId d)\<rparr>))"

fun new_stages :: "nat \<Rightarrow> string \<Rightarrow> (string \<times> int) list \<Rightarrow> stage list" where
  "new_stages n pid [] = []"
| "new_stages n pid ((nm, ord) # rest) =
     \<lparr>s_id = ''id-'' @ show_nat n, s_name = nm, s_order = ord, s_pipelineId = pid\<rparr>
       # new_stages (Suc n) pid rest"

definition pipelineStage_createMany :: "string \<Rightarrow> (string \<times> int) list \<Rightarrow> unit io" where
  "pipelineStage_createMany pid rows = dbcall (\<lambda>d.
     Inr ((), d\<lparr>stages := stages d @ new_stages (nextId d) pid rows,
                nextId := nextId d + length rows\<rparr>))"

text \<open>\<^verbatim>\<open>findFirst({ where: { name, pipelineId } })\<close>; a filter whose value is \<^verbatim>\<open>undefined\<close>
  is left out by the client.\<close>

definition pipelineStage_findFirst :: "string option \<Rightarrow> string \<Rightarrow> stage option io" where
  "pipelineStage_findFirst nm pid = dbcall (\<lambda>d.
     Inr (find (\<lambda>s. (case nm of None \<Rightarrow> True | Some n \<Rightarrow> s_name s = n) \<and> s_pipelineId s = pid)
            (stages d), d))"

definition deal_findFirst_title :: "string \<Rightarrow> string \<Rightarrow> string \<Rightarrow> deal option io" where
  "deal_findFirst_title t pid uid = dbcall (\<lambda>d.
     Inr (find (\<lambda>r. d_title r = t \<and> d_pipelineId r = pid \<and> d_userId r = uid) (deals d), d))"

text \<open>\<^verbatim>\<open>findFirst({ where: { id, userId }, include: { pipeline: { include: { stages: true } } } })\<close>:
  the pipeline and its stages are loaded, the relation \<^verbatim>\<open>stage\<close> is not.\<close>

definition deal_findFirst_id :: "string \<Rightarrow> string \<Rightarrow> deal_loaded option io" where
  "deal_findFirst_id i uid = dbcall (\<lambda>d.
     Inr (map_option
            (\<lambda>r. \<lparr>dl_row = r, dl_stage = None,
                  dl_pipeline = find (\<lambda>p. p_id p = d_pipelineId r) (pipelines d),
                  dl_pipeline_stages = stages_of d (d_pipelineId r)\<rparr>)
            (find (\<lambda>r. d_id r = i \<and> d_userId r = uid) (deals d)), d))"

definition deal_update :: "string \<Rightarrow> (deal \<Rightarrow> deal) \<Rightarrow> deal io" where
  "deal_update i upd = dbcall (\<lambda>d.
     case find (\<lambda>r. d_id r = i) (deals d) of
       None \<Rightarrow> Inl (StorageError ''Record to update not found'')
     | Some r \<Rightarrow>
         Inr (upd r, d\<lparr>deals := map (\<lambda>r. if d_id r = i then upd r else r) (deals d)\<rparr>))"

definition deal_create ::
  "string \<Rightarrow> int \<Rightarrow> string \<Rightarrow> string \<Rightarrow> string option \<Rightarrow> string \<Rightarrow> json \<Rightarrow> deal io" where
  "deal_create t v sid pid cid uid dat = dbcall (\<lambda>d.
     let row = \<lparr>d_id = fresh_id d, d_title = t, d_value = v, d_stageId = sid, d_pipelineId = pid,
                d_contactId = cid, d_userId = uid, d_data = dat\<rparr>
     in Inr (row, d\<lparr>deals := deals d @ [row], nextId := Suc (nextId d)\<rparr>))"

definition activity_create ::
  "string \<Rightarrow> string \<Rightarrow> json \<Rightarrow> string option \<Rightarrow> string option \<Rightarrow> string \<Rightarrow> activity io" where
  "activity_create ty note dat cid did uid = dbcall (\<lambda>d.
     let row = \<lparr>a_id = fresh_id d, a_type = ty, a_note = note, a_data = dat, a_contactId = cid,
                a_dealId = did, a_userId = uid\<rparr>
     in Inr (row, d\<lparr>activities := activities d @ [row], nextId := Suc (nextId d)\<rparr>))"

text \<open>\<^verbatim>\<open>findUnique({ where: { id }, include: { deals: { include: { stage: true, pipeline: true } },
  user: true } })\<close>\<close>

definition contact_findUnique_id :: "string \<Rightarrow> contact_loaded option io" where
  "contact_findUnique_id i = dbcall (\<lambda>d.
     Inr (map_option
            (\<lambda>c. \<lparr>cl_row = c,
                  cl_deals = map (\<lambda>r. \<lparr>dl_row = r,
                                        dl_stage = find (\<lambda>s. s_id s = d_stageId r) (stages d),
                                        dl_pipeline = find (\<lambda>p. p_id p = d_pipelineId r) (pipelines d),
                                        dl_pipeline_stages = []\<rparr>)
                               (filter (\<lambda>r. d_contactId r = Some (c_id c)) (deals d))\<rparr>)
            (find (\<lambda>c. c_id c = i) (contacts d)), d))"

text \<open>\<^verbatim>\<open>findMany({ where: { isActive: true, triggers: { some: { eventType } } } })\<close>\<close>

definition workflow_findMany :: "string \<Rightarrow> workflow list io" where
  "workflow_findMany ev = dbcall (\<lambda>d.
     Inr (filter (\<lambda>w. wf_isActive w \<and> ev \<in> set (wf_triggers w)) (workflows d), d))"

definition task_create :: "string \<Rightarrow> string \<Rightarrow> json \<Rightarrow> string \<Rightarrow> string \<Rightarrow> task io" where
  "task_create t ds due who cid = dbcall (\<lambda>d.
     let row = \<lparr>t_id = fresh_id d, t_title = t, t_description = ds, t_dueDate = due,
                t_assignedTo = who, t_contactId = cid\<rparr>
     in Inr (row, d\<lparr>tasks := tasks d @ [row], nextId := Suc (nextId d)\<rparr>))"


section \<open>The automation service (\<^verbatim>\<open>src/services/automationService.js\<close>)\<close>

subsection \<open>Numeric comparison of a deal value with a condition's value\<close>

text \<open>\<^verbatim>\<open>n <= v\<close> and \<^verbatim>\<open>n >= v\<close> for a number \<open>n\<close> and an arbitrary value \<open>v\<close>.\<close>

definition js_le :: "runtime \<Rightarrow> int \<Rightarrow> json \<Rightarrow> bool" where
  "js_le rt n v = rt_le rt n v"

definition js_ge :: "runtime \<Rightarrow> int \<Rightarrow> json \<Rightarrow> bool" where
  "js_ge rt n v = rt_ge rt n v"

text \<open>\<^verbatim>\<open>v.length\<close>\<close>

fun js_length :: "json \<Rightarrow> json" where
  "js_length (JArr xs) = JNum (int (length xs))"
| "js_length (JStr s) = JNum (int (length s))"
| "js_length (JObj kvs) = (case map_of kvs ''length'' of None \<Rightarrow> JUndefined | Some v \<Rightarrow> v)"
| "js_length v = JUndefined"

text \<open>\<^verbatim>\<open>for (const x of v)\<close>: an array gives its elements, a string its characters,
  anything else is not iterable.\<close>

fun js_iter :: "json \<Rightarrow> json list res" where
  "js_iter (JArr xs) = Inr xs"
| "js_iter (JStr s) = Inr (map (\<lambda>c. JStr [c]) s)"
| "js_iter v = Inl (TypeError ''workflow.conditions.conditions is not iterable'')"

subsection \<open>\<^verbatim>\<open>evaluateWorkflowConditions\<close>\<close>

text \<open>\<^verbatim>\<open>contact.deals[0]?.value || 0\<close>\<close>

definition first_deal_value :: "contact_loaded \<Rightarrow> int" where
  "first_deal_value c = (case cl_deals c of [] \<Rightarrow> 0 | dl # _ \<Rightarrow> d_value (dl_row dl))"

text \<open>\<^verbatim>\<open>contact.deals[0]?.stage?.name\<close>\<close>

definition first_deal_stage :: "contact_loaded \<Rightarrow> string option" where
  "first_deal_stage c =
     (case cl_deals c of [] \<Rightarrow> None | dl # _ \<Rightarrow> map_option s_name (dl_stage dl))"

text \<open>One turn of the loop over the conditions: \<open>False\<close> is the early \<^verbatim>\<open>return false\<close>.\<close>

definition condition_holds :: "runtime \<Rightarrow> contact_loaded \<Rightarrow> json \<Rightarrow> bool res" where
  "condition_holds rt contact condition =
     res_bind (js_get condition ''field'') (\<lambda>field.
     res_bind (js_get condition ''operator'') (\<lambda>operator.
     res_bind (js_get condition ''value'') (\<lambda>v.
       if field = JStr ''deal_value'' then
         (let dealValue = first_deal_value contact in
          if operator = JStr ''greater_than'' \<and> js_le rt dealValue v then Inr False
          else if operator = JStr ''less_than'' \<and> js_ge rt dealValue v then Inr False
          else Inr True)
       else if field = JStr ''deal_stage'' then
         (let dealStage = first_deal_stage contact in
          if operator = JStr ''equals'' \<and> v \<noteq> (case dealStage of None \<Rightarrow> JUndefined | Some n \<Rightarrow> JStr n)
          then Inr False
          else if operator = JStr ''contains'' \<and>
                  \<not> (case dealStage of None \<Rightarrow> False | Some n \<Rightarrow> str_includes n (js_toString rt v))
          then Inr False
          else Inr True)
       else Inr True)))"

fun conditions_loop :: "runtime \<Rightarrow> contact_loaded \<Rightarrow> json list \<Rightarrow> bool res" where
  "conditions_loop rt contact [] = Inr True"
| "conditions_loop rt contact (condition # rest) =
     res_bind (condition_holds rt contact condition) (\<lambda>ok.
       if ok then conditions_loop rt contact rest else Inr False)"

definition evaluateWorkflowConditions :: "runtime \<Rightarrow> workflow \<Rightarrow> contact_loaded \<Rightarrow> bool res" where
  "evaluateWorkflowConditions rt workflow contact =
     (if \<not> truthy (wf_conditions workflow) then Inr True
      else res_bind (js_get (wf_conditions workflow) ''conditions'') (\<lambda>cs.
        if \<not> truthy cs \<or> js_length cs = JNum 0 then Inr True
        else res_bind (js_iter cs) (conditions_loop rt contact)))"

subsection \<open>\<^verbatim>\<open>executeWorkflowActions\<close>\<close>

text \<open>An action is a row of the relation \<^verbatim>\<open>actions\<close>: an object, given by its fields.\<close>

definition fld :: "(string \<times> json) list \<Rightarrow> string \<Rightarrow> json" where
  "fld kvs k = (case map_of kvs k of None \<Rightarrow> JUndefined | Some v \<Rightarrow> v)"

definition js_or :: "json \<Rightarrow> json \<Rightarrow> json" where
  "js_or a b = (if truthy a then a else b)"

text \<open>The body of the \<^verbatim>\<open>switch (action.type)\<close>; it returns the entry pushed on
  \<^verbatim>\<open>results\<close>, if any.\<close>

definition run_action :: "runtime \<Rightarrow> contact_loaded \<Rightarrow> (string \<times> json) list \<Rightarrow> json option io" where
  "run_action rt contact action =
     (if fld action ''type'' = JStr ''send_email'' then
        io_ret (Some (JObj [(''actionType'', JStr ''send_email''), (''status'', JStr ''simulated'')]))
      else if fld action ''type'' = JStr ''create_task'' then
        io_bind (io_lift (req_str (js_or (fld action ''title'')
                   (JStr (''Task for '' @ js_toString rt (of_opt (c_firstName (cl_row contact))) @ '' '' @
                          js_toString rt (of_opt (c_lastName (cl_row contact)))))))) (\<lambda>title.
        io_bind (io_lift (req_str (js_or (fld action ''description'') (JStr [])))) (\<lambda>description.
        io_bind (task_create title description
                   (if truthy (fld action ''dueDate'') then fld action ''dueDate'' else JNull)
                   (c_userId (cl_row contact)) (c_id (cl_row contact))) (\<lambda>task.
        io_ret (Some (JObj [(''actionType'', JStr ''create_task''), (''status'', JStr ''success''),
                            (''taskId'', JStr (t_id task))])))))
      else if fld action ''type'' = JStr ''add_tag'' then
        io_ret (Some (JObj [(''actionType'', JStr ''add_tag''), (''status'', JStr ''simulated''),
                            (''tag'', fld action ''tag'')]))
      else if fld action ''type'' = JStr ''move_deal_stage'' then
        (case cl_deals contact of
           [] \<Rightarrow> io_ret None
         | deal # _ \<Rightarrow>
             io_bind (io_lift (case fld action ''targetStage'' of
                                 JUndefined \<Rightarrow> Inr None
                               | v \<Rightarrow> res_bind (req_str v) (\<lambda>s. Inr (Some s)))) (\<lambda>nm.
             io_bind (pipelineStage_findFirst nm (d_pipelineId (dl_row deal))) (\<lambda>targetStage.
               case targetStage of
                 Some ts \<Rightarrow>
                   io_bind (deal_update (d_id (dl_row deal)) (\<lambda>r. r\<lparr>d_stageId := s_id ts\<rparr>)) (\<lambda>_.
                   case dl_stage deal of
                     None \<Rightarrow> io_throw (TypeError
                       (''Cannot read properties of undefined (reading '' @ sq @ ''name'' @ sq @ '')''))
                   | Some st \<Rightarrow>
                       io_ret (Some (JObj [(''actionType'', JStr ''move_deal_stage''),
                                           (''status'', JStr ''success''),
                                           (''fromStage'', JStr (s_name st)),
                                           (''toStage'', JStr (s_name ts))])))
               | None \<Rightarrow>
                   io_ret (Some (JObj [(''actionType'', JStr ''move_deal_stage''),
                                       (''status'', JStr ''failed''),
                                       (''error'', JStr ''Target stage not found'')])))))
      else
        io_ret (Some (JObj [(''actionType'', fld action ''type''), (''status'', JStr ''unknown'')])))"

text \<open>The loop: each action runs in its own \<^verbatim>\<open>try\<close>, whose \<^verbatim>\<open>catch\<close> pushes a failed entry.\<close>

fun actions_loop ::
  "runtime \<Rightarrow> contact_loaded \<Rightarrow> (string \<times> json) list list \<Rightarrow> json list \<Rightarrow> json list io" where
  "actions_loop rt contact [] results = io_ret results"
| "actions_loop rt contact (action # rest) results =
     io_bind
       (io_catch
          (io_bind (run_action rt contact action) (\<lambda>r.
             io_ret (case r of None \<Rightarrow> results | Some entry \<Rightarrow> results @ [entry])))
          (\<lambda>error. io_ret (results @ [JObj [(''actionType'', fld action ''type''),
                                            (''status'', JStr ''failed''),
                                            (''error'', JStr (message error))]])))
       (\<lambda>results'. actions_loop rt contact rest results')"


definition executeWorkflowActions :: "runtime \<Rightarrow> workflow \<Rightarrow> contact_loaded \<Rightarrow> json io" where
  "executeWorkflowActions rt workflow contact =
     io_bind (actions_loop rt contact (wf_actions workflow) []) (\<lambda>results.
       io_ret (JObj [(''results'', JArr results)]))"

subsection \<open>\<^verbatim>\<open>triggerWorkflow\<close>\<close>

record trigger_result =
  tr_success :: bool
  tr_message :: string

text \<open>The body of the \<^verbatim>\<open>for\<close> loop: the inner \<^verbatim>\<open>try\<close> and its \<^verbatim>\<open>catch\<close>, which writes the
  \<^verbatim>\<open>workflow_failed\<close> activity.\<close>

definition workflow_try :: "runtime \<Rightarrow> string \<Rightarrow> contact_loaded \<Rightarrow> workflow \<Rightarrow> unit io" where
  "workflow_try rt eventName contact workflow =
     io_bind (io_lift (evaluateWorkflowConditions rt workflow contact)) (\<lambda>conditionsMet.
       if conditionsMet then
         io_bind (executeWorkflowActions rt workflow contact) (\<lambda>executionResult.
         io_bind (activity_create ''workflow_executed''
                    (''Workflow '' @ sq @ wf_name workflow @ sq @
                     '' executed successfully for event '' @ sq @ eventName @ sq)
                    (JObj [(''workflowId'', JStr (wf_id workflow)), (''eventName'', JStr eventName),
                           (''executionResult'', executionResult)])
                    (Some (c_id (cl_row contact))) None (c_userId (cl_row contact))) (\<lambda>_.
         io_ret ()))
       else io_ret ())"

definition workflow_failed :: "string \<Rightarrow> contact_loaded \<Rightarrow> workflow \<Rightarrow> error \<Rightarrow> unit io" where
  "workflow_failed eventName contact workflow error =
     io_bind (activity_create ''workflow_failed''
                (''Workflow '' @ sq @ wf_name workflow @ sq @ '' failed to execute for event '' @
                 sq @ eventName @ sq @ '': '' @ message error)
                (JObj [(''workflowId'', JStr (wf_id workflow)), (''eventName'', JStr eventName),
                       (''error'', JStr (message error))])
                (Some (c_id (cl_row contact))) None (c_userId (cl_row contact))) (\<lambda>_.
     io_ret ())"

fun workflows_loop :: "runtime \<Rightarrow> string \<Rightarrow> contact_loaded \<Rightarrow> workflow list \<Rightarrow> unit io" where
  "workflows_loop rt eventName contact [] = io_ret ()"
| "workflows_loop rt eventName contact (workflow # rest) =
     io_bind
       (io_catch (workflow_try rt eventName contact workflow)
                 (workflow_failed eventName contact workflow))
       (\<lambda>_. workflows_loop rt eventName contact rest)"

definition triggerWorkflow :: "runtime \<Rightarrow> string \<Rightarrow> string \<Rightarrow> trigger_result io" where
  "triggerWorkflow rt eventName contactId =
     io_catch
       (io_bind (contact_findUnique_id contactId) (\<lambda>found.
          case found of
            None \<Rightarrow> io_ret \<lparr>tr_success = False, tr_message = ''Contact not found''\<rparr>
          | Some contact \<Rightarrow>
              io_bind (workflow_findMany eventName) (\<lambda>workflows.
              io_bind (workflows_loop rt eventName contact workflows) (\<lambda>_.
              io_ret \<lparr>tr_success = True,
                      tr_message = ''Processed '' @ rt_numToString rt (int (length workflows)) @
                                   '' workflows for event '' @ sq @ eventName @ sq\<rparr>))))
       (\<lambda>error. io_ret \<lparr>tr_success = False, tr_message = message error\<rparr>)"


section \<open>Requests and responses\<close>

text \<open>A request carries the header \<^verbatim>\<open>x-webhook-secret\<close> (absent or a string) and the parsed
  body. \<^verbatim>\<open>res.status(n).json(o)\<close> sends the fields of \<open>o\<close> that are not \<^verbatim>\<open>undefined\<close>.\<close>

record request =
  rq_secret :: "string option"
  rq_body :: json

record response =
  r_status :: nat
  r_body :: "(string \<times> json) list"

definition res_json :: "nat \<Rightarrow> (string \<times> json) list \<Rightarrow> response" where
  "res_json code kvs = \<lparr>r_status = code, r_body = filter (\<lambda>kv. snd kv \<noteq> JUndefined) kvs\<rparr>"

text \<open>User resolution, the same statements in both controllers:
  \<^verbatim>\<open>if (payload.userId) user = findUnique(...); if (!user) user = findFirst(...)\<close>.\<close>

definition find_user :: "json \<Rightarrow> user option io" where
  "find_user payload =
     io_bind (io_lift (js_get payload ''userId'')) (\<lambda>userId.
     io_bind (if truthy userId
              then io_bind (io_lift (req_str userId)) user_findUnique
              else io_ret None) (\<lambda>user.
     if user = None then user_findFirst else io_ret user))"

section \<open>The permissive controller (first variant of \<^verbatim>\<open>iclosedWebhookController.js\<close>)\<close>

text \<open>\<^verbatim>\<open>generateIdempotencyKey\<close>: SHA-256 and \<^verbatim>\<open>JSON.stringify\<close> are parameters; \<open>now\<close> is
  the ISO timestamp of the clock, of which the first ten characters are the day.\<close>

definition generateIdempotencyKey ::
  "(string \<Rightarrow> string) \<Rightarrow> (json \<Rightarrow> string) \<Rightarrow> json \<Rightarrow> string \<Rightarrow> string" where
  "generateIdempotencyKey sha256 stringify payload now = sha256 (stringify payload @ take 10 now)"

definition isWebhookProcessed :: "string \<Rightarrow> bool io" where
  "isWebhookProcessed idempotencyKey =
     io_catch
       (io_bind (webhookLog_findUnique idempotencyKey) (\<lambda>existingLog.
          io_ret (existingLog \<noteq> None)))
       (\<lambda>error. io_ret False)"

definition logProcessedWebhook :: "string \<Rightarrow> json \<Rightarrow> string \<Rightarrow> string \<Rightarrow> unit io" where
  "logProcessedWebhook idempotencyKey payload status now =
     io_catch
       (io_bind (webhookLog_create
                   \<lparr>l_key = idempotencyKey, l_endpoint = ''/api/v1/webhooks/iclosed'',
                    l_payload = payload, l_status = (if status = ''success'' then 200 else 500),
                    l_processedAt = now\<rparr>) (\<lambda>_. io_ret ()))
       (\<lambda>error. io_ret ())"

definition received :: response where
  "received = res_json 200 [(''status'', JStr ''success''), (''message'', JStr ''Webhook received'')]"

text \<open>Lines 95-118: the user, or the response of the early \<^verbatim>\<open>return\<close>.\<close>

definition permissive_user :: "json \<Rightarrow> (response + user) io" where
  "permissive_user payload =
     io_catch
       (io_bind (find_user payload) (\<lambda>user.
          case user of None \<Rightarrow> io_ret (Inl received) | Some u \<Rightarrow> io_ret (Inr u)))
       (\<lambda>error. io_ret (Inl received))"

text \<open>Lines 120-171: the contact upsert, inside its own \<^verbatim>\<open>try\<close>.\<close>

definition permissive_contact :: "runtime \<Rightarrow> json \<Rightarrow> json \<Rightarrow> json \<Rightarrow> user \<Rightarrow> unit io" where
  "permissive_contact rt email name phone user =
     (case email of
        JStr e \<Rightarrow>
          if e \<noteq> [] \<and> CHR ''@'' \<in> set e then
            io_catch
              (case parseName rt name of (firstName, lastName) \<Rightarrow>
                 io_bind (contact_findUnique_email e) (\<lambda>existingContact.
                   case existingContact of
                     Some ex \<Rightarrow>
                       io_bind (io_lift (opt_str (js_or phone (of_opt (c_phone ex))))) (\<lambda>ph.
                       io_bind (contact_update (c_id ex)
                                  (\<lambda>r. r\<lparr>c_firstName := or_opt firstName (c_firstName ex),
                                         c_lastName := or_opt lastName (c_lastName ex),
                                         c_phone := ph,
                                         c_userId := u_id user\<rparr>)) (\<lambda>_. io_ret ()))
                   | None \<Rightarrow>
                       io_bind (io_lift (opt_str phone)) (\<lambda>ph.
                       io_bind (contact_create firstName lastName e ph (u_id user)) (\<lambda>_.
                       io_ret ()))))
              (\<lambda>error. io_ret ())
          else io_ret ()
      | _ \<Rightarrow> io_ret ())"

text \<open>Lines 187-225: the contact of the deal.\<close>

definition permissive_dealContact :: "runtime \<Rightarrow> json \<Rightarrow> json \<Rightarrow> json \<Rightarrow> user \<Rightarrow> contact option io" where
  "permissive_dealContact rt dealData dealContactEmail email user =
     (if truthy dealContactEmail then
        io_bind (io_lift (req_str dealContactEmail)) (\<lambda>e.
        io_bind (contact_findUnique_email e) (\<lambda>dealContact.
          if dealContact = None \<and> dealContactEmail \<noteq> email then
            io_bind (io_lift (or_fields dealData [''contactName'', ''contact_name'']
                                (js_get dealData ''ContactName''))) (\<lambda>contactName.
            case parseName rt contactName of (firstName, lastName) \<Rightarrow>
              io_bind (io_lift (or_fields dealData [''contactPhone'', ''contact_phone'']
                                  (js_get dealData ''ContactPhone''))) (\<lambda>contactPhone.
              io_bind (io_lift (opt_str contactPhone)) (\<lambda>ph.
              io_bind (contact_create firstName lastName e ph (u_id user)) (\<lambda>c.
              io_ret (Some c)))))
          else io_ret dealContact))
      else io_ret None)"

text \<open>Lines 227-261: the user's first pipeline with its stages, created when there is none.\<close>

definition permissive_pipeline :: "user \<Rightarrow> (pipeline \<times> stage list) io" where
  "permissive_pipeline user =
     io_bind (pipeline_findFirst (u_id user)) (\<lambda>found.
       case found of
         Some p \<Rightarrow> io_ret p
       | None \<Rightarrow>
           io_bind (pipeline_create ''Default Pipeline'' (u_id user)) (\<lambda>defaultPipeline.
           io_bind (pipelineStage_createMany (p_id defaultPipeline)
                      [(''Lead'', 1), (''Qualified'', 2), (''Proposal'', 3), (''Negotiation'', 4),
                       (''Closed Won'', 5), (''Closed Lost'', 6)]) (\<lambda>_.
           io_bind (pipeline_findUnique (p_id defaultPipeline)) (\<lambda>again.
             case again of
               None \<Rightarrow> io_throw (TypeError
                 (''Cannot read properties of null (reading '' @ sq @ ''stages'' @ sq @ '')''))
             | Some p \<Rightarrow> io_ret p))))"

text \<open>\<^verbatim>\<open>stages.find(stage => stage.name.toLowerCase().includes(s.toLowerCase()) ||
  stage.name.toLowerCase() === s.toLowerCase())\<close>: the callback runs on each stage in turn
  and throws when \<open>s\<close> has no \<^verbatim>\<open>toLowerCase\<close>. The secured controller writes the two
  disjuncts in the other order.\<close>

fun find_stage_by_name :: "runtime \<Rightarrow> string \<Rightarrow> stage list \<Rightarrow> json \<Rightarrow> stage option res" where
  "find_stage_by_name rt recv [] s = Inr None"
| "find_stage_by_name rt recv (stage # rest) s =
     res_bind (js_toLowerCase rt recv s) (\<lambda>t.
       if str_includes (rt_toLowerCase rt (s_name stage)) t \<or> rt_toLowerCase rt (s_name stage) = t
       then Inr (Some stage)
       else find_stage_by_name rt recv rest s)"

text \<open>Lines 263-283: the stage of the deal.\<close>

definition permissive_targetStage :: "runtime \<Rightarrow> json \<Rightarrow> json \<Rightarrow> json \<Rightarrow> stage list \<Rightarrow> stage option res" where
  "permissive_targetStage rt event new_status dealStageId stgs =
     res_bind (if event = JStr ''lead_status_changed'' \<and> truthy new_status
               then find_stage_by_name rt ''dealData.new_status'' stgs new_status
               else Inr None) (\<lambda>byName.
     let byId = (if byName = None \<and> truthy dealStageId
                 then find (\<lambda>stage. JStr (s_id stage) = dealStageId) stgs
                 else byName)
     in Inr (if byId = None then (case stgs of [] \<Rightarrow> None | first # _ \<Rightarrow> Some first) else byId))"

text \<open>\<^verbatim>\<open>targetStage.id\<close>\<close>

definition stage_id :: "stage option \<Rightarrow> string res" where
  "stage_id targetStage =
     (case targetStage of
        None \<Rightarrow> Inl (TypeError (''Cannot read properties of undefined (reading '' @ sq @ ''id'' @ sq @ '')''))
      | Some st \<Rightarrow> Inr (s_id st))"

text \<open>Lines 307-310: after the update of an existing deal.\<close>

definition permissive_afterUpdate :: "runtime \<Rightarrow> contact option \<Rightarrow> unit io" where
  "permissive_afterUpdate rt dealContact =
     (case dealContact of
        Some c \<Rightarrow> io_bind (triggerWorkflow rt ''pipeline_stage_changed'' (c_id c)) (\<lambda>_. io_ret ())
      | None \<Rightarrow> io_ret ())"

text \<open>Lines 325-347: after the creation of a deal.\<close>

definition permissive_afterCreate :: "runtime \<Rightarrow> json \<Rightarrow> string \<Rightarrow> contact option \<Rightarrow> user \<Rightarrow> unit io" where
  "permissive_afterCreate rt payload title dealContact user =
     io_bind (io_lift (js_get payload ''event'')) (\<lambda>event.
     io_bind (case dealContact of
                Some c \<Rightarrow>
                  if event = JStr ''call_booked'' then
                    io_bind (io_lift (or_else (js_get payload ''booking_details'')
                                        (Inr (JStr ''Details from iClosed payload'')))) (\<lambda>details.
                    io_bind (activity_create ''APPOINTMENT_BOOKED''
                               (''Appointment booked for '' @ title)
                               (JObj [(''source'', JStr ''iClosed via Zapier''),
                                      (''deal_name'', JStr title),
                                      (''booking_details'', details)])
                               (Some (c_id c)) None (u_id user)) (\<lambda>_. io_ret ()))
                  else io_ret ()
              | None \<Rightarrow> io_ret ()) (\<lambda>_.
     case dealContact of
       Some c \<Rightarrow> io_bind (triggerWorkflow rt ''deal_created'' (c_id c)) (\<lambda>_. io_ret ())
     | None \<Rightarrow> io_ret ()))"

text \<open>Lines 285-323: find the deal by title, pipeline and user; update it or create it. The
  created row is given no \<^verbatim>\<open>data\<close>.\<close>

definition permissive_upsertDeal ::
  "runtime \<Rightarrow> json \<Rightarrow> json \<Rightarrow> json \<Rightarrow> stage option \<Rightarrow> pipeline \<Rightarrow> contact option \<Rightarrow> user \<Rightarrow> json \<Rightarrow> unit io" where
  "permissive_upsertDeal rt payload dealTitle dealValue targetStage pipeline dealContact user email =
     io_bind (io_lift (req_str dealTitle)) (\<lambda>title.
     io_bind (deal_findFirst_title title (p_id pipeline) (u_id user)) (\<lambda>existingDeal.
       case existingDeal of
         Some ex \<Rightarrow>
           io_bind (io_lift (stage_id targetStage)) (\<lambda>sid.
           io_bind (io_lift (req_num dealValue)) (\<lambda>v.
           io_bind (deal_update (d_id ex)
                      (\<lambda>r. r\<lparr>d_value := v, d_stageId := sid,
                             d_contactId := map_option c_id dealContact,
                             d_userId := u_id user\<rparr>)) (\<lambda>_.
           permissive_afterUpdate rt dealContact)))
       | None \<Rightarrow>
           io_bind (io_lift (stage_id targetStage)) (\<lambda>sid.
           io_bind (io_lift (req_num dealValue)) (\<lambda>v.
           io_bind (deal_create title v sid (p_id pipeline) (map_option c_id dealContact)
                      (u_id user) JNull) (\<lambda>newDeal.
           permissive_afterCreate rt payload title dealContact user)))))"


text \<open>Lines 173-351: the deal, inside its own \<^verbatim>\<open>try\<close>. The result is the response of the
  early \<^verbatim>\<open>return\<close> for a deal without title, if it is taken. The initialiser of
  \<^verbatim>\<open>dealValue\<close> reads \<^verbatim>\<open>dealValue.amount\<close> as its second operand: the constant is still
  in its temporal dead zone there, so evaluating that operand throws a ReferenceError.\<close>

definition permissive_dealTitle :: "json \<Rightarrow> json res" where
  "permissive_dealTitle dealData =
     or_fields dealData [''title'', ''name'', ''Title''] (js_get dealData ''Name'')"

definition permissive_dealValue :: "json \<Rightarrow> json res" where
  "permissive_dealValue dealData =
     or_else (js_get dealData ''value'')
    (or_else (Inl (ReferenceError
                (''Cannot access '' @ sq @ ''dealValue'' @ sq @ '' before initialization'')))
    (or_fields dealData [''Value'', ''Amount''] (Inr (JNum 0))))"

definition permissive_deal :: "runtime \<Rightarrow> json \<Rightarrow> json \<Rightarrow> user \<Rightarrow> response option io" where
  "permissive_deal rt payload email user =
     io_bind (io_lift (js_get payload ''deal'')) (\<lambda>dealData.
       if truthy dealData then
         io_catch
           (io_bind (io_lift (permissive_dealTitle dealData)) (\<lambda>dealTitle.
            io_bind (io_lift (permissive_dealValue dealData)) (\<lambda>dealValue.
            io_bind (io_lift (or_fields dealData [''stageId'', ''pipeline_stage_id'', ''StageId'']
                                (js_get dealData ''Pipeline_Stage_Id''))) (\<lambda>dealStageId.
            io_bind (io_lift (or_fields dealData [''contactEmail'', ''contact_email'', ''ContactEmail'']
                                (Inr email))) (\<lambda>dealContactEmail.
            if \<not> truthy dealTitle then io_ret (Some received)
            else
              io_bind (permissive_dealContact rt dealData dealContactEmail email user) (\<lambda>dealContact.
              io_bind (permissive_pipeline user) (\<lambda>pl.
              io_bind (io_lift (js_get payload ''event'')) (\<lambda>event.
              io_bind (io_lift (js_get dealData ''new_status'')) (\<lambda>new_status.
              io_bind (io_lift (permissive_targetStage rt event new_status dealStageId (snd pl))) (\<lambda>targetStage.
              io_bind (permissive_upsertDeal rt payload dealTitle dealValue targetStage (fst pl)
                         dealContact user email) (\<lambda>_.
              io_ret None)))))))))))
           (\<lambda>error. io_ret None)
       else io_ret None)"

text \<open>\<^verbatim>\<open>payload.contact?.k\<close>\<close>

definition contact_field :: "json \<Rightarrow> string \<Rightarrow> json res" where
  "contact_field payload k = res_bind (js_get payload ''contact'') (\<lambda>c. js_optget c k)"

text \<open>Lines 90-92: the contact's email, name and phone.\<close>

definition permissive_email :: "json \<Rightarrow> json res" where
  "permissive_email payload =
     or_else (contact_field payload ''email'') (or_fields payload [''email''] (js_get payload ''Email''))"

definition permissive_name :: "json \<Rightarrow> json res" where
  "permissive_name payload =
     or_else (contact_field payload ''name'')
       (or_fields payload [''name'', ''Name'', ''full_name''] (js_get payload ''Full_Name''))"

definition permissive_phone :: "json \<Rightarrow> json res" where
  "permissive_phone payload =
     or_else (contact_field payload ''phone'')
       (or_fields payload [''phone'', ''Phone'', ''phone_number''] (js_get payload ''Phone_Number''))"

definition received_with_key :: "string \<Rightarrow> response" where
  "received_with_key idempotencyKey =
     res_json 200 [(''status'', JStr ''success''), (''message'', JStr ''Webhook received''),
                   (''idempotencyKey'', JStr idempotencyKey)]"

text \<open>Everything after the duplicate check (lines 89-357).\<close>

definition permissive_process :: "runtime \<Rightarrow> string \<Rightarrow> json \<Rightarrow> string \<Rightarrow> response io" where
  "permissive_process rt idempotencyKey payload now =
     io_bind (io_lift (permissive_email payload)) (\<lambda>email.
     io_bind (io_lift (permissive_name payload)) (\<lambda>name.
     io_bind (io_lift (permissive_phone payload)) (\<lambda>phone.
     io_bind (permissive_user payload) (\<lambda>found.
       case found of
         Inl resp \<Rightarrow> io_ret resp
       | Inr user \<Rightarrow>
           io_bind (permissive_contact rt email name phone user) (\<lambda>_.
           io_bind (permissive_deal rt payload email user) (\<lambda>early.
             case early of
               Some resp \<Rightarrow> io_ret resp
             | None \<Rightarrow>
                 io_bind (logProcessedWebhook idempotencyKey payload ''success'' now) (\<lambda>_.
                 io_ret (received_with_key idempotencyKey))))))))"

text \<open>\<^verbatim>\<open>handleIncomingWebhook\<close>, permissive variant. A result \<open>Inl e\<close> means that the handler
  itself threw and sent no response. Its outer \<^verbatim>\<open>catch\<close> calls
  \<^verbatim>\<open>logProcessedWebhook(idempotencyKey, payload, 'failed')\<close>, but both constants are declared
  inside the \<^verbatim>\<open>try\<close> block and are not in scope there: evaluating the first argument
  throws a ReferenceError.\<close>

definition permissive_payload :: "json \<Rightarrow> json res" where
  "permissive_payload body = or_fields body [''data'', ''payload''] (Inr body)"

definition duplicate_webhook :: "string \<Rightarrow> response" where
  "duplicate_webhook idempotencyKey =
     res_json 200 [(''status'', JStr ''success''),
                   (''message'', JStr ''Duplicate webhook - already processed''),
                   (''idempotencyKey'', JStr idempotencyKey)]"

definition handleIncomingWebhook_permissive ::
  "runtime \<Rightarrow> (string \<Rightarrow> string) \<Rightarrow> (json \<Rightarrow> string) \<Rightarrow> string \<Rightarrow> request \<Rightarrow> response io" where
  "handleIncomingWebhook_permissive rt sha256 stringify now req =
     io_catch
       (io_bind (io_lift (permissive_payload (rq_body req))) (\<lambda>payload.
        io_bind (isWebhookProcessed (generateIdempotencyKey sha256 stringify payload now)) (\<lambda>alreadyProcessed.
          if alreadyProcessed
          then io_ret (duplicate_webhook (generateIdempotencyKey sha256 stringify payload now))
          else permissive_process rt (generateIdempotencyKey sha256 stringify payload now) payload now)))
       (\<lambda>error. io_throw (ReferenceError ''idempotencyKey is not defined''))"

section \<open>The secured controller (second variant of \<^verbatim>\<open>iclosedWebhookController.js\<close>)\<close>

definition upsertContact ::
  "json \<Rightarrow> string option \<Rightarrow> string option \<Rightarrow> json \<Rightarrow> string \<Rightarrow> contact io" where
  "upsertContact email firstName lastName phone userId =
     io_catch
       (if \<not> truthy email then io_throw (Error ''Email is required for contact operations'')
        else
          io_bind (io_lift (req_str email)) (\<lambda>e.
          io_bind (contact_findUnique_email e) (\<lambda>existingContact.
            case existingContact of
              Some ex \<Rightarrow>
                io_bind (io_lift (opt_str (js_or phone (of_opt (c_phone ex))))) (\<lambda>ph.
                contact_update (c_id ex)
                  (\<lambda>r. r\<lparr>c_firstName := or_opt firstName (c_firstName ex),
                         c_lastName := or_opt lastName (c_lastName ex),
                         c_phone := ph,
                         c_userId := userId\<rparr>))
            | None \<Rightarrow>
                io_bind (io_lift (opt_str phone)) (\<lambda>ph.
                contact_create firstName lastName e ph userId))))
       (\<lambda>error. io_throw error)"

definition createDeal ::
  "json \<Rightarrow> json \<Rightarrow> json \<Rightarrow> json \<Rightarrow> string option \<Rightarrow> string \<Rightarrow> json \<Rightarrow> deal io" where
  "createDeal title v stageId pipelineId contactId userId source =
     io_catch
       (io_bind (if \<not> truthy pipelineId then
                   io_bind (pipeline_findFirst userId) (\<lambda>pipeline.
                     case pipeline of
                       None \<Rightarrow>
                         io_bind (pipeline_create ''Default Pipeline'' userId) (\<lambda>defaultPipeline.
                         io_bind (pipelineStage_createMany (p_id defaultPipeline)
                                    [(''New'', 1), (''Qualified'', 2), (''Proposal'', 3),
                                     (''Negotiation'', 4), (''Closed Won'', 5), (''Closed Lost'', 6)]) (\<lambda>_.
                         io_ret (JStr (p_id defaultPipeline))))
                     | Some p \<Rightarrow> io_ret (JStr (p_id (fst p))))
                 else io_ret pipelineId) (\<lambda>targetPipelineId.
        io_bind (if \<not> truthy stageId then
                   io_bind (io_lift (req_str targetPipelineId)) (\<lambda>pid.
                   io_bind (pipeline_findUnique pid) (\<lambda>pipeline.
                     case pipeline of
                       None \<Rightarrow> io_ret stageId
                     | Some p \<Rightarrow>
                         (case snd p of [] \<Rightarrow> io_ret stageId | first # _ \<Rightarrow> io_ret (JStr (s_id first)))))
                 else io_ret stageId) (\<lambda>targetStageId.
        io_bind (io_lift (req_str title)) (\<lambda>t.
        io_bind (io_lift (req_num (js_or v (JNum 0)))) (\<lambda>n.
        io_bind (io_lift (req_str targetStageId)) (\<lambda>sid.
        io_bind (io_lift (req_str targetPipelineId)) (\<lambda>pid.
        deal_create t n sid pid contactId userId
          (JObj [(''source'', js_or source (JStr ''iClosed''))]))))))))
       (\<lambda>error. io_throw error)"

definition updateDealStage :: "json \<Rightarrow> string \<Rightarrow> deal io" where
  "updateDealStage dealId stageId =
     io_catch
       (io_bind (io_lift (req_str dealId)) (\<lambda>i.
        deal_update i (\<lambda>r. r\<lparr>d_stageId := stageId\<rparr>)))
       (\<lambda>error. io_throw error)"

definition logActivity ::
  "string \<Rightarrow> string \<Rightarrow> string option \<Rightarrow> string option \<Rightarrow> string \<Rightarrow> json \<Rightarrow> activity io" where
  "logActivity ty note contactId dealId userId dat =
     io_catch (activity_create ty note dat contactId dealId userId) (\<lambda>error. io_throw error)"

definition isProcessed :: "json \<Rightarrow> bool io" where
  "isProcessed eventId =
     io_catch
       (if \<not> truthy eventId then io_ret False
        else
          io_bind (io_lift (req_str eventId)) (\<lambda>k.
          io_bind (webhookLog_findUnique k) (\<lambda>existingLog.
          io_ret (existingLog \<noteq> None))))
       (\<lambda>error. io_ret False)"

definition markProcessed :: "json \<Rightarrow> json \<Rightarrow> string \<Rightarrow> webhookLog io" where
  "markProcessed eventId payload now =
     io_catch
       (io_bind (io_lift (req_str eventId)) (\<lambda>k.
        webhookLog_create \<lparr>l_key = k, l_endpoint = ''/api/v1/webhooks/iclosed'',
                           l_payload = payload, l_status = 200, l_processedAt = now\<rparr>))
       (\<lambda>error. io_throw error)"


text \<open>\<^verbatim>\<open>payload.data?.k\<close>\<close>

definition data_field :: "json \<Rightarrow> string \<Rightarrow> json res" where
  "data_field payload k = res_bind (js_get payload ''data'') (\<lambda>d. js_optget d k)"

text \<open>\<^verbatim>\<open>payload.contact || payload.data?.contact || {}\<close> and the fields read from it
  (lines 711-714); \<^verbatim>\<open>payload.deal || payload.data?.deal || {}\<close> (lines 745 and 793).\<close>

definition secured_contactData :: "json \<Rightarrow> json res" where
  "secured_contactData payload =
     or_else (js_get payload ''contact'') (or_else (data_field payload ''contact'') (Inr (JObj [])))"

definition secured_email :: "json \<Rightarrow> json res" where
  "secured_email payload =
     res_bind (secured_contactData payload) (\<lambda>contactData.
       or_else (js_get contactData ''email'') (js_get payload ''email''))"

definition secured_name :: "json \<Rightarrow> json res" where
  "secured_name payload =
     res_bind (secured_contactData payload) (\<lambda>contactData.
       or_else (js_get contactData ''name'') (js_get contactData ''full_name''))"

definition secured_phone :: "json \<Rightarrow> json res" where
  "secured_phone payload =
     res_bind (secured_contactData payload) (\<lambda>contactData.
       or_else (js_get contactData ''phone'') (js_get contactData ''phone_number''))"

definition secured_dealData :: "json \<Rightarrow> json res" where
  "secured_dealData payload =
     or_else (js_get payload ''deal'') (or_else (data_field payload ''deal'') (Inr (JObj [])))"

definition handleAppointmentBooked :: "runtime \<Rightarrow> json \<Rightarrow> user \<Rightarrow> string \<Rightarrow> unit io" where
  "handleAppointmentBooked rt payload user now =
     io_catch
       (io_bind (io_lift (secured_email payload)) (\<lambda>email.
        io_bind (io_lift (secured_name payload)) (\<lambda>name.
        io_bind (io_lift (secured_phone payload)) (\<lambda>phone.
        case parseName rt name of (firstName, lastName) \<Rightarrow>
        io_bind (upsertContact email firstName lastName phone (u_id user)) (\<lambda>contact.
        io_bind (io_lift (secured_dealData payload)) (\<lambda>dealData.
        io_bind (io_lift (or_fields dealData [''title'', ''name'']
                            (Inr (JStr (''Appointment with '' @ js_toString rt name))))) (\<lambda>dealTitle.
        io_bind (io_lift (or_fields dealData [''value'', ''amount''] (Inr (JNum 0)))) (\<lambda>dealValue.
        io_bind (createDeal dealTitle dealValue JUndefined JUndefined (Some (c_id contact))
                   (u_id user) (JStr ''iClosed'')) (\<lambda>deal.
        io_bind (io_lift (or_else (js_get payload ''appointment_time'')
                           (or_else (data_field payload ''appointment_time'') (Inr (JStr now))))) (\<lambda>appointmentTime.
        io_bind (io_lift (or_else (js_get payload ''booking_details'')
                           (or_else (data_field payload ''booking_details'') (Inr (JObj []))))) (\<lambda>bookingDetails.
        io_bind (logActivity ''APPOINTMENT_BOOKED''
                   (''Appointment booked for '' @ js_toString rt appointmentTime)
                   (Some (c_id contact)) (Some (d_id deal)) (u_id user)
                   (JObj [(''source'', JStr ''iClosed''), (''appointmentTime'', appointmentTime),
                          (''dealName'', dealTitle), (''bookingDetails'', bookingDetails)])) (\<lambda>_.
        io_ret ()))))))))))))
       (\<lambda>error. io_throw error)"

text \<open>\<^verbatim>\<open>deal.stage.name\<close> on a loaded deal.\<close>

definition loaded_stage_name :: "deal_loaded \<Rightarrow> string res" where
  "loaded_stage_name deal =
     (case dl_stage deal of
        None \<Rightarrow> Inl (TypeError (''Cannot read properties of undefined (reading '' @ sq @ ''name'' @ sq @ '')''))
      | Some st \<Rightarrow> Inr (s_name st))"

text \<open>\<^verbatim>\<open>deal.pipeline.stages\<close> on a loaded deal.\<close>

definition loaded_pipeline_stages :: "deal_loaded \<Rightarrow> stage list res" where
  "loaded_pipeline_stages deal =
     (case dl_pipeline deal of
        None \<Rightarrow> Inl (TypeError (''Cannot read properties of null (reading '' @ sq @ ''stages'' @ sq @ '')''))
      | Some p \<Rightarrow> Inr (dl_pipeline_stages deal))"

text \<open>\<^verbatim>\<open>handleStatusChanged\<close>, lines 792-828: the deal named by the payload and the stage
  its new status names. There is no fallback here: no deal identifier, no deal and no
  matching stage each throw.\<close>

record status_target =
  st_dealId :: json
  st_newStatus :: json
  st_deal :: deal_loaded
  st_stage :: stage

text \<open>\<^verbatim>\<open>dealData.id || dealData.deal_id\<close> and \<^verbatim>\<open>dealData.new_status || payload.new_status\<close>\<close>

definition status_dealId :: "json \<Rightarrow> json res" where
  "status_dealId payload =
     res_bind (secured_dealData payload) (\<lambda>dealData.
       or_else (js_get dealData ''id'') (js_get dealData ''deal_id''))"

definition status_newStatus :: "json \<Rightarrow> json res" where
  "status_newStatus payload =
     res_bind (secured_dealData payload) (\<lambda>dealData.
       or_else (js_get dealData ''new_status'') (js_get payload ''new_status''))"

definition statusChanged_target :: "runtime \<Rightarrow> json \<Rightarrow> user \<Rightarrow> status_target io" where
  "statusChanged_target rt payload user =
     io_bind (io_lift (status_dealId payload)) (\<lambda>dealId.
     io_bind (io_lift (status_newStatus payload)) (\<lambda>newStatus.
     if \<not> truthy dealId then io_throw (Error ''Deal ID is required for status_changed event'')
     else
       io_bind (io_lift (req_str dealId)) (\<lambda>i.
       io_bind (deal_findFirst_id i (u_id user)) (\<lambda>found.
         case found of
           None \<Rightarrow> io_throw (Error (''Deal with ID '' @ js_toString rt dealId @ '' not found''))
         | Some deal \<Rightarrow>
             io_bind (io_lift (loaded_pipeline_stages deal)) (\<lambda>stgs.
             io_bind (io_lift (find_stage_by_name rt ''newStatus'' stgs newStatus)) (\<lambda>targetStage.
               case targetStage of
                 None \<Rightarrow> io_throw (Error (''Stage with status '' @ dq @ js_toString rt newStatus @
                                          dq @ '' not found in pipeline''))
               | Some ts \<Rightarrow>
                   io_ret \<lparr>st_dealId = dealId, st_newStatus = newStatus, st_deal = deal,
                           st_stage = ts\<rparr>))))))"

text \<open>\<^verbatim>\<open>handleStatusChanged\<close>: lines 830-845 follow the target. The argument of
  \<^verbatim>\<open>logActivity\<close> is built before the call, and building it reads \<^verbatim>\<open>deal.stage.name\<close>.\<close>

definition handleStatusChanged :: "runtime \<Rightarrow> json \<Rightarrow> user \<Rightarrow> string \<Rightarrow> unit io" where
  "handleStatusChanged rt payload user now =
     io_catch
       (io_bind (statusChanged_target rt payload user) (\<lambda>t.
        io_bind (updateDealStage (st_dealId t) (s_id (st_stage t))) (\<lambda>_.
        io_bind (io_lift (loaded_stage_name (st_deal t))) (\<lambda>previousStatus.
        io_bind (logActivity ''DEAL_STATUS_CHANGED''
                   (''Deal status changed to: '' @ js_toString rt (st_newStatus t))
                   None (Some (d_id (dl_row (st_deal t)))) (u_id user)
                   (JObj [(''source'', JStr ''iClosed''),
                          (''previousStatus'', JStr previousStatus),
                          (''newStatus'', st_newStatus t),
                          (''changedAt'', JStr now)])) (\<lambda>_.
        io_ret ())))))
       (\<lambda>error. io_throw error)"

text \<open>Lines 627-657: the user, or the response of the early \<^verbatim>\<open>return\<close>.\<close>

definition secured_user :: "json \<Rightarrow> (response + user) io" where
  "secured_user payload =
     io_catch
       (io_bind (find_user payload) (\<lambda>user.
          case user of
            None \<Rightarrow> io_ret (Inl (res_json 500
                        [(''status'', JStr ''error''),
                         (''message'', JStr ''Internal Server Error: No users found'')]))
          | Some u \<Rightarrow> io_ret (Inr u)))
       (\<lambda>error. io_ret (Inl (res_json 500
                    [(''status'', JStr ''error''),
                     (''message'', JStr ''Internal Server Error: Failed to find user'')])))"

text \<open>Lines 677-687: after the event's handler returned.\<close>

definition secured_finish :: "json \<Rightarrow> json \<Rightarrow> string \<Rightarrow> response io" where
  "secured_finish eventId payload now =
     io_bind (if truthy eventId
              then io_bind (markProcessed eventId payload now) (\<lambda>_. io_ret ())
              else io_ret ()) (\<lambda>_.
     io_ret (res_json 200 [(''status'', JStr ''success''),
                           (''message'', JStr ''Webhook processed successfully''),
                           (''eventId'', eventId)]))"

text \<open>Lines 659-687: the \<^verbatim>\<open>switch (payload.event)\<close> and what follows it.\<close>

definition secured_dispatch :: "runtime \<Rightarrow> json \<Rightarrow> json \<Rightarrow> json \<Rightarrow> user \<Rightarrow> string \<Rightarrow> response io" where
  "secured_dispatch rt event eventId payload user now =
     (if event = JStr ''appointment_booked'' then
        io_bind (handleAppointmentBooked rt payload user now) (\<lambda>_. secured_finish eventId payload now)
      else if event = JStr ''status_changed'' then
        io_bind (handleStatusChanged rt payload user now) (\<lambda>_. secured_finish eventId payload now)
      else
        io_ret (res_json 200 [(''status'', JStr ''success''),
                              (''message'', JStr (''Event type '' @ js_toString rt event @
                                                  '' received but not processed''))]))"

definition unauthorized :: response where
  "unauthorized = res_json 401 [(''status'', JStr ''error''),
                                (''message'', JStr ''Unauthorized: Invalid or missing secret token'')]"

definition bad_request :: response where
  "bad_request = res_json 400 [(''status'', JStr ''error''),
                               (''message'', JStr ''Bad Request: Missing event in payload'')]"

definition internal_error :: "error \<Rightarrow> response" where
  "internal_error error =
     res_json 500 [(''status'', JStr ''error''),
                   (''message'', JStr ''Internal Server Error: Failed to process webhook''),
                   (''error'', JStr (message error))]"

text \<open>Lines 601-687: everything after the secret check.\<close>

text \<open>\<^verbatim>\<open>payload.event_id || payload.data?.event_id\<close>\<close>

definition secured_eventId :: "json \<Rightarrow> json res" where
  "secured_eventId payload = or_else (js_get payload ''event_id'') (data_field payload ''event_id'')"

definition duplicate_event :: "json \<Rightarrow> response" where
  "duplicate_event eventId =
     res_json 200 [(''status'', JStr ''success''),
                   (''message'', JStr ''Duplicate event - already processed''),
                   (''eventId'', eventId)]"

definition secured_process :: "runtime \<Rightarrow> string \<Rightarrow> json \<Rightarrow> response io" where
  "secured_process rt now payload =
     (if \<not> truthy payload then io_ret bad_request
      else
        io_bind (io_lift (js_get payload ''event'')) (\<lambda>event.
          if \<not> truthy event then io_ret bad_request
          else
            io_bind (io_lift (secured_eventId payload)) (\<lambda>eventId.
            io_bind (if truthy eventId then isProcessed eventId else io_ret False) (\<lambda>alreadyProcessed.
              if alreadyProcessed then io_ret (duplicate_event eventId)
              else
                io_bind (secured_user payload) (\<lambda>found.
                  case found of
                    Inl resp \<Rightarrow> io_ret resp
                  | Inr user \<Rightarrow> secured_dispatch rt event eventId payload user now)))))"

text \<open>\<^verbatim>\<open>handleIncomingWebhook\<close>, secured variant; \<open>expectedSecret\<close> is
  \<^verbatim>\<open>process.env.ICLOSED_SECRET\<close>.\<close>

definition handleIncomingWebhook_secured ::
  "runtime \<Rightarrow> string option \<Rightarrow> string \<Rightarrow> request \<Rightarrow> response io" where
  "handleIncomingWebhook_secured rt expectedSecret now req =
     io_catch
       (if rq_secret req = None \<or> rq_secret req = Some [] \<or> rq_secret req \<noteq> expectedSecret
        then io_ret unauthorized
        else secured_process rt now (rq_body req))
       (\<lambda>error. io_ret (internal_error error))"


section \<open>A runtime for the sample runs\<close>

text \<open>
  The runs on the sample store below need one runtime. On the strings of the model (code
  points below 256) \<open>sample_toLowerCase\<close> is the case mapping of JavaScript (the letters A to
  Z, and U+00C0 to U+00DE but for the multiplication sign) and \<open>sample_trimSplit\<close> splits at
  its white space (tab, line feed, vertical tab, form feed, carriage return, space and
  no-break space). \<open>show_int\<close> gives the digits JavaScript prints for an integer of
  magnitude up to \<open>2 ^ 53\<close>. The comparisons are those of JavaScript for a value that is
  such an integer, a boolean, \<^verbatim>\<open>null\<close>, \<^verbatim>\<open>undefined\<close> or an object; no sample run compares a
  number with a string or an array, for which they are not meant.
\<close>

definition lower_char :: "char \<Rightarrow> char" where
  "lower_char c =
     (case map_of (zip (''ABCDEFGHIJKLMNOPQRSTUVWXYZ'' @
          [CHR 0xC0, CHR 0xC1, CHR 0xC2, CHR 0xC3, CHR 0xC4, CHR 0xC5, CHR 0xC6, CHR 0xC7,
           CHR 0xC8, CHR 0xC9, CHR 0xCA, CHR 0xCB, CHR 0xCC, CHR 0xCD, CHR 0xCE, CHR 0xCF,
           CHR 0xD0, CHR 0xD1, CHR 0xD2, CHR 0xD3, CHR 0xD4, CHR 0xD5, CHR 0xD6, CHR 0xD8,
           CHR 0xD9, CHR 0xDA, CHR 0xDB, CHR 0xDC, CHR 0xDD, CHR 0xDE])
         (''abcdefghijklmnopqrstuvwxyz'' @
          [CHR 0xE0, CHR 0xE1, CHR 0xE2, CHR 0xE3, CHR 0xE4, CHR 0xE5, CHR 0xE6, CHR 0xE7,
           CHR 0xE8, CHR 0xE9, CHR 0xEA, CHR 0xEB, CHR 0xEC, CHR 0xED, CHR 0xEE, CHR 0xEF,
           CHR 0xF0, CHR 0xF1, CHR 0xF2, CHR 0xF3, CHR 0xF4, CHR 0xF5, CHR 0xF6, CHR 0xF8,
           CHR 0xF9, CHR 0xFA, CHR 0xFB, CHR 0xFC, CHR 0xFD, CHR 0xFE])) c of
        None \<Rightarrow> c | Some l \<Rightarrow> l)"

definition sample_toLowerCase :: "string \<Rightarrow> string" where
  "sample_toLowerCase s = map lower_char s"

definition is_space :: "char \<Rightarrow> bool" where
  "is_space c =
     (c \<in> set [CHR '' '', CHR 0x09, CHR 0x0A, CHR 0x0B, CHR 0x0C, CHR 0x0D, CHR 0xA0])"

text \<open>The maximal runs of characters that are no white space; a string without any splits
  into one empty part.\<close>

fun tokens :: "string \<Rightarrow> string \<Rightarrow> string list" where
  "tokens cur [] = (if cur = [] then [] else [cur])"
| "tokens cur (c # s) =
     (if is_space c then (if cur = [] then tokens [] s else cur # tokens [] s)
      else tokens (cur @ [c]) s)"

definition sample_trimSplit :: "string \<Rightarrow> string list" where
  "sample_trimSplit s = (case tokens [] s of [] \<Rightarrow> [[]] | ts \<Rightarrow> ts)"

definition sample_number :: "json \<Rightarrow> int option" where
  "sample_number v =
     (case v of JNum m \<Rightarrow> Some m | JNull \<Rightarrow> Some 0 | JBool b \<Rightarrow> Some (if b then 1 else 0)
      | _ \<Rightarrow> None)"

definition sample_rt :: runtime where
  "sample_rt =
     \<lparr>rt_toLowerCase = sample_toLowerCase,
      rt_trimSplit = sample_trimSplit,
      rt_numToString = show_int,
      rt_le = (\<lambda>n v. case sample_number v of None \<Rightarrow> False | Some m \<Rightarrow> n \<le> m),
      rt_ge = (\<lambda>n v. case sample_number v of None \<Rightarrow> False | Some m \<Rightarrow> n \<ge> m)\<rparr>"

section \<open>A sample store\<close>

text \<open>One user with one pipeline of two stages, one contact and one deal.\<close>

definition sample_db :: db where
  "sample_db =
     \<lparr>users = [\<lparr>u_id = ''u1'', u_createdAt = 1\<rparr>],
      contacts = [\<lparr>c_id = ''c1'', c_firstName = Some ''Ada'', c_lastName = Some ''Lovelace'',
                   c_email = Some ''a@x.com'', c_phone = Some ''555'', c_userId = ''u1''\<rparr>],
      pipelines = [\<lparr>p_id = ''p1'', p_name = ''Sales'', p_userId = ''u1''\<rparr>],
      stages = [\<lparr>s_id = ''s1'', s_name = ''New'', s_order = 1, s_pipelineId = ''p1''\<rparr>,
                \<lparr>s_id = ''s2'', s_name = ''Proposal Sent'', s_order = 2, s_pipelineId = ''p1''\<rparr>],
      deals = [\<lparr>d_id = ''d1'', d_title = ''D1'', d_value = 10, d_stageId = ''s1'',
                d_pipelineId = ''p1'', d_contactId = Some ''c1'', d_userId = ''u1'',
                d_data = JNull\<rparr>],
      activities = [], webhookLogs = [], tasks = [], workflows = [], nextId = 0\<rparr>"

definition sample_now :: string where
  "sample_now = ''2025-01-01T00:00:00.000Z''"

definition req_status_changed :: request where
  "req_status_changed =
     \<lparr>rq_secret = Some ''k'',
      rq_body = JObj [(''event'', JStr ''status_changed''), (''event_id'', JStr ''E1''),
                      (''deal'', JObj [(''id'', JStr ''d1''), (''new_status'', JStr ''proposal'')])]\<rparr>"

section \<open>Invariants of the store\<close>

text \<open>\<open>keeps I m\<close>: whatever \<open>m\<close> returns or throws, and whatever the fault schedule, it
  takes a store that satisfies \<open>I\<close> to one that does.\<close>

definition keeps :: "(db \<Rightarrow> bool) \<Rightarrow> 'a io \<Rightarrow> bool" where
  "keeps I m = (\<forall>w. I (fst w) \<longrightarrow> I (fst (snd (m w))))"

text \<open>The next \<open>n\<close> storage calls meet no fault.\<close>

fun no_faults :: "nat \<Rightarrow> string option list \<Rightarrow> bool" where
  "no_faults 0 fs = True"
| "no_faults (Suc n) [] = True"
| "no_faults (Suc n) (f # fs) = (f = None \<and> no_faults n fs)"

text \<open>\<open>nothrow m\<close>: \<open>m\<close> returns a value from every world.\<close>

definition nothrow :: "'a io \<Rightarrow> bool" where
  "nothrow m = (\<forall>w. \<exists>x w'. m w = (Inr x, w'))"

section \<open>Sample requests\<close>

text \<open>A stand-in for SHA-256 in runs on the sample store; \<^verbatim>\<open>JSON.stringify\<close> is replaced by
  \<open>js_toString\<close> there.\<close>

definition sample_sha256 :: "string \<Rightarrow> string" where
  "sample_sha256 s = ''sha:'' @ s"


definition req_empty_deal :: request where
  "req_empty_deal =
     \<lparr>rq_secret = None,
      rq_body = JObj [(''contact'', JObj [(''email'', JStr ''b@x.com''), (''name'', JStr ''Bob'')]),
                      (''deal'', JObj [])]\<rparr>"

definition req_no_title :: request where
  "req_no_title =
     \<lparr>rq_secret = None,
      rq_body = JObj [(''contact'', JObj [(''email'', JStr ''b@x.com''), (''name'', JStr ''Bob'')]),
                      (''deal'', JObj [(''value'', JNum 5)])]\<rparr>"

section \<open>Predicates used in the statements\<close>

text \<open>\<open>updated_ok ex fn ln phone ex'\<close>: the row \<open>ex'\<close> is the row \<open>ex\<close> in which a field among
  first name, last name and phone differs only where the incoming value (\<open>fn\<close>, \<open>ln\<close>,
  \<open>phone\<close>) is present, and then holds that value.\<close>

definition updated_ok :: "contact \<Rightarrow> string option \<Rightarrow> string option \<Rightarrow> json \<Rightarrow> contact \<Rightarrow> bool" where
  "updated_ok ex fn ln phone ex' =
     (c_id ex' = c_id ex \<and> c_email ex' = c_email ex
      \<and> (c_phone ex' \<noteq> c_phone ex \<longrightarrow> truthy phone \<and> phone = of_opt (c_phone ex'))
      \<and> (c_firstName ex' \<noteq> c_firstName ex \<longrightarrow> c_firstName ex' = fn \<and> fn \<noteq> None \<and> fn \<noteq> Some [])
      \<and> (c_lastName ex' \<noteq> c_lastName ex \<longrightarrow> c_lastName ex' = ln \<and> ln \<noteq> None \<and> ln \<noteq> Some []))"

definition ada :: contact where
  "ada = \<lparr>c_id = ''c1'', c_firstName = Some ''Ada'', c_lastName = Some ''Lovelace'',
          c_email = Some ''a@x.com'', c_phone = Some ''555'', c_userId = ''u1''\<rparr>"

text \<open>\<open>automation_frame I\<close>: the invariant \<open>I\<close> survives what the automation service writes:
  new tasks, new activities, and a new stage for a deal.\<close>

definition automation_frame :: "(db \<Rightarrow> bool) \<Rightarrow> bool" where
  "automation_frame I =
     ((\<forall>d x n. I d \<longrightarrow> I (d\<lparr>tasks := x, nextId := n\<rparr>))
      \<and> (\<forall>d x n. I d \<longrightarrow> I (d\<lparr>activities := x, nextId := n\<rparr>))
      \<and> (\<forall>d i sid. I d \<longrightarrow>
            I (d\<lparr>deals := map (\<lambda>r. if d_id r = i then r\<lparr>d_stageId := sid\<rparr> else r) (deals d)\<rparr>)))"

subsection \<open>Stage resolution as specified\<close>

text \<open>Stage resolution as the specification words it. First match wins: (1) the status
  name a status-change event supplies, matched case-insensitively by equality or
  containment; (2) else the explicit stage id; (3) else the first stage of the pipeline by
  order. \<open>matched_stage\<close> is rules (1) and (2), \<open>first_by_order\<close> is rule (3): the stage of
  least \<^verbatim>\<open>order\<close>, the first of them in the list if several have it.\<close>

definition name_matches :: "runtime \<Rightarrow> string \<Rightarrow> stage \<Rightarrow> bool" where
  "name_matches rt hint st =
     (rt_toLowerCase rt (s_name st) = rt_toLowerCase rt hint
      \<or> str_includes (rt_toLowerCase rt (s_name st)) (rt_toLowerCase rt hint))"

definition matched_stage :: "runtime \<Rightarrow> stage list \<Rightarrow> string option \<Rightarrow> string option \<Rightarrow> stage option" where
  "matched_stage rt stgs explicitStageId statusNameHint =
     (case (case statusNameHint of None \<Rightarrow> None | Some h \<Rightarrow> find (name_matches rt h) stgs) of
        Some st \<Rightarrow> Some st
      | None \<Rightarrow> (case explicitStageId of None \<Rightarrow> None | Some i \<Rightarrow> find (\<lambda>st. s_id st = i) stgs))"

fun first_by_order :: "stage list \<Rightarrow> stage option" where
  "first_by_order [] = None"
| "first_by_order (st # rest) =
     (case first_by_order rest of
        None \<Rightarrow> Some st
      | Some m \<Rightarrow> if s_order st \<le> s_order m then Some st else Some m)"

definition resolveStage_spec :: "runtime \<Rightarrow> stage list \<Rightarrow> string option \<Rightarrow> string option \<Rightarrow> stage option" where
  "resolveStage_spec rt stgs explicitStageId statusNameHint =
     (case matched_stage rt stgs explicitStageId statusNameHint of
        Some st \<Rightarrow> Some st
      | None \<Rightarrow> first_by_order stgs)"

text \<open>What the permissive payload supplies: the status name of a \<^verbatim>\<open>lead_status_changed\<close>
  event, and the stage id when it is a non-empty string.\<close>

definition status_hint :: "json \<Rightarrow> json \<Rightarrow> string option" where
  "status_hint event new_status =
     (if event = JStr ''lead_status_changed'' \<and> truthy new_status
      then (case new_status of JStr s \<Rightarrow> Some s | _ \<Rightarrow> None) else None)"

definition explicit_id :: "json \<Rightarrow> string option" where
  "explicit_id dealStageId =
     (case dealStageId of JStr i \<Rightarrow> if i = [] then None else Some i | _ \<Rightarrow> None)"

text \<open>A status change of deal \<^verbatim>\<open>d1\<close> to a status no stage of its pipeline matches.\<close>

definition req_unknown_status :: request where
  "req_unknown_status =
     \<lparr>rq_secret = Some ''k'',
      rq_body = JObj [(''event'', JStr ''status_changed''), (''event_id'', JStr ''E2''),
                      (''deal'', JObj [(''id'', JStr ''d1''), (''new_status'', JStr ''Nonexistent'')])]\<rparr>"

subsection \<open>Deals\<close>

text \<open>A deal row without its stage, and the row the permissive update leaves.\<close>

definition no_stage :: "deal \<Rightarrow> deal" where
  "no_stage r = r\<lparr>d_stageId := []\<rparr>"

definition updated_deal :: "int \<Rightarrow> string \<Rightarrow> contact option \<Rightarrow> user \<Rightarrow> deal \<Rightarrow> deal" where
  "updated_deal v sid dealContact user r =
     r\<lparr>d_value := v, d_stageId := sid, d_contactId := map_option c_id dealContact,
       d_userId := u_id user\<rparr>"

text \<open>Two more deliveries: an appointment for a deal title that the sample store already
  holds, sent to the secured endpoint, and a deal with a new title, sent to the permissive
  one.\<close>

definition req_booked_again :: request where
  "req_booked_again =
     \<lparr>rq_secret = Some ''k'',
      rq_body = JObj [(''event'', JStr ''appointment_booked''), (''event_id'', JStr ''E3''),
                      (''contact'', JObj [(''email'', JStr ''a@x.com'')]),
                      (''deal'', JObj [(''title'', JStr ''D1''), (''value'', JNum 20)])]\<rparr>"

definition req_new_deal :: request where
  "req_new_deal =
     \<lparr>rq_secret = None,
      rq_body = JObj [(''event'', JStr ''call_booked''),
                      (''contact'', JObj [(''email'', JStr ''a@x.com'')]),
                      (''deal'', JObj [(''title'', JStr ''T2''), (''value'', JNum 5)])]\<rparr>"

text \<open>A delivery to the permissive endpoint for the deal title that the sample store holds,
  with a new value and the second stage.\<close>

definition req_deal_again :: request where
  "req_deal_again =
     \<lparr>rq_secret = None,
      rq_body = JObj [(''event'', JStr ''call_booked''),
                      (''contact'', JObj [(''email'', JStr ''a@x.com'')]),
                      (''deal'', JObj [(''title'', JStr ''D1''), (''value'', JNum 50),
                                       (''stageId'', JStr ''s2'')])]\<rparr>"

section \<open>Outcomes of a computation\<close>

text \<open>\<open>hoare P m Q E\<close>: from a world that satisfies \<open>P\<close>, \<open>m\<close> returns \<open>x\<close> in a world that
  satisfies \<open>Q x\<close>, or throws \<open>e\<close> in a world that satisfies \<open>E e\<close>.\<close>

definition hoare ::
  "(world \<Rightarrow> bool) \<Rightarrow> 'a io \<Rightarrow> ('a \<Rightarrow> world \<Rightarrow> bool) \<Rightarrow> (error \<Rightarrow> world \<Rightarrow> bool) \<Rightarrow> bool" where
  "hoare P m Q E =
     (\<forall>w. P w \<longrightarrow> (case m w of (Inl e, w') \<Rightarrow> E e w' | (Inr x, w') \<Rightarrow> Q x w'))"

subsection \<open>Responses and log rows of the permissive handler\<close>

text \<open>\<open>logged_success L L'\<close>: the log \<open>L'\<close> is \<open>L\<close>, or \<open>L\<close> with one more row, of status 200.
  \<open>permissive_ok k resp\<close>: \<open>resp\<close> is one of the three 200 responses of the permissive
  handler.\<close>

definition logged_success :: "webhookLog list \<Rightarrow> webhookLog list \<Rightarrow> bool" where
  "logged_success L L' = (L' = L \<or> (\<exists>row. L' = L @ [row] \<and> l_status row = 200))"

definition permissive_ok :: "string \<Rightarrow> response \<Rightarrow> bool" where
  "permissive_ok k resp = (resp = received \<or> resp = received_with_key k \<or> resp = duplicate_webhook k)"

text \<open>A status change for a deal that does not exist.\<close>

definition req_missing_deal :: request where
  "req_missing_deal =
     \<lparr>rq_secret = Some ''k'',
      rq_body = JObj [(''event'', JStr ''status_changed''), (''event_id'', JStr ''E4''),
                      (''deal'', JObj [(''id'', JStr ''nope''), (''new_status'', JStr ''New'')])]\<rparr>"

text \<open>The sample store after the secured endpoint has handled \<open>req_booked_again\<close>.\<close>

definition booked_db :: db where
  "booked_db =
     sample_db
       \<lparr>deals := deals sample_db @
          [\<lparr>d_id = ''id-0'', d_title = ''D1'', d_value = 20, d_stageId = ''s1'',
            d_pipelineId = ''p1'', d_contactId = Some ''c1'', d_userId = ''u1'',
            d_data = JObj [(''source'', JStr ''iClosed'')]\<rparr>],
        activities :=
          [\<lparr>a_id = ''id-1'', a_type = ''APPOINTMENT_BOOKED'',
            a_note = ''Appointment booked for 2025-01-01T00:00:00.000Z'',
            a_data = JObj [(''source'', JStr ''iClosed''),
                           (''appointmentTime'', JStr ''2025-01-01T00:00:00.000Z''),
                           (''dealName'', JStr ''D1''), (''bookingDetails'', JObj [])],
            a_contactId = Some ''c1'', a_dealId = Some ''id-0'', a_userId = ''u1''\<rparr>],
        webhookLogs :=
          [\<lparr>l_key = ''E3'', l_endpoint = ''/api/v1/webhooks/iclosed'',
            l_payload = rq_body req_booked_again, l_status = 200, l_processedAt = sample_now\<rparr>],
        nextId := 2\<rparr>"

section \<open>Laws of sequencing and catching\<close>

lemma io_bind_ret [simp]: "io_bind (io_ret x) f = f x"
  by (simp add: io_bind_def io_ret_def)

lemma io_bind_throw [simp]: "io_bind (io_throw e) f = io_throw e"
  by (simp add: io_bind_def io_throw_def)

lemma io_lift_Inr [simp]: "io_lift (Inr x) = io_ret x"
  by (simp add: io_lift_def io_ret_def)

lemma io_lift_Inl [simp]: "io_lift (Inl e) = io_throw e"
  by (simp add: io_lift_def io_throw_def)

lemma io_catch_ret [simp]: "io_catch (io_ret x) h = io_ret x"
  by (simp add: io_catch_def io_ret_def)

lemma io_catch_throw [simp]: "io_catch (io_throw e) h = h e"
  by (simp add: io_catch_def io_throw_def)

lemma io_catch_rethrow [simp]: "io_catch m (\<lambda>error. io_throw error) = m"
  by (auto simp: io_catch_def io_throw_def fun_eq_iff split: prod.splits sum.splits)

section \<open>The secret check of the secured controller\<close>

text \<open>
  Claim C3. A request to the secured endpoint whose header \<^verbatim>\<open>x-webhook-secret\<close> is missing or
  differs from the configured secret is answered with status 401 and the body
  \<^verbatim>\<open>{status: "error", message: "Unauthorized: Invalid or missing secret token"}\<close>; the store
  is left as it was and no storage call is made (the fault schedule is untouched), so
  no Contact, Deal, Activity or WebhookLog row is created.
\<close>

theorem C3_unauthorized:
  assumes "rq_secret req = None \<or> rq_secret req \<noteq> expectedSecret"
  shows "handleIncomingWebhook_secured rt expectedSecret now req w =
           (Inr \<lparr>r_status = 401,
                 r_body = [(''status'', JStr ''error''),
                           (''message'', JStr ''Unauthorized: Invalid or missing secret token'')]\<rparr>, w)"
proof -
  have "handleIncomingWebhook_secured rt expectedSecret now req = io_ret unauthorized"
    using assms by (auto simp: handleIncomingWebhook_secured_def)
  then show ?thesis
    by (simp add: unauthorized_def res_json_def io_ret_def)
qed

theorem C3_unauthorized_witness:
  "handleIncomingWebhook_secured sample_rt (Some ''k'') sample_now
     \<lparr>rq_secret = Some ''wrong'',
      rq_body = JObj [(''event'', JStr ''appointment_booked''), (''event_id'', JStr ''E1'')]\<rparr>
     (sample_db, []) =
   (Inr \<lparr>r_status = 401,
         r_body = [(''status'', JStr ''error''),
                   (''message'', JStr ''Unauthorized: Invalid or missing secret token'')]\<rparr>,
    (sample_db, []))"
  using C3_unauthorized [of "\<lparr>rq_secret = Some ''wrong'',
      rq_body = JObj [(''event'', JStr ''appointment_booked''), (''event_id'', JStr ''E1'')]\<rparr>"
      "Some ''k''" sample_rt sample_now "(sample_db, [])"]
  by simp

section \<open>Running a computation\<close>

text \<open>Applied to a world, \<open>io_ret x\<close> is \<open>Pair (Inr x)\<close> and \<open>io_throw e\<close> is \<open>Pair (Inl e)\<close>;
  the laws above in that form.\<close>

lemma io_bind_Pair_Inr [simp]: "io_bind (Pair (Inr x)) f = f x"
  by (simp add: io_bind_def)

lemma io_bind_Pair_Inl [simp]: "io_bind (Pair (Inl e)) f = Pair (Inl e)"
  by (simp add: io_bind_def)

lemma io_catch_Pair_Inr [simp]: "io_catch (Pair (Inr x)) h = Pair (Inr x)"
  by (simp add: io_catch_def)

lemma io_catch_Pair_Inl [simp]: "io_catch (Pair (Inl e)) h = h e"
  by (simp add: io_catch_def)

lemma io_catch_rethrow_Pair [simp]: "io_catch m (\<lambda>error. Pair (Inl error)) = m"
  by (auto simp: io_catch_def fun_eq_iff split: prod.splits sum.splits)

lemma io_bind_run:
  "io_bind m f w = (case m w of (Inl e, w') \<Rightarrow> (Inl e, w') | (Inr x, w') \<Rightarrow> f x w')"
  by (simp add: io_bind_def)
lemma io_catch_run:
  "io_catch m h w = (case m w of (Inl e, w') \<Rightarrow> h e w' | (Inr x, w') \<Rightarrow> (Inr x, w'))"
  by (simp add: io_catch_def)

section \<open>Frame rules\<close>

named_theorems keeps_intros

lemma keeps_ret [keeps_intros]: "keeps I (io_ret x)"
  by (simp add: keeps_def io_ret_def)

lemma keeps_throw [keeps_intros]: "keeps I (io_throw e)"
  by (simp add: keeps_def io_throw_def)

lemma keeps_lift [keeps_intros]: "keeps I (io_lift r)"
  by (simp add: keeps_def io_lift_def)

lemma keeps_bind [keeps_intros]:
  "keeps I m \<Longrightarrow> (\<And>x. keeps I (f x)) \<Longrightarrow> keeps I (io_bind m f)"
  by (auto simp: keeps_def io_bind_def split: prod.splits sum.splits) (metis fst_conv snd_conv)+

lemma keeps_catch [keeps_intros]:
  "keeps I m \<Longrightarrow> (\<And>e. keeps I (h e)) \<Longrightarrow> keeps I (io_catch m h)"
  by (auto simp: keeps_def io_catch_def split: prod.splits sum.splits) (metis fst_conv snd_conv)+

lemma keeps_dbcall:
  "(\<And>d x d'. I d \<Longrightarrow> q d = Inr (x, d') \<Longrightarrow> I d') \<Longrightarrow> keeps I (dbcall q)"
  by (auto simp: keeps_def dbcall_def split: prod.splits sum.splits list.splits option.splits)

lemma keeps_if [keeps_intros]:
  "(c \<Longrightarrow> keeps I a) \<Longrightarrow> (\<not> c \<Longrightarrow> keeps I b) \<Longrightarrow> keeps I (if c then a else b)"
  by simp

lemma keeps_case_option [keeps_intros]:
  "(x = None \<Longrightarrow> keeps I a) \<Longrightarrow> (\<And>y. x = Some y \<Longrightarrow> keeps I (b y)) \<Longrightarrow>
   keeps I (case x of None \<Rightarrow> a | Some y \<Rightarrow> b y)"
  by (cases x) simp_all

lemma keeps_case_sum [keeps_intros]:
  "(\<And>y. x = Inl y \<Longrightarrow> keeps I (a y)) \<Longrightarrow> (\<And>y. x = Inr y \<Longrightarrow> keeps I (b y)) \<Longrightarrow>
   keeps I (case x of Inl y \<Rightarrow> a y | Inr y \<Rightarrow> b y)"
  by (cases x) simp_all

lemma keeps_case_prod [keeps_intros]:
  "(\<And>a b. x = (a, b) \<Longrightarrow> keeps I (f a b)) \<Longrightarrow> keeps I (case x of (a, b) \<Rightarrow> f a b)"
  by (cases x) simp_all

lemma keeps_case_list [keeps_intros]:
  "(x = [] \<Longrightarrow> keeps I a) \<Longrightarrow> (\<And>y ys. x = y # ys \<Longrightarrow> keeps I (b y ys)) \<Longrightarrow>
   keeps I (case x of [] \<Rightarrow> a | y # ys \<Rightarrow> b y ys)"
  by (cases x) simp_all

text \<open>Read-only queries keep everything.\<close>

lemma keeps_reads [keeps_intros]:
  "keeps I (webhookLog_findUnique k)"
  "keeps I (user_findUnique i)"
  "keeps I user_findFirst"
  "keeps I (contact_findUnique_email e)"
  "keeps I (pipeline_findFirst uid)"
  "keeps I (pipeline_findUnique i)"
  "keeps I (pipelineStage_findFirst nm pid)"
  "keeps I (deal_findFirst_title t pid uid)"
  "keeps I (deal_findFirst_id i uid)"
  "keeps I (contact_findUnique_id i)"
  "keeps I (workflow_findMany ev)"
  by (auto simp: webhookLog_findUnique_def user_findUnique_def user_findFirst_def
        contact_findUnique_email_def pipeline_findFirst_def pipeline_findUnique_def
        pipelineStage_findFirst_def deal_findFirst_title_def deal_findFirst_id_def
        contact_findUnique_id_def workflow_findMany_def intro!: keeps_dbcall)

lemma keeps_find_user [keeps_intros]: "keeps I (find_user payload)"
  unfolding find_user_def by (intro keeps_intros)

lemma keeps_secured_user [keeps_intros]: "keeps I (secured_user payload)"
  unfolding secured_user_def by (intro keeps_intros)

lemma keeps_isProcessed [keeps_intros]: "keeps I (isProcessed eventId)"
  unfolding isProcessed_def by (intro keeps_intros)

lemma keeps_statusChanged_target [keeps_intros]: "keeps I (statusChanged_target rt payload user)"
  unfolding statusChanged_target_def by (intro keeps_intros)

lemma keeps_snd: "keeps I m \<Longrightarrow> I (fst w) \<Longrightarrow> I (fst (snd (m w)))"
  unfolding keeps_def by blast

lemma keepsD: "keeps I m \<Longrightarrow> I (fst w) \<Longrightarrow> m w = (r, w') \<Longrightarrow> I (fst w')"
  unfolding keeps_def by (metis fst_conv snd_conv)

lemma read_only: "keeps (\<lambda>d. d = fst w) m \<Longrightarrow> m w = (r, w') \<Longrightarrow> fst w' = fst w"
  using keepsD [of "\<lambda>d. d = fst w" m w r w'] by simp

section \<open>The secured \<^verbatim>\<open>status_changed\<close> path\<close>

lemma js_get_truthy: "js_get v k = Inr x \<Longrightarrow> x \<noteq> JUndefined \<Longrightarrow> truthy v"
  by (cases v) auto

lemma deal_findFirst_id_stage:
  "deal_findFirst_id i uid w = (Inr (Some dl), w') \<Longrightarrow> dl_stage dl = None"
  by (auto simp: deal_findFirst_id_def dbcall_def split: prod.splits list.splits option.splits)

lemma statusChanged_target_stage:
  "statusChanged_target rt payload user w = (Inr t, w') \<Longrightarrow> dl_stage (st_deal t) = None"
  apply (simp add: statusChanged_target_def)
  apply (auto simp: io_bind_def io_lift_def io_throw_def io_ret_def split: sum.splits prod.splits if_splits option.splits dest: deal_findFirst_id_stage)
  done

lemma deal_update_effect:
  assumes "deal_update i upd w = (Inr r, w')"
  shows "fst w' = (fst w)\<lparr>deals := map (\<lambda>r. if d_id r = i then upd r else r) (deals (fst w))\<rparr>"
  using assms
  by (cases w)
     (auto simp: deal_update_def dbcall_def split: list.splits option.splits prod.splits sum.splits)

lemma updateDealStage_effect:
  assumes "updateDealStage dealId sid w = (Inr d', w')"
  shows "\<exists>i. dealId = JStr i \<and>
             fst w' = (fst w)\<lparr>deals := map (\<lambda>r. if d_id r = i then r\<lparr>d_stageId := sid\<rparr> else r) (deals (fst w))\<rparr>"
proof (cases dealId)
  case (JStr i)
  then have "deal_update i (\<lambda>r. r\<lparr>d_stageId := sid\<rparr>) w = (Inr d', w')"
    using assms by (simp add: updateDealStage_def req_str_def)
  from deal_update_effect [OF this] JStr show ?thesis by simp
qed (use assms in \<open>simp_all add: updateDealStage_def req_str_def io_throw_def\<close>)

lemma handleStatusChanged_after_update:
  assumes tgt: "statusChanged_target rt payload user wb = (Inr t, wc)"
      and upd: "updateDealStage (st_dealId t) (s_id (st_stage t)) wc = (Inr d', wd)"
  shows "handleStatusChanged rt payload user now wb =
           (Inl (TypeError (''Cannot read properties of undefined (reading '' @ sq @ ''name'' @ sq @ '')'')), wd)"
proof -
  have "loaded_stage_name (st_deal t) =
          Inl (TypeError (''Cannot read properties of undefined (reading '' @ sq @ ''name'' @ sq @ '')''))"
    using statusChanged_target_stage [OF tgt] by (simp add: loaded_stage_name_def)
  then show ?thesis
    using tgt upd by (simp add: handleStatusChanged_def io_bind_run io_throw_def)
qed

text \<open>
  Claim C8. In the secured controller, a \<^verbatim>\<open>status_changed\<close> delivery that passes the secret
  check, the duplicate check and user resolution, finds its deal and target stage and
  whose stage update succeeds, then throws a TypeError: the argument of \<^verbatim>\<open>logActivity\<close>
  reads \<^verbatim>\<open>deal.stage.name\<close>, and the deal was loaded with its pipeline's stages only, so
  \<^verbatim>\<open>deal.stage\<close> is \<^verbatim>\<open>undefined\<close>. The handler answers 500 with that message; the stage
  update stays in the store, no activity and no WebhookLog row is written.
\<close>

theorem C8_status_changed_fails:
  assumes auth: "rq_secret req = Some s" "s \<noteq> []" "expectedSecret = Some s"
      and ev: "js_get (rq_body req) ''event'' = Inr (JStr ''status_changed'')"
      and eid: "secured_eventId (rq_body req) = Inr eventId"
      and dup: "(if truthy eventId then isProcessed eventId else io_ret False) w = (Inr False, wa)"
      and usr: "secured_user (rq_body req) wa = (Inr (Inr user), wb)"
      and tgt: "statusChanged_target rt (rq_body req) user wb = (Inr t, wc)"
      and upd: "updateDealStage (st_dealId t) (s_id (st_stage t)) wc = (Inr d', wd)"
  shows "handleIncomingWebhook_secured rt expectedSecret now req w =
           (Inr \<lparr>r_status = 500,
                 r_body = [(''status'', JStr ''error''),
                           (''message'', JStr ''Internal Server Error: Failed to process webhook''),
                           (''error'', JStr ''Cannot read properties of undefined (reading 'name')'')]\<rparr>,
            wd)
         \<and> activities (fst wd) = activities (fst w)
         \<and> webhookLogs (fst wd) = webhookLogs (fst w)
         \<and> (\<exists>i. st_dealId t = JStr i \<and>
                deals (fst wd) =
                  map (\<lambda>r. if d_id r = i then r\<lparr>d_stageId := s_id (st_stage t)\<rparr> else r) (deals (fst w)))"
proof -
  let ?payload = "rq_body req"
  have tp: "truthy ?payload"
    using js_get_truthy [OF ev] by simp
  have hs: "handleStatusChanged rt ?payload user now wb =
              (Inl (TypeError (''Cannot read properties of undefined (reading '' @ sq @ ''name'' @ sq @ '')'')), wd)"
    by (rule handleStatusChanged_after_update [OF tgt upd])
  have disp: "secured_dispatch rt (JStr ''status_changed'') eventId ?payload user now wb =
                (Inl (TypeError (''Cannot read properties of undefined (reading '' @ sq @ ''name'' @ sq @ '')'')), wd)"
    using hs by (simp add: secured_dispatch_def io_bind_run)
  have proc: "secured_process rt now ?payload w =
                (Inl (TypeError (''Cannot read properties of undefined (reading '' @ sq @ ''name'' @ sq @ '')'')), wd)"
    using tp dup usr disp by (simp add: secured_process_def ev eid io_bind_run)
  have resp: "handleIncomingWebhook_secured rt expectedSecret now req w =
                (Inr (internal_error (TypeError (''Cannot read properties of undefined (reading '' @ sq @ ''name'' @ sq @ '')''))), wd)"
    using auth proc by (simp add: handleIncomingWebhook_secured_def io_catch_run io_ret_def)
  have f1: "fst wa = fst w"
  proof (cases "truthy eventId")
    case True
    then show ?thesis using dup read_only [OF keeps_isProcessed] by simp
  next
    case False
    then show ?thesis using dup by (simp add: io_ret_def)
  qed
  have f2: "fst wb = fst wa"
    using usr read_only [OF keeps_secured_user] by blast
  have f3: "fst wc = fst wb"
    using tgt read_only [OF keeps_statusChanged_target] by blast
  obtain i where i: "st_dealId t = JStr i"
    and f4: "fst wd = (fst wc)\<lparr>deals := map (\<lambda>r. if d_id r = i then r\<lparr>d_stageId := s_id (st_stage t)\<rparr> else r) (deals (fst wc))\<rparr>"
    using updateDealStage_effect [OF upd] by blast
  show ?thesis
    using resp i f1 f2 f3 f4 by (simp add: internal_error_def res_json_def)
qed

text \<open>The definitions that a run on a concrete store unfolds.\<close>

lemmas eval_defs =
  io_bind_run io_catch_run io_ret_def io_throw_def io_lift_def dbcall_def sample_db_def sample_now_def
  or_else_def res_bind_def data_field_def contact_field_def js_optget_def js_or_def
  req_str_def opt_str_def req_num_def of_opt_def or_opt_def
  webhookLog_findUnique_def webhookLog_create_def user_findUnique_def user_findFirst_def
  contact_findUnique_email_def contact_update_def contact_create_def
  pipeline_findFirst_def pipeline_findUnique_def pipeline_create_def pipelineStage_createMany_def
  pipelineStage_findFirst_def deal_findFirst_title_def deal_findFirst_id_def deal_update_def
  deal_create_def activity_create_def contact_findUnique_id_def workflow_findMany_def task_create_def
  stages_of_def fresh_id_def show_nat_def
  find_user_def secured_user_def secured_eventId_def isProcessed_def markProcessed_def
  statusChanged_target_def status_dealId_def status_newStatus_def secured_dealData_def
  secured_contactData_def secured_email_def secured_name_def secured_phone_def
  loaded_pipeline_stages_def loaded_stage_name_def
  updateDealStage_def logActivity_def res_json_def
  sample_rt_def sample_toLowerCase_def lower_char_def sample_trimSplit_def is_space_def
  sample_number_def show_int_def

lemmas secured_defs =
  handleIncomingWebhook_secured_def secured_process_def secured_dispatch_def secured_finish_def
  handleStatusChanged_def handleAppointmentBooked_def upsertContact_def createDeal_def
  internal_error_def unauthorized_def bad_request_def duplicate_event_def

theorem C8_status_changed_fails_witness:
  "handleIncomingWebhook_secured sample_rt (Some ''k'') sample_now req_status_changed (sample_db, []) =
     (Inr \<lparr>r_status = 500,
           r_body = [(''status'', JStr ''error''),
                     (''message'', JStr ''Internal Server Error: Failed to process webhook''),
                     (''error'', JStr ''Cannot read properties of undefined (reading 'name')'')]\<rparr>,
      (sample_db\<lparr>deals := [\<lparr>d_id = ''d1'', d_title = ''D1'', d_value = 10, d_stageId = ''s2'',
                               d_pipelineId = ''p1'', d_contactId = Some ''c1'', d_userId = ''u1'',
                               d_data = JNull\<rparr>]\<rparr>, []))
   \<and> activities sample_db = [] \<and> webhookLogs sample_db = []"
proof -
  let ?user = "\<lparr>u_id = ''u1'', u_createdAt = 1\<rparr>"
  let ?s2 = "\<lparr>s_id = ''s2'', s_name = ''Proposal Sent'', s_order = 2, s_pipelineId = ''p1''\<rparr>"
  let ?d1 = "\<lparr>d_id = ''d1'', d_title = ''D1'', d_value = 10, d_stageId = ''s1'',
              d_pipelineId = ''p1'', d_contactId = Some ''c1'', d_userId = ''u1'', d_data = JNull\<rparr>"
  let ?t = "\<lparr>st_dealId = JStr ''d1'', st_newStatus = JStr ''proposal'',
             st_deal = \<lparr>dl_row = ?d1, dl_stage = None,
                        dl_pipeline = Some \<lparr>p_id = ''p1'', p_name = ''Sales'', p_userId = ''u1''\<rparr>,
                        dl_pipeline_stages =
                          [\<lparr>s_id = ''s1'', s_name = ''New'', s_order = 1, s_pipelineId = ''p1''\<rparr>, ?s2]\<rparr>,
             st_stage = ?s2\<rparr>"
  let ?wd = "(sample_db\<lparr>deals := [?d1\<lparr>d_stageId := ''s2''\<rparr>]\<rparr>, [])"
  have auth: "rq_secret req_status_changed = Some ''k''" "''k'' \<noteq> []"
    by (simp_all add: req_status_changed_def)
  have ev: "js_get (rq_body req_status_changed) ''event'' = Inr (JStr ''status_changed'')"
    by (simp add: req_status_changed_def)
  have eid: "secured_eventId (rq_body req_status_changed) = Inr (JStr ''E1'')"
    by (simp add: req_status_changed_def eval_defs)
  have dup: "(if truthy (JStr ''E1'') then isProcessed (JStr ''E1'') else io_ret False) (sample_db, [])
               = (Inr False, (sample_db, []))"
    by (simp add: eval_defs)
  have usr: "secured_user (rq_body req_status_changed) (sample_db, []) = (Inr (Inr ?user), (sample_db, []))"
    by (simp add: req_status_changed_def eval_defs)
  have tgt: "statusChanged_target sample_rt (rq_body req_status_changed) ?user (sample_db, []) =
               (Inr ?t, (sample_db, []))"
    by (simp add: req_status_changed_def eval_defs)
  have upd: "updateDealStage (st_dealId ?t) (s_id (st_stage ?t)) (sample_db, []) =
               (Inr (?d1\<lparr>d_stageId := ''s2''\<rparr>), ?wd)"
    by (simp add: eval_defs)
  show ?thesis
    using C8_status_changed_fails [OF auth refl ev eid dup usr tgt upd, of sample_now]
    by (simp add: sample_db_def)
qed

section \<open>Computations that never throw; writes and their frames\<close>

named_theorems nothrow_intros

lemma nothrow_ret [nothrow_intros]: "nothrow (io_ret x)"
  by (simp add: nothrow_def io_ret_def)

lemma nothrow_bind [nothrow_intros]:
  "nothrow m \<Longrightarrow> (\<And>x. nothrow (f x)) \<Longrightarrow> nothrow (io_bind m f)"
proof -
  assume m: "nothrow m" and f: "\<And>x. nothrow (f x)"
  show ?thesis
    unfolding nothrow_def
  proof
    fix w
    obtain x w' where 1: "m w = (Inr x, w')"
      using m unfolding nothrow_def by blast
    obtain y w'' where 2: "f x w' = (Inr y, w'')"
      using f unfolding nothrow_def by blast
    show "\<exists>y w''. io_bind m f w = (Inr y, w'')"
      using 1 2 by (simp add: io_bind_run)
  qed
qed

lemma nothrow_catch [nothrow_intros]:
  "(\<And>e. nothrow (h e)) \<Longrightarrow> nothrow (io_catch m h)"
  unfolding nothrow_def io_catch_run
  by (auto split: prod.splits sum.splits)

lemma nothrow_if [nothrow_intros]:
  "(c \<Longrightarrow> nothrow a) \<Longrightarrow> (\<not> c \<Longrightarrow> nothrow b) \<Longrightarrow> nothrow (if c then a else b)"
  by simp

lemma nothrow_case_option [nothrow_intros]:
  "(x = None \<Longrightarrow> nothrow a) \<Longrightarrow> (\<And>y. x = Some y \<Longrightarrow> nothrow (b y)) \<Longrightarrow>
   nothrow (case x of None \<Rightarrow> a | Some y \<Rightarrow> b y)"
  by (cases x) simp_all

lemma nothrow_case_sum [nothrow_intros]:
  "(\<And>y. x = Inl y \<Longrightarrow> nothrow (a y)) \<Longrightarrow> (\<And>y. x = Inr y \<Longrightarrow> nothrow (b y)) \<Longrightarrow>
   nothrow (case x of Inl y \<Rightarrow> a y | Inr y \<Rightarrow> b y)"
  by (cases x) simp_all

lemma nothrow_catch_id: "nothrow m \<Longrightarrow> io_catch m h = m"
proof (rule ext)
  fix w
  assume "nothrow m"
  then obtain x w' where "m w = (Inr x, w')"
    unfolding nothrow_def by blast
  then show "io_catch m h w = m w"
    by (simp add: io_catch_run)
qed

lemma nothrow_permissive_user [nothrow_intros]: "nothrow (permissive_user payload)"
  unfolding permissive_user_def by (intro nothrow_intros)

lemma nothrow_permissive_contact [nothrow_intros]: "nothrow (permissive_contact rt email name phone user)"
  unfolding permissive_contact_def by (cases email) (auto intro!: nothrow_intros)

lemma nothrow_isWebhookProcessed [nothrow_intros]: "nothrow (isWebhookProcessed k)"
  unfolding isWebhookProcessed_def by (intro nothrow_intros)

lemma nothrow_logProcessedWebhook [nothrow_intros]: "nothrow (logProcessedWebhook k p st now)"
  unfolding logProcessedWebhook_def by (intro nothrow_intros)

text \<open>Writes change their own table (and the identifier counter) only.\<close>

named_theorems keeps_writes

lemma keeps_contact_update [keeps_writes]:
  "(\<And>d cs. I d \<Longrightarrow> I (d\<lparr>contacts := cs\<rparr>)) \<Longrightarrow> keeps I (contact_update i upd)"
  by (auto simp: contact_update_def split: option.splits intro!: keeps_dbcall)

lemma keeps_contact_create [keeps_writes]:
  "(\<And>d cs n. I d \<Longrightarrow> I (d\<lparr>contacts := cs, nextId := n\<rparr>)) \<Longrightarrow> keeps I (contact_create fn ln e ph uid)"
  by (auto simp: contact_create_def Let_def split: option.splits if_splits intro!: keeps_dbcall)

lemma keeps_webhookLog_create [keeps_writes]:
  "(\<And>d ls. I d \<Longrightarrow> I (d\<lparr>webhookLogs := ls\<rparr>)) \<Longrightarrow> keeps I (webhookLog_create row)"
  by (auto simp: webhookLog_create_def split: option.splits if_splits intro!: keeps_dbcall)

lemma keeps_deal_update [keeps_writes]:
  "(\<And>d ds. I d \<Longrightarrow> I (d\<lparr>deals := ds\<rparr>)) \<Longrightarrow> keeps I (deal_update i upd)"
  by (auto simp: deal_update_def split: option.splits intro!: keeps_dbcall)

lemma keeps_deal_create [keeps_writes]:
  "(\<And>d ds n. I d \<Longrightarrow> I (d\<lparr>deals := ds, nextId := n\<rparr>)) \<Longrightarrow> keeps I (deal_create t v sid pid cid uid dat)"
  by (auto simp: deal_create_def Let_def intro!: keeps_dbcall)

lemma keeps_activity_create [keeps_writes]:
  "(\<And>d as n. I d \<Longrightarrow> I (d\<lparr>activities := as, nextId := n\<rparr>)) \<Longrightarrow> keeps I (activity_create ty note dat cid did uid)"
  by (auto simp: activity_create_def Let_def intro!: keeps_dbcall)

lemma keeps_task_create [keeps_writes]:
  "(\<And>d ts n. I d \<Longrightarrow> I (d\<lparr>tasks := ts, nextId := n\<rparr>)) \<Longrightarrow> keeps I (task_create t ds due who cid)"
  by (auto simp: task_create_def Let_def intro!: keeps_dbcall)

lemma keeps_pipeline_create [keeps_writes]:
  "(\<And>d ps n. I d \<Longrightarrow> I (d\<lparr>pipelines := ps, nextId := n\<rparr>)) \<Longrightarrow> keeps I (pipeline_create nm uid)"
  by (auto simp: pipeline_create_def Let_def intro!: keeps_dbcall)

lemma keeps_pipelineStage_createMany [keeps_writes]:
  "(\<And>d ss n. I d \<Longrightarrow> I (d\<lparr>stages := ss, nextId := n\<rparr>)) \<Longrightarrow> keeps I (pipelineStage_createMany pid rows)"
  by (auto simp: pipelineStage_createMany_def intro!: keeps_dbcall)

lemma keeps_permissive_user [keeps_intros]: "keeps I (permissive_user payload)"
  unfolding permissive_user_def by (intro keeps_intros)

lemma keeps_isWebhookProcessed [keeps_intros]: "keeps I (isWebhookProcessed k)"
  unfolding isWebhookProcessed_def by (intro keeps_intros)

lemma keeps_permissive_contact:
  assumes "\<And>d cs n. I d \<Longrightarrow> I (d\<lparr>contacts := cs, nextId := n\<rparr>)"
      and "\<And>d cs. I d \<Longrightarrow> I (d\<lparr>contacts := cs\<rparr>)"
  shows "keeps I (permissive_contact rt email name phone user)"
  unfolding permissive_contact_def
  by (cases email) (auto intro!: keeps_intros keeps_writes assms split: prod.splits)

lemma keeps_logProcessedWebhook:
  assumes "\<And>d ls. I d \<Longrightarrow> I (d\<lparr>webhookLogs := ls\<rparr>)"
  shows "keeps I (logProcessedWebhook k p st now)"
  unfolding logProcessedWebhook_def
  by (intro keeps_intros keeps_writes assms)

section \<open>The permissive controller on a deal without value\<close>

lemma js_get_Inr_nullish: "js_get v k = Inr x \<Longrightarrow> \<not> nullish v"
  by (cases v) auto

lemma js_get_total: "\<not> nullish v \<Longrightarrow> \<exists>x. js_get v k = Inr x"
  by (cases v) auto

lemma truthy_not_nullish: "truthy v \<Longrightarrow> \<not> nullish v"
  by (cases v) auto

lemma or_else_total: "a = Inr x \<Longrightarrow> b = Inr y \<Longrightarrow> \<exists>z. or_else a b = Inr z"
  by (simp add: or_else_def)

lemma or_fields_total:
  "\<not> nullish v \<Longrightarrow> final = Inr y \<Longrightarrow> \<exists>z. or_fields v ks final = Inr z"
proof (induction ks)
  case Nil
  then show ?case by simp
next
  case (Cons k ks)
  then obtain z where "or_fields v ks final = Inr z" by blast
  moreover obtain x where "js_get v k = Inr x" using js_get_total [OF Cons.prems(1)] by blast
  ultimately show ?case by (simp add: or_else_def)
qed






lemmas permissive_defs =
  handleIncomingWebhook_permissive_def permissive_payload_def generateIdempotencyKey_def
  isWebhookProcessed_def duplicate_webhook_def permissive_process_def permissive_email_def
  permissive_name_def permissive_phone_def permissive_user_def received_def
  permissive_contact_def parseName_def permissive_deal_def
  permissive_dealTitle_def permissive_dealValue_def logProcessedWebhook_def received_with_key_def
  sample_sha256_def


section \<open>The permissive controller on a deal without title\<close>

lemma isWebhookProcessed_absent:
  assumes "find (\<lambda>l. l_key l = k) (webhookLogs (fst w)) = None"
  shows "isWebhookProcessed k w = (Inr False, (fst w, tl (snd w)))"
  using assms
  by (cases w)
     (auto simp: isWebhookProcessed_def webhookLog_findUnique_def dbcall_def io_catch_run io_bind_run
                 io_ret_def split: list.splits option.splits)

lemma or_else_truthy: "a = Inr v \<Longrightarrow> truthy v \<Longrightarrow> or_else a b = Inr v"
  by (simp add: or_else_def)

lemma deal_block_no_title:
  assumes dl: "js_get payload ''deal'' = Inr dealData" and td: "truthy dealData"
      and vl: "js_get dealData ''value'' = Inr v" and tv: "truthy v"
      and tl: "permissive_dealTitle dealData = Inr t" and ft: "\<not> truthy t"
  shows "permissive_deal rt payload email user = io_ret (Some received)"
proof -
  have nn: "\<not> nullish dealData" by (rule truthy_not_nullish [OF td])
  have v: "permissive_dealValue dealData = Inr v"
    by (simp add: permissive_dealValue_def or_else_truthy [OF vl tv])
  obtain a where a: "or_fields dealData [''stageId'', ''pipeline_stage_id'', ''StageId'']
                       (js_get dealData ''Pipeline_Stage_Id'') = Inr a"
    using js_get_total [OF nn] or_fields_total [OF nn] by metis
  obtain b where b: "or_fields dealData [''contactEmail'', ''contact_email'', ''ContactEmail'']
                       (Inr email) = Inr b"
    using or_fields_total [OF nn] by metis
  show ?thesis
    using ft by (simp add: permissive_deal_def dl td tl v a b del: or_fields.simps)
qed

lemma permissive_user_early:
  "x = Inl r \<Longrightarrow> permissive_user payload w = (Inr x, w') \<Longrightarrow> r = received"
  by (auto simp: permissive_user_def io_catch_run io_bind_run io_ret_def
           split: prod.splits sum.splits option.splits)

text \<open>
  Claim C10 on a deal that has a value. In the permissive controller, take a payload whose
  \<^verbatim>\<open>deal\<close> is present, has a truthy \<^verbatim>\<open>value\<close> and no title (none of \<^verbatim>\<open>title\<close>, \<^verbatim>\<open>name\<close>,
  \<^verbatim>\<open>Title\<close>, \<^verbatim>\<open>Name\<close>), on a store with no WebhookLog row for its idempotency key. The
  handler then resolves the user, upserts the contact and returns 200 "Webhook received"
  without the idempotency key; it writes no WebhookLog row, so an identical retry is not
  detected as a duplicate and runs the user resolution and the contact upsert again: on
  these payloads the early return of lines 182-185 does what the claim says.
\<close>

theorem C10_missing_title:
  assumes pl: "permissive_payload (rq_body req) = Inr payload"
      and dl: "js_get payload ''deal'' = Inr dealData" and td: "truthy dealData"
      and vl: "js_get dealData ''value'' = Inr v" and tv: "truthy v"
      and tl: "permissive_dealTitle dealData = Inr t" and ft: "\<not> truthy t"
      and em: "permissive_email payload = Inr email"
      and nm: "permissive_name payload = Inr name"
      and ph: "permissive_phone payload = Inr phone"
      and nolog: "find (\<lambda>l. l_key l = generateIdempotencyKey sha256 stringify payload now)
                    (webhookLogs (fst w)) = None"
  shows "handleIncomingWebhook_permissive rt sha256 stringify now req w =
           io_bind (permissive_user payload) (\<lambda>found.
             case found of
               Inl resp \<Rightarrow> io_ret resp
             | Inr user \<Rightarrow>
                 io_bind (permissive_contact rt email name phone user) (\<lambda>_. io_ret received))
           (fst w, tl (snd w))
       \<and> fst (handleIncomingWebhook_permissive rt sha256 stringify now req w) = Inr received
       \<and> webhookLogs (fst (snd (handleIncomingWebhook_permissive rt sha256 stringify now req w))) =
           webhookLogs (fst w)
       \<and> (\<forall>fs. fst (handleIncomingWebhook_permissive rt sha256 stringify now req
                       (fst (snd (handleIncomingWebhook_permissive rt sha256 stringify now req w)), fs)) =
                 Inr received
              \<and> handleIncomingWebhook_permissive rt sha256 stringify now req
                    (fst (snd (handleIncomingWebhook_permissive rt sha256 stringify now req w)), fs) =
                  io_bind (permissive_user payload) (\<lambda>found.
                    case found of
                      Inl resp \<Rightarrow> io_ret resp
                    | Inr user \<Rightarrow>
                        io_bind (permissive_contact rt email name phone user) (\<lambda>_. io_ret received))
                  (fst (snd (handleIncomingWebhook_permissive rt sha256 stringify now req w)), tl fs))"
proof -
  let ?key = "generateIdempotencyKey sha256 stringify payload now"
  let ?P = "io_bind (permissive_user payload) (\<lambda>found.
             case found of
               Inl resp \<Rightarrow> io_ret resp
             | Inr user \<Rightarrow>
                 io_bind (permissive_contact rt email name phone user) (\<lambda>_. io_ret received))"
  let ?H = "handleIncomingWebhook_permissive rt sha256 stringify now req"
  note early = deal_block_no_title [OF dl td vl tv tl ft]
  have proc: "permissive_process rt ?key payload now = ?P"
    by (simp add: permissive_process_def em nm ph early cong: sum.case_cong)
  have nt: "nothrow ?P"
    by (intro nothrow_intros)
  have run: "?H u = ?P (fst u, tl (snd u))"
    if "find (\<lambda>l. l_key l = ?key) (webhookLogs (fst u)) = None" for u
  proof -
    let ?h = "\<lambda>error :: error. io_throw (ReferenceError ''idempotencyKey is not defined'') :: response io"
    have "?H u = io_catch (io_bind (isWebhookProcessed ?key)
                   (\<lambda>a. if a then io_ret (duplicate_webhook ?key) else ?P)) ?h u"
      by (simp add: handleIncomingWebhook_permissive_def pl proc cong: if_cong)
    also have "\<dots> = io_catch ?P ?h (fst u, tl (snd u))"
      using isWebhookProcessed_absent [OF that] by (simp add: io_catch_run io_bind_run)
    also have "\<dots> = ?P (fst u, tl (snd u))"
      by (simp add: nothrow_catch_id [OF nt])
    finally show ?thesis .
  qed
  have resp: "fst (?P u) = Inr received" for u
  proof -
    obtain x u1 where 1: "permissive_user payload u = (Inr x, u1)"
      using nothrow_permissive_user unfolding nothrow_def by blast
    show ?thesis
    proof (cases x)
      case (Inl r)
      then have "r = received"
        using 1 by (rule permissive_user_early)
      then show ?thesis using 1 Inl by (simp add: io_bind_run io_ret_def)
    next
      case (Inr user)
      obtain y u2 where 2: "permissive_contact rt email name phone user u1 = (Inr y, u2)"
        using nothrow_permissive_contact unfolding nothrow_def by blast
      show ?thesis using 1 2 Inr by (simp add: io_bind_run io_ret_def)
    qed
  qed
  have logs: "webhookLogs (fst (snd (?P u))) = webhookLogs (fst u)" for u
  proof -
    have "keeps (\<lambda>d. webhookLogs d = webhookLogs (fst u)) ?P"
      by (intro keeps_intros keeps_permissive_contact) simp_all
    from keeps_snd [OF this] show ?thesis by simp
  qed
  have 1: "?H w = ?P (fst w, tl (snd w))"
    by (rule run [OF nolog])
  have 2: "fst (?H w) = Inr received"
    by (simp add: 1 resp)
  have 3: "webhookLogs (fst (snd (?H w))) = webhookLogs (fst w)"
    using logs [of "(fst w, tl (snd w))"] by (simp add: 1)
  have 4: "fst (?H (fst (snd (?H w)), fs)) = Inr received
           \<and> ?H (fst (snd (?H w)), fs) = ?P (fst (snd (?H w)), tl fs)" for fs
  proof -
    have "find (\<lambda>l. l_key l = ?key) (webhookLogs (fst (fst (snd (?H w)), fs))) = None"
      using nolog 3 by simp
    from run [OF this] show ?thesis
      by (simp add: resp)
  qed
  show ?thesis
    using 1 2 3 4 by blast
qed

theorem C10_missing_title_witness:
  "fst (handleIncomingWebhook_permissive sample_rt sample_sha256 (js_toString sample_rt) sample_now req_no_title (sample_db, [])) =
     Inr received
   \<and> webhookLogs (fst (snd (handleIncomingWebhook_permissive sample_rt sample_sha256 (js_toString sample_rt) sample_now
                              req_no_title (sample_db, [])))) = []
   \<and> fst (handleIncomingWebhook_permissive sample_rt sample_sha256 (js_toString sample_rt) sample_now req_no_title
            (fst (snd (handleIncomingWebhook_permissive sample_rt sample_sha256 (js_toString sample_rt) sample_now
                         req_no_title (sample_db, []))), [])) = Inr received"
proof -
  let ?dealData = "JObj [(''value'', JNum 5)]"
  have pl: "permissive_payload (rq_body req_no_title) = Inr (rq_body req_no_title)"
    by (simp add: req_no_title_def permissive_payload_def or_else_def)
  have dl: "js_get (rq_body req_no_title) ''deal'' = Inr ?dealData"
    by (simp add: req_no_title_def)
  have td: "truthy ?dealData" by simp
  have vl: "js_get ?dealData ''value'' = Inr (JNum 5)" by simp
  have tv: "truthy (JNum 5)" by simp
  have tl: "permissive_dealTitle ?dealData = Inr JUndefined"
    by (simp add: permissive_dealTitle_def or_else_def)
  have ft: "\<not> truthy JUndefined" by simp
  have em: "permissive_email (rq_body req_no_title) = Inr (JStr ''b@x.com'')"
    by (simp add: req_no_title_def permissive_email_def contact_field_def or_else_def res_bind_def js_optget_def)
  have nm: "permissive_name (rq_body req_no_title) = Inr (JStr ''Bob'')"
    by (simp add: req_no_title_def permissive_name_def contact_field_def or_else_def res_bind_def js_optget_def)
  have ph: "permissive_phone (rq_body req_no_title) = Inr JUndefined"
    by (simp add: req_no_title_def permissive_phone_def contact_field_def or_else_def res_bind_def js_optget_def)
  have nolog: "find (\<lambda>l. l_key l = generateIdempotencyKey sample_sha256 (js_toString sample_rt) (rq_body req_no_title) sample_now)
                 (webhookLogs (fst (sample_db, []))) = None"
    by (simp add: sample_db_def)
  note c10 = C10_missing_title [OF pl dl td vl tv tl ft em nm ph nolog]
  have a: "fst (handleIncomingWebhook_permissive sample_rt sample_sha256 (js_toString sample_rt) sample_now req_no_title
                  (sample_db, [])) = Inr received"
    by (rule c10 [THEN conjunct2, THEN conjunct1])
  have b: "webhookLogs (fst (snd (handleIncomingWebhook_permissive sample_rt sample_sha256 (js_toString sample_rt) sample_now
                                    req_no_title (sample_db, [])))) = webhookLogs sample_db"
    using c10 [THEN conjunct2, THEN conjunct2, THEN conjunct1] by simp
  have c: "fst (handleIncomingWebhook_permissive sample_rt sample_sha256 (js_toString sample_rt) sample_now req_no_title
                  (fst (snd (handleIncomingWebhook_permissive sample_rt sample_sha256 (js_toString sample_rt) sample_now
                               req_no_title (sample_db, []))), [])) = Inr received"
    by (rule c10 [THEN conjunct2, THEN conjunct2, THEN conjunct2, THEN spec, THEN conjunct1])
  have "webhookLogs sample_db = []"
    by (simp add: sample_db_def)
  with a b c show ?thesis
    by simp
qed

text \<open>
  Claim C10 at a deal without title and without value. The delivery below (\<^verbatim>\<open>deal: {}\<close>)
  does not reach the missing-title return of lines 182-185: line 178 comes first, and its
  initialiser reads \<^verbatim>\<open>dealValue.amount\<close>, the constant being initialised, where the operands
  next to it read \<^verbatim>\<open>dealData\<close>. The ReferenceError ends in the \<^verbatim>\<open>catch\<close> of the deal block, the
  WebhookLog row is written, and the retry is answered as a duplicate.
\<close>

theorem C10_empty_deal:
  "handleIncomingWebhook_permissive sample_rt sample_sha256 (js_toString sample_rt) sample_now req_empty_deal (sample_db, []) =
     (Inr \<lparr>r_status = 200,
           r_body = [(''status'', JStr ''success''), (''message'', JStr ''Webhook received''),
                     (''idempotencyKey'', JStr ''sha:[object Object]2025-01-01'')]\<rparr>,
      (sample_db\<lparr>contacts := contacts sample_db @
                    [\<lparr>c_id = ''id-0'', c_firstName = Some ''Bob'', c_lastName = None,
                      c_email = Some ''b@x.com'', c_phone = None, c_userId = ''u1''\<rparr>],
                  webhookLogs := [\<lparr>l_key = ''sha:[object Object]2025-01-01'',
                                   l_endpoint = ''/api/v1/webhooks/iclosed'',
                                   l_payload = rq_body req_empty_deal, l_status = 200,
                                   l_processedAt = sample_now\<rparr>],
                  nextId := 1\<rparr>, []))
   \<and> handleIncomingWebhook_permissive sample_rt sample_sha256 (js_toString sample_rt) sample_now req_empty_deal
       (sample_db\<lparr>contacts := contacts sample_db @
                    [\<lparr>c_id = ''id-0'', c_firstName = Some ''Bob'', c_lastName = None,
                      c_email = Some ''b@x.com'', c_phone = None, c_userId = ''u1''\<rparr>],
                  webhookLogs := [\<lparr>l_key = ''sha:[object Object]2025-01-01'',
                                   l_endpoint = ''/api/v1/webhooks/iclosed'',
                                   l_payload = rq_body req_empty_deal, l_status = 200,
                                   l_processedAt = sample_now\<rparr>],
                  nextId := 1\<rparr>, []) =
     (Inr \<lparr>r_status = 200,
           r_body = [(''status'', JStr ''success''),
                     (''message'', JStr ''Duplicate webhook - already processed''),
                     (''idempotencyKey'', JStr ''sha:[object Object]2025-01-01'')]\<rparr>,
      (sample_db\<lparr>contacts := contacts sample_db @
                    [\<lparr>c_id = ''id-0'', c_firstName = Some ''Bob'', c_lastName = None,
                      c_email = Some ''b@x.com'', c_phone = None, c_userId = ''u1''\<rparr>],
                  webhookLogs := [\<lparr>l_key = ''sha:[object Object]2025-01-01'',
                                   l_endpoint = ''/api/v1/webhooks/iclosed'',
                                   l_payload = rq_body req_empty_deal, l_status = 200,
                                   l_processedAt = sample_now\<rparr>],
                  nextId := 1\<rparr>, []))"
  by (simp add: req_empty_deal_def permissive_defs eval_defs Let_def)

section \<open>The contact resolver on an existing contact\<close>

lemma find_map_preserved:
  assumes "\<And>x. P (g x) = P x"
  shows "find P (map g xs) = map_option g (find P xs)"
  by (induction xs) (simp_all add: assms)

text \<open>What an update of the contact found by email leaves behind.\<close>

lemma contact_update_result:
  assumes ex: "find (\<lambda>c. c_email c = Some e) (contacts (fst w)) = Some ex"
      and em: "\<And>r. c_email (upd r) = c_email r"
  shows "find (\<lambda>c. c_email c = Some e) (contacts (fst (snd (contact_update (c_id ex) upd w)))) = Some ex
       \<or> find (\<lambda>c. c_email c = Some e) (contacts (fst (snd (contact_update (c_id ex) upd w)))) = Some (upd ex)"
proof -
  let ?g = "\<lambda>r. if c_id r = c_id ex then upd r else r"
  have "find (\<lambda>c. c_email c = Some e) (map ?g (contacts (fst w))) = Some (upd ex)"
    using ex by (simp add: find_map_preserved em)
  then show ?thesis
    using ex
    by (cases w)
       (auto simp: contact_update_def dbcall_def split: list.splits option.splits)
qed

lemma contact_findUnique_email_result:
  "contact_findUnique_email e w = (r, w') \<Longrightarrow>
     fst w' = fst w \<and> (\<forall>x. r = Inr x \<longrightarrow> x = find (\<lambda>c. c_email c = Some e) (contacts (fst w)))"
  by (cases w) (auto simp: contact_findUnique_email_def dbcall_def split: list.splits option.splits)


lemma updated_ok_refl: "updated_ok ex fn ln phone ex"
  by (simp add: updated_ok_def)

lemma or_opt_cases: "or_opt a b = b \<or> (or_opt a b = a \<and> a \<noteq> None \<and> a \<noteq> Some [])"
  by (auto simp: or_opt_def split: option.splits)

lemma opt_str_js_or:
  "opt_str (js_or phone (of_opt old)) = Inr ph \<Longrightarrow> ph = old \<or> (truthy phone \<and> phone = of_opt ph)"
  by (cases phone) (auto simp: opt_str_def js_or_def of_opt_def split: option.splits if_splits)

lemma updated_ok_upd:
  assumes "opt_str (js_or phone (of_opt (c_phone ex))) = Inr ph"
  shows "updated_ok ex fn ln phone
           (ex\<lparr>c_firstName := or_opt fn (c_firstName ex), c_lastName := or_opt ln (c_lastName ex),
               c_phone := ph, c_userId := uid\<rparr>)"
  using opt_str_js_or [OF assms] or_opt_cases [of fn "c_firstName ex"] or_opt_cases [of ln "c_lastName ex"]
  by (auto simp: updated_ok_def)

lemma upsertContact_existing:
  assumes ex: "find (\<lambda>c. c_email c = Some e) (contacts (fst w)) = Some ex"
  shows "\<exists>ex'. find (\<lambda>c. c_email c = Some e)
                 (contacts (fst (snd (upsertContact (JStr e) fn ln phone uid w)))) = Some ex'
             \<and> updated_ok ex fn ln phone ex'"
proof (cases "e = []")
  case True
  then show ?thesis
    using ex by (auto simp: upsertContact_def io_throw_def updated_ok_refl)
next
  case False
  obtain r w1 where f: "contact_findUnique_email e w = (r, w1)"
    by (cases "contact_findUnique_email e w")
  note fr = contact_findUnique_email_result [OF f]
  have w1: "fst w1 = fst w" using fr by simp
  show ?thesis
  proof (cases r)
    case (Inl err)
    then show ?thesis
      using False f ex w1
      by (auto simp: upsertContact_def req_str_def io_bind_run io_throw_def updated_ok_refl)
  next
    case (Inr x)
    then have x: "x = Some ex" using fr ex by simp
    show ?thesis
    proof (cases "opt_str (js_or phone (of_opt (c_phone ex)))")
      case (Inl err)
      then show ?thesis
        using False f ex w1 Inr x
        by (auto simp: upsertContact_def req_str_def io_bind_run io_throw_def updated_ok_refl)
    next
      case ph: (Inr ph)
      let ?upd = "\<lambda>r. r\<lparr>c_firstName := or_opt fn (c_firstName ex), c_lastName := or_opt ln (c_lastName ex),
                         c_phone := ph, c_userId := uid\<rparr>"
      have run: "upsertContact (JStr e) fn ln phone uid w = contact_update (c_id ex) ?upd w1"
        using False f Inr x ph
        by (simp add: upsertContact_def req_str_def io_bind_run io_ret_def)
      have ex1: "find (\<lambda>c. c_email c = Some e) (contacts (fst w1)) = Some ex"
        using ex w1 by simp
      from contact_update_result [OF ex1, of ?upd]
      show ?thesis
        using updated_ok_upd [OF ph] updated_ok_refl by (auto simp: run)
    qed
  qed
qed

lemma permissive_contact_existing:
  assumes ex: "find (\<lambda>c. c_email c = Some e) (contacts (fst w)) = Some ex"
  shows "\<exists>ex'. find (\<lambda>c. c_email c = Some e)
                 (contacts (fst (snd (permissive_contact rt (JStr e) name phone user w)))) = Some ex'
             \<and> updated_ok ex (fst (parseName rt name)) (snd (parseName rt name)) phone ex'"
proof (cases "e \<noteq> [] \<and> CHR ''@'' \<in> set e")
  case False
  then show ?thesis
    using ex by (auto simp: permissive_contact_def io_ret_def updated_ok_refl)
next
  case True
  obtain fn ln where pn: "parseName rt name = (fn, ln)"
    by (cases "parseName rt name")
  obtain r w1 where f: "contact_findUnique_email e w = (r, w1)"
    by (cases "contact_findUnique_email e w")
  note fr = contact_findUnique_email_result [OF f]
  have w1: "fst w1 = fst w" using fr by simp
  show ?thesis
  proof (cases r)
    case (Inl err)
    then show ?thesis
      using True f ex w1 pn
      by (auto simp: permissive_contact_def io_bind_run io_catch_run io_ret_def updated_ok_refl)
  next
    case (Inr x)
    then have x: "x = Some ex" using fr ex by simp
    show ?thesis
    proof (cases "opt_str (js_or phone (of_opt (c_phone ex)))")
      case (Inl err)
      then show ?thesis
        using True f ex w1 Inr x pn
        by (auto simp: permissive_contact_def io_bind_run io_catch_run io_ret_def io_throw_def updated_ok_refl)
    next
      case ph: (Inr ph)
      let ?upd = "\<lambda>r. r\<lparr>c_firstName := or_opt fn (c_firstName ex), c_lastName := or_opt ln (c_lastName ex),
                         c_phone := ph, c_userId := u_id user\<rparr>"
      have run: "fst (snd (permissive_contact rt (JStr e) name phone user w)) =
                 fst (snd (contact_update (c_id ex) ?upd w1))"
        using True f Inr x ph pn
        by (auto simp: permissive_contact_def io_bind_run io_catch_run io_ret_def
                 split: prod.splits sum.splits)
      have ex1: "find (\<lambda>c. c_email c = Some e) (contacts (fst w1)) = Some ex"
        using ex w1 by simp
      from contact_update_result [OF ex1, of ?upd]
      show ?thesis
        using updated_ok_upd [OF ph, of fn ln "u_id user"] updated_ok_refl pn by (auto simp: run)
    qed
  qed
qed

lemma parseName_falsy: "\<not> truthy name \<Longrightarrow> parseName rt name = (None, None)"
  by (cases name) (auto simp: parseName_def)

lemma updated_ok_secured:
  assumes ua: "updated_ok ex firstName lastName phone a"
  shows "c_id a = c_id ex
       \<and> (\<not> truthy phone \<longrightarrow> c_phone a = c_phone ex)
       \<and> (c_phone a \<noteq> c_phone ex \<longrightarrow> truthy phone \<and> phone = of_opt (c_phone a))
       \<and> (firstName = None \<or> firstName = Some [] \<longrightarrow> c_firstName a = c_firstName ex)
       \<and> (c_firstName a \<noteq> c_firstName ex \<longrightarrow>
            c_firstName a = firstName \<and> firstName \<noteq> None \<and> firstName \<noteq> Some [])
       \<and> (lastName = None \<or> lastName = Some [] \<longrightarrow> c_lastName a = c_lastName ex)
       \<and> (c_lastName a \<noteq> c_lastName ex \<longrightarrow>
            c_lastName a = lastName \<and> lastName \<noteq> None \<and> lastName \<noteq> Some [])"
  using ua unfolding updated_ok_def by blast

lemma updated_ok_permissive:
  assumes ub: "updated_ok ex (fst (parseName rt name)) (snd (parseName rt name)) phone b"
  shows "c_id b = c_id ex
       \<and> (\<not> truthy phone \<longrightarrow> c_phone b = c_phone ex)
       \<and> (c_phone b \<noteq> c_phone ex \<longrightarrow> truthy phone \<and> phone = of_opt (c_phone b))
       \<and> (\<not> truthy name \<longrightarrow> c_firstName b = c_firstName ex \<and> c_lastName b = c_lastName ex)
       \<and> (c_firstName b \<noteq> c_firstName ex \<longrightarrow>
            c_firstName b = fst (parseName rt name) \<and> fst (parseName rt name) \<noteq> None
            \<and> fst (parseName rt name) \<noteq> Some [])
       \<and> (c_lastName b \<noteq> c_lastName ex \<longrightarrow>
            c_lastName b = snd (parseName rt name) \<and> snd (parseName rt name) \<noteq> None
            \<and> snd (parseName rt name) \<noteq> Some [])"
proof -
  have a: "c_id b = c_id ex"
    and p: "c_phone b \<noteq> c_phone ex \<longrightarrow> truthy phone \<and> phone = of_opt (c_phone b)"
    and f: "c_firstName b \<noteq> c_firstName ex \<longrightarrow>
             c_firstName b = fst (parseName rt name) \<and> fst (parseName rt name) \<noteq> None
             \<and> fst (parseName rt name) \<noteq> Some []"
    and l: "c_lastName b \<noteq> c_lastName ex \<longrightarrow>
             c_lastName b = snd (parseName rt name) \<and> snd (parseName rt name) \<noteq> None
             \<and> snd (parseName rt name) \<noteq> Some []"
    using ub unfolding updated_ok_def by blast+
  have n: "\<not> truthy name \<longrightarrow> c_firstName b = c_firstName ex \<and> c_lastName b = c_lastName ex"
  proof
    assume "\<not> truthy name"
    then have "fst (parseName rt name) = None" "snd (parseName rt name) = None"
      by (simp_all add: parseName_falsy)
    with f l show "c_firstName b = c_firstName ex \<and> c_lastName b = c_lastName ex"
      by blast
  qed
  from a p f l n show ?thesis
    by blast
qed

text \<open>
  Claim C6. When the contact resolver meets an existing contact with the incoming email
  (the secured \<^verbatim>\<open>upsertContact\<close> and the contact block of the permissive handler), then
  afterwards, whatever the faults, the contact found by that email is the same row, and
  each of phone, first name and last name differs from the stored value only when the
  incoming value is present (a truthy phone; a name part that is neither null nor the empty
  string), and then equals it. With no incoming phone the stored phone stays what it was
  (so a phone P1 is not replaced by null), and with no incoming name both name fields
  stay. The permissive handler takes the name parts from \<^verbatim>\<open>parseName\<close>; a name of one word
  has no last name, so the stored last name stays.
\<close>

theorem C6_update_keeps_present_fields:
  assumes ex: "find (\<lambda>c. c_email c = Some e) (contacts (fst w)) = Some ex"
  shows "(\<exists>ex'. find (\<lambda>c. c_email c = Some e)
                  (contacts (fst (snd (upsertContact (JStr e) firstName lastName phone userId w)))) = Some ex'
              \<and> c_id ex' = c_id ex
              \<and> (\<not> truthy phone \<longrightarrow> c_phone ex' = c_phone ex)
              \<and> (c_phone ex' \<noteq> c_phone ex \<longrightarrow> truthy phone \<and> phone = of_opt (c_phone ex'))
              \<and> (firstName = None \<or> firstName = Some [] \<longrightarrow> c_firstName ex' = c_firstName ex)
              \<and> (c_firstName ex' \<noteq> c_firstName ex \<longrightarrow>
                   c_firstName ex' = firstName \<and> firstName \<noteq> None \<and> firstName \<noteq> Some [])
              \<and> (lastName = None \<or> lastName = Some [] \<longrightarrow> c_lastName ex' = c_lastName ex)
              \<and> (c_lastName ex' \<noteq> c_lastName ex \<longrightarrow>
                   c_lastName ex' = lastName \<and> lastName \<noteq> None \<and> lastName \<noteq> Some []))
       \<and> (\<exists>ex'. find (\<lambda>c. c_email c = Some e)
                  (contacts (fst (snd (permissive_contact rt (JStr e) name phone user w)))) = Some ex'
              \<and> c_id ex' = c_id ex
              \<and> (\<not> truthy phone \<longrightarrow> c_phone ex' = c_phone ex)
              \<and> (c_phone ex' \<noteq> c_phone ex \<longrightarrow> truthy phone \<and> phone = of_opt (c_phone ex'))
              \<and> (\<not> truthy name \<longrightarrow> c_firstName ex' = c_firstName ex \<and> c_lastName ex' = c_lastName ex)
              \<and> (c_firstName ex' \<noteq> c_firstName ex \<longrightarrow>
                   c_firstName ex' = fst (parseName rt name) \<and> fst (parseName rt name) \<noteq> None
                   \<and> fst (parseName rt name) \<noteq> Some [])
              \<and> (c_lastName ex' \<noteq> c_lastName ex \<longrightarrow>
                   c_lastName ex' = snd (parseName rt name) \<and> snd (parseName rt name) \<noteq> None
                   \<and> snd (parseName rt name) \<noteq> Some []))"
proof -
  obtain a where a: "find (\<lambda>c. c_email c = Some e)
                  (contacts (fst (snd (upsertContact (JStr e) firstName lastName phone userId w)))) = Some a"
    and ua: "updated_ok ex firstName lastName phone a"
    using upsertContact_existing [OF ex] by blast
  obtain b where b: "find (\<lambda>c. c_email c = Some e)
                  (contacts (fst (snd (permissive_contact rt (JStr e) name phone user w)))) = Some b"
    and ub: "updated_ok ex (fst (parseName rt name)) (snd (parseName rt name)) phone b"
    using permissive_contact_existing [OF ex] by blast
  show ?thesis
  proof (rule conjI)
    show "\<exists>ex'. find (\<lambda>c. c_email c = Some e)
                  (contacts (fst (snd (upsertContact (JStr e) firstName lastName phone userId w)))) = Some ex'
              \<and> c_id ex' = c_id ex
              \<and> (\<not> truthy phone \<longrightarrow> c_phone ex' = c_phone ex)
              \<and> (c_phone ex' \<noteq> c_phone ex \<longrightarrow> truthy phone \<and> phone = of_opt (c_phone ex'))
              \<and> (firstName = None \<or> firstName = Some [] \<longrightarrow> c_firstName ex' = c_firstName ex)
              \<and> (c_firstName ex' \<noteq> c_firstName ex \<longrightarrow>
                   c_firstName ex' = firstName \<and> firstName \<noteq> None \<and> firstName \<noteq> Some [])
              \<and> (lastName = None \<or> lastName = Some [] \<longrightarrow> c_lastName ex' = c_lastName ex)
              \<and> (c_lastName ex' \<noteq> c_lastName ex \<longrightarrow>
                   c_lastName ex' = lastName \<and> lastName \<noteq> None \<and> lastName \<noteq> Some [])"
      by (rule exI [of _ a]) (rule conjI [OF a updated_ok_secured [OF ua]])
    show "\<exists>ex'. find (\<lambda>c. c_email c = Some e)
                  (contacts (fst (snd (permissive_contact rt (JStr e) name phone user w)))) = Some ex'
              \<and> c_id ex' = c_id ex
              \<and> (\<not> truthy phone \<longrightarrow> c_phone ex' = c_phone ex)
              \<and> (c_phone ex' \<noteq> c_phone ex \<longrightarrow> truthy phone \<and> phone = of_opt (c_phone ex'))
              \<and> (\<not> truthy name \<longrightarrow> c_firstName ex' = c_firstName ex \<and> c_lastName ex' = c_lastName ex)
              \<and> (c_firstName ex' \<noteq> c_firstName ex \<longrightarrow>
                   c_firstName ex' = fst (parseName rt name) \<and> fst (parseName rt name) \<noteq> None
                   \<and> fst (parseName rt name) \<noteq> Some [])
              \<and> (c_lastName ex' \<noteq> c_lastName ex \<longrightarrow>
                   c_lastName ex' = snd (parseName rt name) \<and> snd (parseName rt name) \<noteq> None
                   \<and> snd (parseName rt name) \<noteq> Some [])"
      by (rule exI [of _ b]) (rule conjI [OF b updated_ok_permissive [OF ub]])
  qed
qed

text \<open>At the sample store: a delivery for Ada's email without phone and without name leaves
  her row as it was, in both resolvers; a delivery with the one-word name \<^verbatim>\<open>Augusta\<close> and a
  new phone changes her first name and her phone and keeps her last name.\<close>

theorem C6_update_keeps_present_fields_witness:
  "(\<exists>ex'. find (\<lambda>c. c_email c = Some ''a@x.com'')
            (contacts (fst (snd (upsertContact (JStr ''a@x.com'') None None JUndefined ''u1''
                                   (sample_db, []))))) = Some ex'
         \<and> c_phone ex' = Some ''555'' \<and> c_firstName ex' = Some ''Ada'' \<and> c_lastName ex' = Some ''Lovelace'')
   \<and> (\<exists>ex'. find (\<lambda>c. c_email c = Some ''a@x.com'')
            (contacts (fst (snd (permissive_contact sample_rt (JStr ''a@x.com'') JUndefined JUndefined
                                   \<lparr>u_id = ''u1'', u_createdAt = 1\<rparr> (sample_db, []))))) = Some ex'
         \<and> c_phone ex' = Some ''555'' \<and> c_firstName ex' = Some ''Ada'' \<and> c_lastName ex' = Some ''Lovelace'')
   \<and> contacts (fst (snd (permissive_contact sample_rt (JStr ''a@x.com'') JUndefined JUndefined
                           \<lparr>u_id = ''u1'', u_createdAt = 1\<rparr> (sample_db, [])))) = [ada]
   \<and> contacts (fst (snd (permissive_contact sample_rt (JStr ''a@x.com'') (JStr ''Augusta'') (JStr ''777'')
                           \<lparr>u_id = ''u1'', u_createdAt = 1\<rparr> (sample_db, [])))) =
       [ada\<lparr>c_firstName := Some ''Augusta'', c_phone := Some ''777''\<rparr>]"
proof -
  have ex: "find (\<lambda>c. c_email c = Some ''a@x.com'') (contacts (fst (sample_db, [] :: string option list))) = Some ada"
    by (simp add: sample_db_def ada_def)
  have run: "contacts (fst (snd (permissive_contact sample_rt (JStr ''a@x.com'') JUndefined JUndefined
                           \<lparr>u_id = ''u1'', u_createdAt = 1\<rparr> (sample_db, [])))) = [ada]"
    by (simp add: permissive_contact_def parseName_def eval_defs ada_def)
  have run2: "contacts (fst (snd (permissive_contact sample_rt (JStr ''a@x.com'') (JStr ''Augusta'') (JStr ''777'')
                           \<lparr>u_id = ''u1'', u_createdAt = 1\<rparr> (sample_db, [])))) =
       [ada\<lparr>c_firstName := Some ''Augusta'', c_phone := Some ''777''\<rparr>]"
    by (simp add: permissive_contact_def parseName_def eval_defs ada_def)
  from C6_update_keeps_present_fields [OF ex, where firstName = None and lastName = None
         and phone = JUndefined and userId = "''u1''" and name = JUndefined
         and user = "\<lparr>u_id = ''u1'', u_createdAt = 1\<rparr>" and rt = sample_rt] run run2
  show ?thesis
    by (simp add: ada_def) blast
qed

section \<open>What the automation service leaves untouched\<close>

lemma keeps_deal_update_map:
  "(\<And>d. I d \<Longrightarrow> I (d\<lparr>deals := map (\<lambda>r. if d_id r = i then upd r else r) (deals d)\<rparr>)) \<Longrightarrow>
   keeps I (deal_update i upd)"
  by (auto simp: deal_update_def split: option.splits intro!: keeps_dbcall)

lemma keeps_contact_create_append:
  "(\<And>d c n. I d \<Longrightarrow> I (d\<lparr>contacts := contacts d @ [c], nextId := n\<rparr>)) \<Longrightarrow>
   keeps I (contact_create fn ln e ph uid)"
  by (auto simp: contact_create_def Let_def split: option.splits if_splits intro!: keeps_dbcall)

lemma keeps_deal_create_append:
  "(\<And>d r n. I d \<Longrightarrow> I (d\<lparr>deals := deals d @ [r], nextId := n\<rparr>)) \<Longrightarrow>
   keeps I (deal_create t v sid pid cid uid dat)"
  by (auto simp: deal_create_def Let_def intro!: keeps_dbcall)

lemma keeps_run_action:
  assumes "automation_frame I"
  shows "keeps I (run_action rt contact action)"
proof -
  have T: "\<And>d x n. I d \<Longrightarrow> I (d\<lparr>tasks := x, nextId := n\<rparr>)"
    and D: "\<And>d i sid. I d \<Longrightarrow>
              I (d\<lparr>deals := map (\<lambda>r. if d_id r = i then r\<lparr>d_stageId := sid\<rparr> else r) (deals d)\<rparr>)"
    using assms unfolding automation_frame_def by blast+
  show ?thesis
    unfolding run_action_def
    by (intro keeps_intros keeps_task_create keeps_deal_update_map T D)
qed

lemma keeps_actions_loop:
  assumes "automation_frame I"
  shows "keeps I (actions_loop rt contact actions results)"
proof (induction actions arbitrary: results)
  case Nil
  show ?case by (simp add: keeps_ret)
next
  case (Cons action rest)
  show ?case
    by (simp del: io_bind_ret) (intro keeps_intros keeps_run_action assms Cons.IH)
qed

lemma keeps_workflow_step:
  assumes "automation_frame I"
  shows "keeps I (io_catch (workflow_try rt eventName contact workflow)
                           (workflow_failed eventName contact workflow))"
proof -
  have A: "\<And>d x n. I d \<Longrightarrow> I (d\<lparr>activities := x, nextId := n\<rparr>)"
    using assms unfolding automation_frame_def by blast
  show ?thesis
    unfolding workflow_try_def workflow_failed_def executeWorkflowActions_def
    by (intro keeps_intros keeps_actions_loop keeps_activity_create assms A)
qed

lemma keeps_workflows_loop:
  assumes "automation_frame I"
  shows "keeps I (workflows_loop rt eventName contact wfs)"
proof (induction wfs)
  case Nil
  show ?case by (simp add: keeps_ret)
next
  case (Cons workflow rest)
  show ?case
    by simp (intro keeps_intros keeps_workflow_step assms Cons.IH)
qed

lemma keeps_triggerWorkflow:
  assumes "automation_frame I"
  shows "keeps I (triggerWorkflow rt eventName contactId)"
  unfolding triggerWorkflow_def
  by (intro keeps_intros keeps_workflows_loop assms)

section \<open>Reasoning about outcomes\<close>

lemma hoare_ret: "(\<And>w. P w \<Longrightarrow> Q x w) \<Longrightarrow> hoare P (io_ret x) Q E"
  by (simp add: hoare_def io_ret_def)

lemma hoare_throw: "(\<And>w. P w \<Longrightarrow> E e w) \<Longrightarrow> hoare P (io_throw e) Q E"
  by (simp add: hoare_def io_throw_def)

lemma hoare_lift:
  "(\<And>w x. P w \<Longrightarrow> r = Inr x \<Longrightarrow> Q x w) \<Longrightarrow> (\<And>w e. P w \<Longrightarrow> r = Inl e \<Longrightarrow> E e w) \<Longrightarrow>
   hoare P (io_lift r) Q E"
  by (cases r) (simp_all add: hoare_def io_lift_def)

lemma hoareI:
  "(\<And>w x w'. P w \<Longrightarrow> m w = (Inr x, w') \<Longrightarrow> Q x w') \<Longrightarrow>
   (\<And>w e w'. P w \<Longrightarrow> m w = (Inl e, w') \<Longrightarrow> E e w') \<Longrightarrow> hoare P m Q E"
  unfolding hoare_def by (simp split: prod.splits sum.splits)

lemma hoare_Inr: "hoare P m Q E \<Longrightarrow> P w \<Longrightarrow> m w = (Inr x, w') \<Longrightarrow> Q x w'"
  unfolding hoare_def by (drule spec [of _ w]) simp

lemma hoare_Inl: "hoare P m Q E \<Longrightarrow> P w \<Longrightarrow> m w = (Inl e, w') \<Longrightarrow> E e w'"
  unfolding hoare_def by (drule spec [of _ w]) simp

lemma hoare_bind:
  assumes m: "hoare P m R E" and f: "\<And>x. hoare (R x) (f x) Q E"
  shows "hoare P (io_bind m f) Q E"
proof (rule hoareI)
  fix w y w'
  assume P: "P w" and run: "io_bind m f w = (Inr y, w')"
  obtain r w1 where mw: "m w = (r, w1)" by (cases "m w")
  show "Q y w'"
  proof (cases r)
    case (Inl e)
    with mw run show ?thesis by (simp add: io_bind_run)
  next
    case (Inr x)
    with mw run have "f x w1 = (Inr y, w')" by (simp add: io_bind_run)
    moreover have "R x w1" using hoare_Inr [OF m P] mw Inr by simp
    ultimately show ?thesis by (rule hoare_Inr [OF f, rotated])
  qed
next
  fix w e w'
  assume P: "P w" and run: "io_bind m f w = (Inl e, w')"
  obtain r w1 where mw: "m w = (r, w1)" by (cases "m w")
  show "E e w'"
  proof (cases r)
    case (Inl e1)
    with mw run have "e1 = e" "w1 = w'" by (simp_all add: io_bind_run)
    then show ?thesis using hoare_Inl [OF m P] mw Inl by simp
  next
    case (Inr x)
    with mw run have "f x w1 = (Inl e, w')" by (simp add: io_bind_run)
    moreover have "R x w1" using hoare_Inr [OF m P] mw Inr by simp
    ultimately show ?thesis by (rule hoare_Inl [OF f, rotated])
  qed
qed

lemma hoare_catch:
  assumes m: "hoare P m Q R" and h: "\<And>e. hoare (R e) (h e) Q E"
  shows "hoare P (io_catch m h) Q E"
proof (rule hoareI)
  fix w y w'
  assume P: "P w" and run: "io_catch m h w = (Inr y, w')"
  obtain r w1 where mw: "m w = (r, w1)" by (cases "m w")
  show "Q y w'"
  proof (cases r)
    case (Inr x)
    with mw run have "x = y" "w1 = w'" by (simp_all add: io_catch_run)
    then show ?thesis using hoare_Inr [OF m P] mw Inr by simp
  next
    case (Inl e)
    with mw run have "h e w1 = (Inr y, w')" by (simp add: io_catch_run)
    moreover have "R e w1" using hoare_Inl [OF m P] mw Inl by simp
    ultimately show ?thesis by (rule hoare_Inr [OF h, rotated])
  qed
next
  fix w e w'
  assume P: "P w" and run: "io_catch m h w = (Inl e, w')"
  obtain r w1 where mw: "m w = (r, w1)" by (cases "m w")
  show "E e w'"
  proof (cases r)
    case (Inr x)
    with mw run show ?thesis by (simp add: io_catch_run)
  next
    case (Inl e1)
    with mw run have "h e1 w1 = (Inl e, w')" by (simp add: io_catch_run)
    moreover have "R e1 w1" using hoare_Inl [OF m P] mw Inl by simp
    ultimately show ?thesis by (rule hoare_Inl [OF h, rotated])
  qed
qed

lemma hoare_conseq:
  assumes m: "hoare P' m Q' E'" and P: "\<And>w. P w \<Longrightarrow> P' w"
      and Q: "\<And>x w. Q' x w \<Longrightarrow> Q x w" and E: "\<And>e w. E' e w \<Longrightarrow> E e w"
  shows "hoare P m Q E"
proof (rule hoareI)
  fix w x w' assume "P w" "m w = (Inr x, w')"
  then show "Q x w'" using hoare_Inr [OF m] P Q by blast
next
  fix w e w' assume "P w" "m w = (Inl e, w')"
  then show "E e w'" using hoare_Inl [OF m] P E by blast
qed

lemma hoare_keeps:
  assumes "keeps I m"
  shows "hoare (\<lambda>w. I (fst w)) m (\<lambda>_ w. I (fst w)) (\<lambda>_ w. I (fst w))"
proof (rule hoareI)
  fix w x w' assume "I (fst w)" "m w = (Inr x, w')"
  then show "I (fst w')" by (rule keepsD [OF assms])
next
  fix w e w' assume "I (fst w)" "m w = (Inl e, w')"
  then show "I (fst w')" by (rule keepsD [OF assms])
qed

lemma hoare_if:
  "(c \<Longrightarrow> hoare P a Q E) \<Longrightarrow> (\<not> c \<Longrightarrow> hoare P b Q E) \<Longrightarrow> hoare P (if c then a else b) Q E"
  by simp

lemma hoare_case_option:
  "(x = None \<Longrightarrow> hoare P a Q E) \<Longrightarrow> (\<And>y. x = Some y \<Longrightarrow> hoare P (b y) Q E) \<Longrightarrow>
   hoare P (case x of None \<Rightarrow> a | Some y \<Rightarrow> b y) Q E"
  by (cases x) simp_all

lemma dbcall_ok:
  "no_faults (Suc n) fs \<Longrightarrow>
   dbcall q (d, fs) = (case q d of Inl e \<Rightarrow> (Inl e, (d, tl fs)) | Inr (x, d') \<Rightarrow> (Inr x, (d', tl fs)))"
  by (cases fs) (auto simp: dbcall_def split: option.splits)

lemma no_faults_Nil: "no_faults n []"
  by (cases n) simp_all

lemma no_faults_tl: "no_faults (Suc n) fs \<Longrightarrow> no_faults n (tl fs)"
  by (cases fs) (simp_all add: no_faults_Nil)

lemma find_by_id_of_found:
  "find P xs = Some ex \<Longrightarrow> \<exists>r. find (\<lambda>r. d_id r = d_id ex) xs = Some r"
  by (induction xs) (auto split: if_splits)

lemma hoare_bind_lift:
  "(\<And>x. r = Inr x \<Longrightarrow> hoare P (f x) Q E) \<Longrightarrow> (\<And>e w. r = Inl e \<Longrightarrow> P w \<Longrightarrow> E e w) \<Longrightarrow>
   hoare P (io_bind (io_lift r) f) Q E"
  by (cases r) (simp_all add: io_lift_def hoare_def)

lemma hoare_bind_keeps:
  assumes k: "keeps I m" and f: "\<And>x. hoare (\<lambda>w. I (fst w)) (f x) Q E"
      and e: "\<And>e w. I (fst w) \<Longrightarrow> E e w"
  shows "hoare (\<lambda>w. I (fst w)) (io_bind m f) Q E"
  by (rule hoare_bind [OF hoare_conseq [OF hoare_keeps [OF k]] f]) (simp_all add: e)

lemma hoare_rethrow:
  "hoare P m Q E \<Longrightarrow> hoare P (io_catch m (\<lambda>error. io_throw error)) Q E"
  by (rule hoare_catch [where R = E]) (simp_all add: hoare_throw)

lemma hoare_pure:
  "(A \<Longrightarrow> hoare P m Q E) \<Longrightarrow> hoare (\<lambda>w. P w \<and> A) m Q E"
  unfolding hoare_def by simp

lemma hoare_case_prod:
  "(\<And>a b. x = (a, b) \<Longrightarrow> hoare P (f a b) Q E) \<Longrightarrow> hoare P (case x of (a, b) \<Rightarrow> f a b) Q E"
  by (cases x) simp

section \<open>Stage resolution\<close>

lemma find_stage_by_name_str:
  "find_stage_by_name rt recv stgs (JStr s) = Inr (find (name_matches rt s) stgs)"
  by (induction stgs) (auto simp: res_bind_def name_matches_def)

lemma find_stage_by_name_Inr:
  "find_stage_by_name rt recv stgs v = Inr (Some st) \<Longrightarrow> \<exists>s. v = JStr s"
  by (cases stgs; cases v) (auto simp: res_bind_def)

lemma find_False: "find (\<lambda>x. False) xs = None"
  by (induction xs) simp_all

lemma find_by_json_id:
  "find (\<lambda>stage. JStr (s_id stage) = v) stgs =
     (case v of JStr i \<Rightarrow> find (\<lambda>st. s_id st = i) stgs | _ \<Rightarrow> None)"
  by (cases v) (simp_all add: find_False)

lemma permissive_targetStage_loaded:
  assumes "event = JStr ''lead_status_changed'' \<and> truthy new_status \<longrightarrow> (\<exists>s. new_status = JStr s)"
  shows "permissive_targetStage rt event new_status dealStageId stgs =
           Inr (case matched_stage rt stgs (explicit_id dealStageId) (status_hint event new_status) of
                  Some st \<Rightarrow> Some st
                | None \<Rightarrow> (case stgs of [] \<Rightarrow> None | first # _ \<Rightarrow> Some first))"
proof (cases "event = JStr ''lead_status_changed'' \<and> truthy new_status")
  case True
  then obtain s where s: "new_status = JStr s" using assms by blast
  show ?thesis
    using True s
    by (cases dealStageId)
       (auto simp: permissive_targetStage_def find_stage_by_name_str res_bind_def Let_def
                   matched_stage_def status_hint_def explicit_id_def find_by_json_id find_False
             split: option.splits list.splits)
next
  case False
  then show ?thesis
    by (cases dealStageId)
       (auto simp: permissive_targetStage_def res_bind_def Let_def
                   matched_stage_def status_hint_def explicit_id_def find_by_json_id find_False
             split: option.splits list.splits)
qed

lemma permissive_targetStage_spec:
  assumes "event = JStr ''lead_status_changed'' \<and> truthy new_status \<longrightarrow> (\<exists>s. new_status = JStr s)"
      and "first_by_order stgs = (case stgs of [] \<Rightarrow> None | first # _ \<Rightarrow> Some first)"
  shows "permissive_targetStage rt event new_status dealStageId stgs =
           Inr (resolveStage_spec rt stgs (explicit_id dealStageId) (status_hint event new_status))"
  unfolding permissive_targetStage_loaded [OF assms(1)] resolveStage_spec_def assms(2)
  by (rule refl)

lemma statusChanged_target_by_name:
  assumes "statusChanged_target rt payload user w = (Inr t, w')"
  shows "\<exists>s. st_newStatus t = JStr s
           \<and> find (name_matches rt s) (dl_pipeline_stages (st_deal t)) = Some (st_stage t)"
  using assms
  apply (auto simp: statusChanged_target_def io_bind_run io_lift_def io_throw_def io_ret_def
              split: sum.splits prod.splits if_splits option.splits)
  apply (frule find_stage_by_name_Inr)
  apply (auto simp: find_stage_by_name_str loaded_pipeline_stages_def split: option.splits)
  done

lemma statusChanged_target_no_match:
  assumes di: "status_dealId payload = Inr (JStr i)" and ne: "i \<noteq> []"
      and ns: "status_newStatus payload = Inr (JStr s)"
      and fd: "deal_findFirst_id i (u_id user) w = (Inr (Some deal), w')"
      and pp: "dl_pipeline deal \<noteq> None"
      and nomatch: "find (name_matches rt s) (dl_pipeline_stages deal) = None"
  shows "statusChanged_target rt payload user w =
           (Inl (Error (''Stage with status '' @ dq @ s @ dq @ '' not found in pipeline'')), w')"
  using ne fd pp nomatch
  by (auto simp: statusChanged_target_def di ns req_str_def io_bind_run io_throw_def io_ret_def
                 loaded_pipeline_stages_def find_stage_by_name_str)

text \<open>A \<^verbatim>\<open>status_changed\<close> delivery whose target cannot be resolved: the exception reaches the
  outer \<^verbatim>\<open>catch\<close> of the handler, and nothing has been written.\<close>

lemma status_changed_throws:
  assumes auth: "rq_secret req = Some s" "s \<noteq> []" "expectedSecret = Some s"
      and ev: "js_get (rq_body req) ''event'' = Inr (JStr ''status_changed'')"
      and eid: "secured_eventId (rq_body req) = Inr eventId"
      and dup: "(if truthy eventId then isProcessed eventId else io_ret False) w = (Inr False, wa)"
      and usr: "secured_user (rq_body req) wa = (Inr (Inr user), wb)"
      and tgt: "statusChanged_target rt (rq_body req) user wb = (Inl e, wc)"
  shows "handleIncomingWebhook_secured rt expectedSecret now req w = (Inr (internal_error e), wc)"
    and "fst wc = fst w"
proof -
  let ?payload = "rq_body req"
  have tp: "truthy ?payload"
    using js_get_truthy [OF ev] by simp
  have hs: "handleStatusChanged rt ?payload user now wb = (Inl e, wc)"
    using tgt by (simp add: handleStatusChanged_def io_bind_run io_catch_run io_throw_def)
  have disp: "secured_dispatch rt (JStr ''status_changed'') eventId ?payload user now wb = (Inl e, wc)"
    using hs by (simp add: secured_dispatch_def io_bind_run)
  have proc: "secured_process rt now ?payload w = (Inl e, wc)"
    using tp dup usr disp by (simp add: secured_process_def ev eid io_bind_run)
  show "handleIncomingWebhook_secured rt expectedSecret now req w = (Inr (internal_error e), wc)"
    using auth proc by (simp add: handleIncomingWebhook_secured_def io_catch_run io_ret_def)
  have f1: "fst wa = fst w"
  proof (cases "truthy eventId")
    case True
    then show ?thesis using dup read_only [OF keeps_isProcessed] by simp
  next
    case False
    then show ?thesis using dup by (simp add: io_ret_def)
  qed
  have f2: "fst wb = fst wa"
    using usr read_only [OF keeps_secured_user] by blast
  have f3: "fst wc = fst wb"
    using tgt read_only [OF keeps_statusChanged_target] by blast
  show "fst wc = fst w"
    using f1 f2 f3 by simp
qed

text \<open>Claim C4, amended. Permissive variant, for a status name that is a string: the stage is
  the first in the loaded list whose name equals or contains the status name of a
  \<^verbatim>\<open>lead_status_changed\<close> event, both lowered by the runtime; else the stage with the explicit
  stage id; else the first stage of the list as the store returned it, and none (never an
  error) when the pipeline has no stage. The stages are loaded without an order, so this is
  the resolution of the specification, whose rule (3) is the first stage by order, exactly
  when the loaded list begins with its stage of least order. Secured variant:
  \<^verbatim>\<open>status_changed\<close> resolves the stage by name only, and when no stage of the deal's pipeline
  matches it throws \<^verbatim>\<open>Stage with status "..." not found in pipeline\<close>: the handler answers 500
  with that message and the store is as it was.\<close>

theorem C4_stage_resolution:
  "(\<forall>rt event new_status dealStageId stgs.
      (event = JStr ''lead_status_changed'' \<and> truthy new_status \<longrightarrow> (\<exists>s. new_status = JStr s)) \<longrightarrow>
      permissive_targetStage rt event new_status dealStageId stgs =
        Inr (case matched_stage rt stgs (explicit_id dealStageId) (status_hint event new_status) of
               Some st \<Rightarrow> Some st
             | None \<Rightarrow> (case stgs of [] \<Rightarrow> None | first # _ \<Rightarrow> Some first)))
   \<and> (\<forall>rt event new_status dealStageId stgs.
        (event = JStr ''lead_status_changed'' \<and> truthy new_status \<longrightarrow> (\<exists>s. new_status = JStr s))
        \<and> first_by_order stgs = (case stgs of [] \<Rightarrow> None | first # _ \<Rightarrow> Some first) \<longrightarrow>
        permissive_targetStage rt event new_status dealStageId stgs =
          Inr (resolveStage_spec rt stgs (explicit_id dealStageId) (status_hint event new_status)))
   \<and> (\<forall>rt payload user w t w'.
        statusChanged_target rt payload user w = (Inr t, w') \<longrightarrow>
        (\<exists>s. st_newStatus t = JStr s
            \<and> find (name_matches rt s) (dl_pipeline_stages (st_deal t)) = Some (st_stage t)))
   \<and> (\<forall>rt expectedSecret now req s w eventId wa user wb i ns deal wc.
        rq_secret req = Some s \<and> s \<noteq> [] \<and> expectedSecret = Some s
        \<and> js_get (rq_body req) ''event'' = Inr (JStr ''status_changed'')
        \<and> secured_eventId (rq_body req) = Inr eventId
        \<and> (if truthy eventId then isProcessed eventId else io_ret False) w = (Inr False, wa)
        \<and> secured_user (rq_body req) wa = (Inr (Inr user), wb)
        \<and> status_dealId (rq_body req) = Inr (JStr i) \<and> i \<noteq> []
        \<and> status_newStatus (rq_body req) = Inr (JStr ns)
        \<and> deal_findFirst_id i (u_id user) wb = (Inr (Some deal), wc)
        \<and> dl_pipeline deal \<noteq> None
        \<and> find (name_matches rt ns) (dl_pipeline_stages deal) = None \<longrightarrow>
        handleIncomingWebhook_secured rt expectedSecret now req w =
          (Inr (internal_error
                  (Error (''Stage with status '' @ dq @ ns @ dq @ '' not found in pipeline''))), wc)
        \<and> r_status (internal_error
                      (Error (''Stage with status '' @ dq @ ns @ dq @ '' not found in pipeline''))) = 500
        \<and> fst wc = fst w)"
proof -
  have D: "handleIncomingWebhook_secured rt expectedSecret now req w =
          (Inr (internal_error
                  (Error (''Stage with status '' @ dq @ ns @ dq @ '' not found in pipeline''))), wc)
        \<and> r_status (internal_error
                      (Error (''Stage with status '' @ dq @ ns @ dq @ '' not found in pipeline''))) = 500
        \<and> fst wc = fst w"
    if "rq_secret req = Some s \<and> s \<noteq> [] \<and> expectedSecret = Some s
        \<and> js_get (rq_body req) ''event'' = Inr (JStr ''status_changed'')
        \<and> secured_eventId (rq_body req) = Inr eventId
        \<and> (if truthy eventId then isProcessed eventId else io_ret False) w = (Inr False, wa)
        \<and> secured_user (rq_body req) wa = (Inr (Inr user), wb)
        \<and> status_dealId (rq_body req) = Inr (JStr i) \<and> i \<noteq> []
        \<and> status_newStatus (rq_body req) = Inr (JStr ns)
        \<and> deal_findFirst_id i (u_id user) wb = (Inr (Some deal), wc)
        \<and> dl_pipeline deal \<noteq> None
        \<and> find (name_matches rt ns) (dl_pipeline_stages deal) = None"
    for rt expectedSecret now req s w eventId wa and user :: user and wb i ns deal wc
  proof -
    from that have auth: "rq_secret req = Some s" "s \<noteq> []" "expectedSecret = Some s"
      and ev: "js_get (rq_body req) ''event'' = Inr (JStr ''status_changed'')"
      and eid: "secured_eventId (rq_body req) = Inr eventId"
      and dup: "(if truthy eventId then isProcessed eventId else io_ret False) w = (Inr False, wa)"
      and usr: "secured_user (rq_body req) wa = (Inr (Inr user), wb)"
      and di: "status_dealId (rq_body req) = Inr (JStr i)" and ne: "i \<noteq> []"
      and ns: "status_newStatus (rq_body req) = Inr (JStr ns)"
      and fd: "deal_findFirst_id i (u_id user) wb = (Inr (Some deal), wc)"
      and pp: "dl_pipeline deal \<noteq> None"
      and nm: "find (name_matches rt ns) (dl_pipeline_stages deal) = None"
      by blast+
    note tgt = statusChanged_target_no_match [OF di ne ns fd pp nm]
    show ?thesis
      using status_changed_throws [OF auth ev eid dup usr tgt]
      by (simp add: internal_error_def res_json_def)
  qed
  show ?thesis
    apply (rule conjI)
     apply (intro allI impI)
     apply (erule permissive_targetStage_loaded)
    apply (rule conjI)
     apply (intro allI impI)
     apply (erule conjE)
     apply (erule (1) permissive_targetStage_spec)
    apply (rule conjI)
     apply (intro allI impI)
     apply (erule statusChanged_target_by_name)
    apply (intro allI impI)
    apply (erule D)
    done
qed

text \<open>The amended statement at the sample store: the name wins over a stale stage id, the
  stage id is used when the event is no status change, the first stage is the default; on
  a list that the store returns in another order the default is its head; the secured
  lookup finds \<^verbatim>\<open>Proposal Sent\<close> for \<^verbatim>\<open>proposal\<close>, and an unknown status is answered 500.\<close>

theorem C4_stage_resolution_witness:
  "permissive_targetStage sample_rt (JStr ''lead_status_changed'') (JStr ''PROPOSAL'') (JStr ''s1'')
     (stages sample_db) =
     Inr (Some \<lparr>s_id = ''s2'', s_name = ''Proposal Sent'', s_order = 2, s_pipelineId = ''p1''\<rparr>)
   \<and> permissive_targetStage sample_rt (JStr ''call_booked'') JUndefined (JStr ''s2'') (stages sample_db) =
     Inr (Some \<lparr>s_id = ''s2'', s_name = ''Proposal Sent'', s_order = 2, s_pipelineId = ''p1''\<rparr>)
   \<and> permissive_targetStage sample_rt (JStr ''lead_status_changed'') (JStr ''Lost'') (JStr ''s9'')
     (stages sample_db) =
     Inr (Some \<lparr>s_id = ''s1'', s_name = ''New'', s_order = 1, s_pipelineId = ''p1''\<rparr>)
   \<and> permissive_targetStage sample_rt (JStr ''lead_status_changed'') (JStr ''Lost'') (JStr ''s9'')
     (rev (stages sample_db)) =
     Inr (Some \<lparr>s_id = ''s2'', s_name = ''Proposal Sent'', s_order = 2, s_pipelineId = ''p1''\<rparr>)
   \<and> find (name_matches sample_rt ''proposal'') (stages sample_db) =
     Some \<lparr>s_id = ''s2'', s_name = ''Proposal Sent'', s_order = 2, s_pipelineId = ''p1''\<rparr>
   \<and> handleIncomingWebhook_secured sample_rt (Some ''k'') sample_now req_unknown_status (sample_db, []) =
     (Inr (internal_error (Error (''Stage with status '' @ dq @ ''Nonexistent'' @ dq @
                                  '' not found in pipeline''))), (sample_db, []))"
proof -
  let ?u = "\<lparr>u_id = ''u1'', u_createdAt = 1\<rparr>"
  let ?s1 = "\<lparr>s_id = ''s1'', s_name = ''New'', s_order = 1, s_pipelineId = ''p1''\<rparr>"
  let ?s2 = "\<lparr>s_id = ''s2'', s_name = ''Proposal Sent'', s_order = 2, s_pipelineId = ''p1''\<rparr>"
  let ?d1 = "\<lparr>d_id = ''d1'', d_title = ''D1'', d_value = 10, d_stageId = ''s1'',
              d_pipelineId = ''p1'', d_contactId = Some ''c1'', d_userId = ''u1'', d_data = JNull\<rparr>"
  let ?deal = "\<lparr>dl_row = ?d1, dl_stage = None,
                dl_pipeline = Some \<lparr>p_id = ''p1'', p_name = ''Sales'', p_userId = ''u1''\<rparr>,
                dl_pipeline_stages = stages sample_db\<rparr>"
  let ?t = "\<lparr>st_dealId = JStr ''d1'', st_newStatus = JStr ''proposal'', st_deal = ?deal,
             st_stage = ?s2\<rparr>"
  note l = C4_stage_resolution [THEN conjunct1, rule_format]
  note p = C4_stage_resolution [THEN conjunct2, THEN conjunct1, rule_format]
  note n = C4_stage_resolution [THEN conjunct2, THEN conjunct2, THEN conjunct1, rule_format]
  note s = C4_stage_resolution [THEN conjunct2, THEN conjunct2, THEN conjunct2, rule_format]
  have ord: "first_by_order (stages sample_db) =
               (case stages sample_db of [] \<Rightarrow> None | first # _ \<Rightarrow> Some first)"
    by code_simp
  have h1: "JStr ''lead_status_changed'' = JStr ''lead_status_changed'' \<and> truthy (JStr ''PROPOSAL'')
              \<longrightarrow> (\<exists>s. JStr ''PROPOSAL'' = JStr s)"
    and h2: "JStr ''call_booked'' = JStr ''lead_status_changed'' \<and> truthy JUndefined
              \<longrightarrow> (\<exists>s. JUndefined = JStr s)"
    and h3: "JStr ''lead_status_changed'' = JStr ''lead_status_changed'' \<and> truthy (JStr ''Lost'')
              \<longrightarrow> (\<exists>s. JStr ''Lost'' = JStr s)"
    by simp_all
  have e1: "resolveStage_spec sample_rt (stages sample_db) (explicit_id (JStr ''s1''))
              (status_hint (JStr ''lead_status_changed'') (JStr ''PROPOSAL'')) = Some ?s2"
    by code_simp
  have e2: "resolveStage_spec sample_rt (stages sample_db) (explicit_id (JStr ''s2''))
              (status_hint (JStr ''call_booked'') JUndefined) = Some ?s2"
    by code_simp
  have e3: "resolveStage_spec sample_rt (stages sample_db) (explicit_id (JStr ''s9''))
              (status_hint (JStr ''lead_status_changed'') (JStr ''Lost'')) = Some ?s1"
    by code_simp
  have e4: "(case matched_stage sample_rt (rev (stages sample_db)) (explicit_id (JStr ''s9''))
                   (status_hint (JStr ''lead_status_changed'') (JStr ''Lost'')) of
              Some st \<Rightarrow> Some st
            | None \<Rightarrow> (case rev (stages sample_db) of [] \<Rightarrow> None | first # _ \<Rightarrow> Some first)) = Some ?s2"
    by code_simp
  have 1: "permissive_targetStage sample_rt (JStr ''lead_status_changed'') (JStr ''PROPOSAL'') (JStr ''s1'')
             (stages sample_db) = Inr (Some ?s2)"
    unfolding p [OF conjI [OF h1 ord]] e1 by (rule refl)
  have 2: "permissive_targetStage sample_rt (JStr ''call_booked'') JUndefined (JStr ''s2'') (stages sample_db) =
           Inr (Some ?s2)"
    unfolding p [OF conjI [OF h2 ord]] e2 by (rule refl)
  have 3: "permissive_targetStage sample_rt (JStr ''lead_status_changed'') (JStr ''Lost'') (JStr ''s9'')
             (stages sample_db) = Inr (Some ?s1)"
    unfolding p [OF conjI [OF h3 ord]] e3 by (rule refl)
  have 4: "permissive_targetStage sample_rt (JStr ''lead_status_changed'') (JStr ''Lost'') (JStr ''s9'')
             (rev (stages sample_db)) = Inr (Some ?s2)"
  proof -
    have "permissive_targetStage sample_rt (JStr ''lead_status_changed'') (JStr ''Lost'') (JStr ''s9'')
            (rev (stages sample_db)) =
          Inr (case matched_stage sample_rt (rev (stages sample_db)) (explicit_id (JStr ''s9''))
                   (status_hint (JStr ''lead_status_changed'') (JStr ''Lost'')) of
              Some st \<Rightarrow> Some st
            | None \<Rightarrow> (case rev (stages sample_db) of [] \<Rightarrow> None | first # _ \<Rightarrow> Some first))"
      by (rule l) simp
    then show ?thesis
      unfolding e4 .
  qed
  have tgt: "statusChanged_target sample_rt (rq_body req_status_changed) ?u (sample_db, []) =
               (Inr ?t, (sample_db, []))"
    by code_simp
  have 5: "find (name_matches sample_rt ''proposal'') (stages sample_db) = Some ?s2"
    using n [OF tgt] by simp
  have prem: "rq_secret req_unknown_status = Some ''k'' \<and> ''k'' \<noteq> [] \<and> Some ''k'' = Some ''k''
        \<and> js_get (rq_body req_unknown_status) ''event'' = Inr (JStr ''status_changed'')
        \<and> secured_eventId (rq_body req_unknown_status) = Inr (JStr ''E2'')
        \<and> (if truthy (JStr ''E2'') then isProcessed (JStr ''E2'') else io_ret False) (sample_db, [])
            = (Inr False, (sample_db, []))
        \<and> secured_user (rq_body req_unknown_status) (sample_db, []) = (Inr (Inr ?u), (sample_db, []))
        \<and> status_dealId (rq_body req_unknown_status) = Inr (JStr ''d1'') \<and> ''d1'' \<noteq> []
        \<and> status_newStatus (rq_body req_unknown_status) = Inr (JStr ''Nonexistent'')
        \<and> deal_findFirst_id ''d1'' (u_id ?u) (sample_db, []) = (Inr (Some ?deal), (sample_db, []))
        \<and> dl_pipeline ?deal \<noteq> None
        \<and> find (name_matches sample_rt ''Nonexistent'') (dl_pipeline_stages ?deal) = None"
    by code_simp
  have 6: "handleIncomingWebhook_secured sample_rt (Some ''k'') sample_now req_unknown_status (sample_db, []) =
     (Inr (internal_error (Error (''Stage with status '' @ dq @ ''Nonexistent'' @ dq @
                                  '' not found in pipeline''))), (sample_db, []))"
    by (rule s [OF prem, THEN conjunct1])
  show ?thesis
    by (intro conjI 1 2 3 4 5 6)
qed

text \<open>Claim C4 as stated fails. In the secured variant a status name that no stage matches is
  answered 500 with the error of the stage lookup, and the deal keeps its stage. In the
  permissive variant the default is the head of the list as loaded, here the stage of order
  2, where the resolution of the specification takes the stage of order 1.\<close>

theorem C4_counterexample:
  "handleIncomingWebhook_secured sample_rt (Some ''k'') sample_now req_unknown_status (sample_db, []) =
     (Inr \<lparr>r_status = 500,
           r_body = [(''status'', JStr ''error''),
                     (''message'', JStr ''Internal Server Error: Failed to process webhook''),
                     (''error'', JStr (''Stage with status '' @ dq @ ''Nonexistent'' @ dq @
                                       '' not found in pipeline''))]\<rparr>,
      (sample_db, []))
   \<and> permissive_targetStage sample_rt (JStr ''call_booked'') JUndefined JUndefined
        [\<lparr>s_id = ''s2'', s_name = ''Proposal Sent'', s_order = 2, s_pipelineId = ''p1''\<rparr>,
         \<lparr>s_id = ''s1'', s_name = ''New'', s_order = 1, s_pipelineId = ''p1''\<rparr>] =
      Inr (Some \<lparr>s_id = ''s2'', s_name = ''Proposal Sent'', s_order = 2, s_pipelineId = ''p1''\<rparr>)
   \<and> resolveStage_spec sample_rt
        [\<lparr>s_id = ''s2'', s_name = ''Proposal Sent'', s_order = 2, s_pipelineId = ''p1''\<rparr>,
         \<lparr>s_id = ''s1'', s_name = ''New'', s_order = 1, s_pipelineId = ''p1''\<rparr>] None None =
      Some \<lparr>s_id = ''s1'', s_name = ''New'', s_order = 1, s_pipelineId = ''p1''\<rparr>"
  by code_simp

section \<open>Exceptions during processing\<close>

lemma hoare_case_sum:
  "(\<And>y. x = Inl y \<Longrightarrow> hoare P (a y) Q E) \<Longrightarrow> (\<And>y. x = Inr y \<Longrightarrow> hoare P (b y) Q E) \<Longrightarrow>
   hoare P (case x of Inl y \<Rightarrow> a y | Inr y \<Rightarrow> b y) Q E"
  by (cases x) simp_all

lemma keeps_logs_handleAppointmentBooked:
  "keeps (\<lambda>d. webhookLogs d = L) (handleAppointmentBooked rt payload user now)"
  unfolding handleAppointmentBooked_def upsertContact_def createDeal_def logActivity_def
  by (intro keeps_intros keeps_writes; simp)

lemma keeps_logs_handleStatusChanged:
  "keeps (\<lambda>d. webhookLogs d = L) (handleStatusChanged rt payload user now)"
  unfolding handleStatusChanged_def updateDealStage_def logActivity_def
  by (intro keeps_intros keeps_writes; simp)

lemma hoare_webhookLog_create:
  "hoare (\<lambda>w. webhookLogs (fst w) = L) (webhookLog_create row)
     (\<lambda>r w. r = row \<and> webhookLogs (fst w) = L @ [row])
     (\<lambda>_ w. webhookLogs (fst w) = L)"
  by (rule hoareI)
     (auto simp: webhookLog_create_def dbcall_def split: list.splits option.splits if_splits)

lemma hoare_markProcessed:
  "hoare (\<lambda>w. webhookLogs (fst w) = L) (markProcessed eventId payload now)
     (\<lambda>_ _. True) (\<lambda>_ w. webhookLogs (fst w) = L)"
  unfolding markProcessed_def
  apply (rule hoare_rethrow)
  apply (rule hoare_bind_lift)
   apply (rule hoare_conseq [OF hoare_webhookLog_create])
     apply simp_all
  done

lemma hoare_secured_finish:
  "hoare (\<lambda>w. webhookLogs (fst w) = L) (secured_finish eventId payload now)
     (\<lambda>_ _. True) (\<lambda>_ w. webhookLogs (fst w) = L)"
  unfolding secured_finish_def
  apply (rule hoare_bind [where R = "\<lambda>_ _. True"])
   apply (rule hoare_if)
    apply (rule hoare_bind [where R = "\<lambda>_ _. True"])
     apply (rule hoare_markProcessed)
    apply (rule hoare_ret, simp)
   apply (rule hoare_ret, simp)
  apply (rule hoare_ret, simp)
  done

lemma hoare_secured_dispatch:
  "hoare (\<lambda>w. webhookLogs (fst w) = L) (secured_dispatch rt event eventId payload user now)
     (\<lambda>_ _. True) (\<lambda>_ w. webhookLogs (fst w) = L)"
  unfolding secured_dispatch_def
  apply (intro hoare_if)
    apply (rule hoare_bind_keeps [where I = "\<lambda>d. webhookLogs d = L"])
      apply (rule keeps_logs_handleAppointmentBooked)
     apply (rule hoare_secured_finish)
    apply simp
   apply (rule hoare_bind_keeps [where I = "\<lambda>d. webhookLogs d = L"])
     apply (rule keeps_logs_handleStatusChanged)
    apply (rule hoare_secured_finish)
   apply simp
  apply (rule hoare_ret, simp)
  done

lemma hoare_secured_process:
  "hoare (\<lambda>w. webhookLogs (fst w) = L) (secured_process rt now payload)
     (\<lambda>_ _. True) (\<lambda>_ w. webhookLogs (fst w) = L)"
  unfolding secured_process_def
  apply (rule hoare_if)
   apply (rule hoare_ret, simp)
  apply (rule hoare_bind_lift)
   apply (rule hoare_if)
    apply (rule hoare_ret, simp)
   apply (rule hoare_bind_lift)
    apply (rule hoare_bind_keeps [where I = "\<lambda>d. webhookLogs d = L"])
      apply (intro keeps_intros)
     apply (rule hoare_if)
      apply (rule hoare_ret, simp)
     apply (rule hoare_bind_keeps [where I = "\<lambda>d. webhookLogs d = L"])
       apply (rule keeps_secured_user)
      apply (rule hoare_case_sum)
       apply (rule hoare_ret, simp)
      apply (rule hoare_secured_dispatch)
     apply simp_all
  done

lemma secured_throw_response:
  assumes auth: "rq_secret req = Some s" "s \<noteq> []" "expectedSecret = Some s"
      and run: "secured_process rt now (rq_body req) w = (Inl e, w')"
  shows "handleIncomingWebhook_secured rt expectedSecret now req w = (Inr (internal_error e), w')"
    and "webhookLogs (fst w') = webhookLogs (fst w)"
proof -
  show "handleIncomingWebhook_secured rt expectedSecret now req w = (Inr (internal_error e), w')"
    using auth run by (simp add: handleIncomingWebhook_secured_def io_catch_run io_ret_def)
  show "webhookLogs (fst w') = webhookLogs (fst w)"
    using hoare_Inl [OF hoare_secured_process [of "webhookLogs (fst w)"] _ run] by simp
qed

lemma statusChanged_target_not_found:
  assumes di: "status_dealId payload = Inr (JStr i)" and ne: "i \<noteq> []"
      and ns: "status_newStatus payload = Inr ns"
      and fd: "deal_findFirst_id i (u_id user) w = (Inr None, w')"
  shows "statusChanged_target rt payload user w =
           (Inl (Error (''Deal with ID '' @ i @ '' not found'')), w')"
  using ne fd
  by (simp add: statusChanged_target_def di ns req_str_def io_bind_run io_throw_def io_lift_def)

lemma status_changed_deal_missing:
  assumes auth: "rq_secret req = Some s" "s \<noteq> []" "expectedSecret = Some s"
      and ev: "js_get (rq_body req) ''event'' = Inr (JStr ''status_changed'')"
      and eid: "secured_eventId (rq_body req) = Inr eventId"
      and dup: "(if truthy eventId then isProcessed eventId else io_ret False) w = (Inr False, wa)"
      and usr: "secured_user (rq_body req) wa = (Inr (Inr user), wb)"
      and di: "status_dealId (rq_body req) = Inr (JStr i)" and ne: "i \<noteq> []"
      and ns: "status_newStatus (rq_body req) = Inr ns"
      and fd: "deal_findFirst_id i (u_id user) wb = (Inr None, wc)"
  shows "handleIncomingWebhook_secured rt expectedSecret now req w =
           (Inr (internal_error (Error (''Deal with ID '' @ i @ '' not found''))), wc)"
    and "fst wc = fst w"
proof -
  let ?payload = "rq_body req"
  let ?e = "Error (''Deal with ID '' @ i @ '' not found'')"
  have tp: "truthy ?payload"
    using js_get_truthy [OF ev] by simp
  have tgt: "statusChanged_target rt ?payload user wb = (Inl ?e, wc)"
    by (rule statusChanged_target_not_found [OF di ne ns fd])
  have hs: "handleStatusChanged rt ?payload user now wb = (Inl ?e, wc)"
    using tgt by (simp add: handleStatusChanged_def io_bind_run io_catch_run io_throw_def)
  have disp: "secured_dispatch rt (JStr ''status_changed'') eventId ?payload user now wb = (Inl ?e, wc)"
    using hs by (simp add: secured_dispatch_def io_bind_run)
  have proc: "secured_process rt now ?payload w = (Inl ?e, wc)"
    using tp dup usr disp by (simp add: secured_process_def ev eid io_bind_run)
  show "handleIncomingWebhook_secured rt expectedSecret now req w = (Inr (internal_error ?e), wc)"
    by (rule secured_throw_response(1) [OF auth proc])
  have f1: "fst wa = fst w"
  proof (cases "truthy eventId")
    case True
    then show ?thesis using dup read_only [OF keeps_isProcessed] by simp
  next
    case False
    then show ?thesis using dup by (simp add: io_ret_def)
  qed
  have f2: "fst wb = fst wa"
    using usr read_only [OF keeps_secured_user] by blast
  have f3: "fst wc = fst wb"
    using tgt read_only [OF keeps_statusChanged_target] by blast
  show "fst wc = fst w"
    using f1 f2 f3 by simp
qed

lemma hoare_bind_any:
  "(\<And>x. hoare (\<lambda>_. True) (f x) Q (\<lambda>_ _. True)) \<Longrightarrow>
   hoare (\<lambda>_. True) (io_bind m f) Q (\<lambda>_ _. True)"
  by (rule hoare_bind [where R = "\<lambda>_ _. True"]) (simp_all add: hoare_def split: prod.splits sum.splits)

lemma hoare_catch_any:
  "hoare (\<lambda>_. True) m Q (\<lambda>_ _. True) \<Longrightarrow> (\<And>e. hoare (\<lambda>_. True) (h e) Q E) \<Longrightarrow>
   hoare (\<lambda>_. True) (io_catch m h) Q E"
  by (rule hoare_catch [where R = "\<lambda>_ _. True"])

lemma hoare_combine:
  assumes k: "keeps I m" and n: "nothrow m" and q: "hoare (\<lambda>_. True) m Q (\<lambda>_ _. True)"
  shows "hoare (\<lambda>w. I (fst w)) m (\<lambda>x w. I (fst w) \<and> Q x w) (\<lambda>_ _. False)"
proof (rule hoareI)
  fix w x w' assume "I (fst w)" and run: "m w = (Inr x, w')"
  then have "I (fst w')" by (rule keepsD [OF k])
  moreover have "Q x w'" using hoare_Inr [OF q _ run] by simp
  ultimately show "I (fst w') \<and> Q x w'" by simp
next
  fix w e w' assume "m w = (Inl e, w')"
  moreover obtain x w1 where "m w = (Inr x, w1)" using n unfolding nothrow_def by blast
  ultimately show False by simp
qed

lemma automation_frame_logs: "automation_frame (\<lambda>d. webhookLogs d = L)"
  by (simp add: automation_frame_def)

lemma keeps_logs_permissive_deal:
  "keeps (\<lambda>d. webhookLogs d = L) (permissive_deal rt payload email user)"
  unfolding permissive_deal_def permissive_dealContact_def permissive_pipeline_def
    permissive_upsertDeal_def permissive_afterUpdate_def permissive_afterCreate_def
  by (intro keeps_intros keeps_writes keeps_triggerWorkflow automation_frame_logs; simp)

lemma nothrow_bind_lift:
  "r = Inr x \<Longrightarrow> nothrow (f x) \<Longrightarrow> nothrow (io_bind (io_lift r) f)"
  by (simp add: io_lift_def)

lemma nothrow_permissive_deal:
  assumes "\<not> nullish payload"
  shows "nothrow (permissive_deal rt payload email user)"
proof -
  obtain x where x: "js_get payload ''deal'' = Inr x"
    using js_get_total [OF assms] by blast
  show ?thesis
    unfolding permissive_deal_def
    by (rule nothrow_bind_lift [OF x]) (intro nothrow_intros)
qed

lemma permissive_deal_early:
  "hoare (\<lambda>_. True) (permissive_deal rt payload email user)
     (\<lambda>early _. early = None \<or> early = Some received) (\<lambda>_ _. True)"
  unfolding permissive_deal_def
  by (intro hoare_bind_any hoare_if hoare_catch_any hoare_ret) simp_all

lemma permissive_user_shape:
  "hoare (\<lambda>_. True) (permissive_user payload)
     (\<lambda>found _. \<forall>r. found = Inl r \<longrightarrow> r = received) (\<lambda>_ _. True)"
  unfolding permissive_user_def
  by (intro hoare_catch_any hoare_bind_any hoare_case_option hoare_ret) simp_all

lemma contact_field_total: "\<not> nullish payload \<Longrightarrow> \<exists>x. contact_field payload k = Inr x"
proof -
  assume n: "\<not> nullish payload"
  then obtain c where c: "js_get payload ''contact'' = Inr c"
    using js_get_total by blast
  show ?thesis
  proof (cases "nullish c")
    case True
    then show ?thesis by (simp add: contact_field_def c res_bind_def js_optget_def)
  next
    case False
    then obtain x where "js_get c k = Inr x" using js_get_total by blast
    with False show ?thesis by (simp add: contact_field_def c res_bind_def js_optget_def)
  qed
qed

lemma or_else_total2: "\<exists>x. a = Inr x \<Longrightarrow> \<exists>y. b = Inr y \<Longrightarrow> \<exists>z. or_else a b = Inr z"
  by (auto simp: or_else_def)

lemma permissive_fields_total:
  assumes "\<not> nullish payload"
  shows "\<exists>x. permissive_email payload = Inr x"
    and "\<exists>x. permissive_name payload = Inr x"
    and "\<exists>x. permissive_phone payload = Inr x"
proof -
  have g: "\<And>k. \<exists>y. js_get payload k = Inr y"
    using js_get_total [OF assms] by blast
  have f: "\<And>ks k. \<exists>z. or_fields payload ks (js_get payload k) = Inr z"
    using or_fields_total [OF assms] g by blast
  show "\<exists>x. permissive_email payload = Inr x"
    unfolding permissive_email_def
    by (rule or_else_total2 [OF contact_field_total [OF assms] f])
  show "\<exists>x. permissive_name payload = Inr x"
    unfolding permissive_name_def
    by (rule or_else_total2 [OF contact_field_total [OF assms] f])
  show "\<exists>x. permissive_phone payload = Inr x"
    unfolding permissive_phone_def
    by (rule or_else_total2 [OF contact_field_total [OF assms] f])
qed

lemma permissive_payload_total:
  assumes "\<not> nullish body"
  shows "\<exists>payload. permissive_payload body = Inr payload \<and> \<not> nullish payload"
proof -
  obtain a where a: "js_get body ''data'' = Inr a" using js_get_total [OF assms] by blast
  obtain b where b: "js_get body ''payload'' = Inr b" using js_get_total [OF assms] by blast
  show ?thesis
    using assms truthy_not_nullish
    by (auto simp: permissive_payload_def a b or_else_def)
qed

lemma hoare_logProcessedWebhook:
  "hoare (\<lambda>w. webhookLogs (fst w) = L) (logProcessedWebhook k payload ''success'' now)
     (\<lambda>_ w. logged_success L (webhookLogs (fst w))) (\<lambda>_ _. False)"
  unfolding logProcessedWebhook_def
  apply (rule hoare_catch [where R = "\<lambda>_ w. webhookLogs (fst w) = L"])
   apply (rule hoare_bind [where R = "\<lambda>r w. l_status r = 200 \<and> webhookLogs (fst w) = L @ [r]"])
    apply (rule hoare_conseq [OF hoare_webhookLog_create])
      apply simp_all
   apply (rule hoare_ret)
   apply (simp add: logged_success_def)
  apply (rule hoare_ret)
  apply (simp add: logged_success_def)
  done

lemma keeps_logs_permissive_contact:
  "keeps (\<lambda>d. webhookLogs d = L) (permissive_contact rt email name phone user)"
  by (rule keeps_permissive_contact) simp_all

lemma permissive_process_ok:
  assumes n: "\<not> nullish payload"
  shows "hoare (\<lambda>w. webhookLogs (fst w) = L) (permissive_process rt k payload now)
           (\<lambda>resp w. permissive_ok k resp \<and> logged_success L (webhookLogs (fst w)))
           (\<lambda>_ _. False)"
proof -
  obtain email where em: "permissive_email payload = Inr email"
    using permissive_fields_total(1) [OF n] by blast
  obtain name where nm: "permissive_name payload = Inr name"
    using permissive_fields_total(2) [OF n] by blast
  obtain phone where ph: "permissive_phone payload = Inr phone"
    using permissive_fields_total(3) [OF n] by blast
  have user: "hoare (\<lambda>w. webhookLogs (fst w) = L) (permissive_user payload)
                (\<lambda>found w. webhookLogs (fst w) = L \<and> (\<forall>r. found = Inl r \<longrightarrow> r = received))
                (\<lambda>_ _. False)"
    by (rule hoare_combine [OF keeps_permissive_user nothrow_permissive_user permissive_user_shape])
  have contact: "hoare (\<lambda>w. webhookLogs (fst w) = L) (permissive_contact rt e nm ph u)
                   (\<lambda>_ w. webhookLogs (fst w) = L \<and> True) (\<lambda>_ _. False)" for e nm ph u
    by (rule hoare_combine [OF keeps_logs_permissive_contact nothrow_permissive_contact])
       (simp add: hoare_def split: prod.splits sum.splits)
  have deal: "hoare (\<lambda>w. webhookLogs (fst w) = L) (permissive_deal rt payload e u)
                (\<lambda>early w. webhookLogs (fst w) = L \<and> (early = None \<or> early = Some received))
                (\<lambda>_ _. False)" for e u
    by (rule hoare_combine [OF keeps_logs_permissive_deal nothrow_permissive_deal [OF n]
          permissive_deal_early])
  show ?thesis
    unfolding permissive_process_def
    apply (rule hoare_bind_lift [OF _ _])
     prefer 2 apply (simp add: em)
    apply (rule hoare_bind_lift)
     prefer 2 apply (simp add: nm)
    apply (rule hoare_bind_lift)
     prefer 2 apply (simp add: ph)
    apply (rule hoare_bind [OF user])
    apply (rule hoare_case_sum)
     apply (rule hoare_ret)
     apply (simp add: permissive_ok_def logged_success_def)
    apply (rule hoare_pure)
    apply (rule hoare_bind [where R = "\<lambda>_ w. webhookLogs (fst w) = L"])
     apply (rule hoare_conseq [OF contact])
       apply simp_all [3]
    apply (rule hoare_bind [OF deal])
    apply (rule hoare_case_option)
     apply (rule hoare_bind [where R = "\<lambda>_ w. logged_success L (webhookLogs (fst w))"])
      apply (rule hoare_conseq [OF hoare_logProcessedWebhook])
        apply simp_all [3]
     apply (rule hoare_ret)
     apply (simp add: permissive_ok_def)
    apply (rule hoare_ret)
    apply (simp add: permissive_ok_def logged_success_def)
    done
qed

lemma hoare_total:
  assumes h: "hoare P m Q (\<lambda>_ _. False)" and P: "P w"
  shows "\<exists>x w'. m w = (Inr x, w') \<and> Q x w'"
proof -
  obtain r w' where run: "m w = (r, w')" by (cases "m w")
  show ?thesis
  proof (cases r)
    case (Inl e)
    with run hoare_Inl [OF h P] show ?thesis by blast
  next
    case (Inr x)
    with run hoare_Inr [OF h P] show ?thesis by blast
  qed
qed

lemma permissive_handler_ok:
  assumes n: "\<not> nullish (rq_body req)"
  shows "\<exists>k. hoare (\<lambda>w. webhookLogs (fst w) = L)
           (handleIncomingWebhook_permissive rt sha256 stringify now req)
           (\<lambda>resp w. permissive_ok k resp \<and> logged_success L (webhookLogs (fst w)))
           (\<lambda>_ _. False)"
proof -
  obtain payload where pl: "permissive_payload (rq_body req) = Inr payload" and np: "\<not> nullish payload"
    using permissive_payload_total [OF n] by blast
  let ?k = "generateIdempotencyKey sha256 stringify payload now"
  have dup: "hoare (\<lambda>w. webhookLogs (fst w) = L) (isWebhookProcessed ?k)
               (\<lambda>_ w. webhookLogs (fst w) = L \<and> True) (\<lambda>_ _. False)"
    by (rule hoare_combine [OF keeps_isWebhookProcessed nothrow_isWebhookProcessed])
       (simp add: hoare_def split: prod.splits sum.splits)
  have "hoare (\<lambda>w. webhookLogs (fst w) = L)
           (handleIncomingWebhook_permissive rt sha256 stringify now req)
           (\<lambda>resp w. permissive_ok ?k resp \<and> logged_success L (webhookLogs (fst w)))
           (\<lambda>_ _. False)"
    unfolding handleIncomingWebhook_permissive_def pl io_lift_Inr io_bind_ret
    apply (rule hoare_catch [where R = "\<lambda>_ _. False"])
     apply (rule hoare_bind [where R = "\<lambda>_ w. webhookLogs (fst w) = L"])
      apply (rule hoare_conseq [OF dup])
        apply simp_all [3]
     apply (rule hoare_if)
      apply (rule hoare_ret)
      apply (simp add: permissive_ok_def logged_success_def)
     apply (rule hoare_conseq [OF permissive_process_ok [OF np]])
       apply (simp_all add: permissive_ok_def) [3]
    apply (simp add: hoare_def)
    done
  then show ?thesis by blast
qed

lemma permissive_ok_response:
  "permissive_ok k resp \<Longrightarrow>
   r_status resp = 200 \<and> map_of (r_body resp) ''status'' = Some (JStr ''success'')
   \<and> map_of (r_body resp) ''error'' = None"
  by (auto simp: permissive_ok_def received_def received_with_key_def duplicate_webhook_def
        res_json_def)

lemma permissive_always_200:
  assumes n: "\<not> nullish (rq_body req)"
  shows "\<exists>resp w'. handleIncomingWebhook_permissive rt sha256 stringify now req w = (Inr resp, w')
           \<and> r_status resp = 200 \<and> map_of (r_body resp) ''status'' = Some (JStr ''success'')
           \<and> map_of (r_body resp) ''error'' = None
           \<and> logged_success (webhookLogs (fst w)) (webhookLogs (fst w'))"
proof -
  obtain k where h: "hoare (\<lambda>x. webhookLogs (fst x) = webhookLogs (fst w))
           (handleIncomingWebhook_permissive rt sha256 stringify now req)
           (\<lambda>resp x. permissive_ok k resp \<and> logged_success (webhookLogs (fst w)) (webhookLogs (fst x)))
           (\<lambda>_ _. False)"
    using permissive_handler_ok [OF n] by blast
  obtain resp w' where run: "handleIncomingWebhook_permissive rt sha256 stringify now req w = (Inr resp, w')"
    and ok: "permissive_ok k resp" and lg: "logged_success (webhookLogs (fst w)) (webhookLogs (fst w'))"
    using hoare_total [OF h, of w] by auto
  show ?thesis
    using run lg permissive_ok_response [OF ok] by simp
qed

text \<open>Claim C1, amended. Secured variant: when processing throws after the secret check and
  the shape check, the outer \<^verbatim>\<open>catch\<close> answers 500 with the message of the exception, and
  no WebhookLog row has been written, failed or otherwise; a \<^verbatim>\<open>status_changed\<close> delivery
  whose deal is not found is answered 500 with \<^verbatim>\<open>Deal with ID ... not found\<close> and leaves the
  store as it was. Permissive variant: for every body that is not \<^verbatim>\<open>null\<close> or
  \<^verbatim>\<open>undefined\<close>, every store and every schedule of storage faults, the handler answers 200
  with status \<^verbatim>\<open>success\<close> and no \<^verbatim>\<open>error\<close> field (the exceptions of the contact and deal
  blocks end in those blocks' own \<^verbatim>\<open>catch\<close>), and the only WebhookLog row it can add has
  status 200.\<close>

theorem C1_exceptions:
  "(\<forall>expectedSecret now req s w e w'.
      rq_secret req = Some s \<and> s \<noteq> [] \<and> expectedSecret = Some s
      \<and> secured_process rt now (rq_body req) w = (Inl e, w') \<longrightarrow>
      handleIncomingWebhook_secured rt expectedSecret now req w = (Inr (internal_error e), w')
      \<and> r_status (internal_error e) = 500
      \<and> map_of (r_body (internal_error e)) ''error'' = Some (JStr (message e))
      \<and> webhookLogs (fst w') = webhookLogs (fst w))
   \<and> (\<forall>expectedSecret now req s w eventId wa user wb i ns wc.
        rq_secret req = Some s \<and> s \<noteq> [] \<and> expectedSecret = Some s
        \<and> js_get (rq_body req) ''event'' = Inr (JStr ''status_changed'')
        \<and> secured_eventId (rq_body req) = Inr eventId
        \<and> (if truthy eventId then isProcessed eventId else io_ret False) w = (Inr False, wa)
        \<and> secured_user (rq_body req) wa = (Inr (Inr user), wb)
        \<and> status_dealId (rq_body req) = Inr (JStr i) \<and> i \<noteq> []
        \<and> status_newStatus (rq_body req) = Inr ns
        \<and> deal_findFirst_id i (u_id user) wb = (Inr None, wc) \<longrightarrow>
        handleIncomingWebhook_secured rt expectedSecret now req w =
          (Inr (internal_error (Error (''Deal with ID '' @ i @ '' not found''))), wc)
        \<and> fst wc = fst w)
   \<and> (\<forall>sha256 stringify now req w.
        \<not> nullish (rq_body req) \<longrightarrow>
        (\<exists>resp w'. handleIncomingWebhook_permissive rt sha256 stringify now req w = (Inr resp, w')
           \<and> r_status resp = 200 \<and> map_of (r_body resp) ''status'' = Some (JStr ''success'')
           \<and> map_of (r_body resp) ''error'' = None
           \<and> logged_success (webhookLogs (fst w)) (webhookLogs (fst w'))))"
proof -
  have A: "handleIncomingWebhook_secured rt expectedSecret now req w = (Inr (internal_error e), w')
      \<and> r_status (internal_error e) = 500
      \<and> map_of (r_body (internal_error e)) ''error'' = Some (JStr (message e))
      \<and> webhookLogs (fst w') = webhookLogs (fst w)"
    if "rq_secret req = Some s \<and> s \<noteq> [] \<and> expectedSecret = Some s
      \<and> secured_process rt now (rq_body req) w = (Inl e, w')"
    for expectedSecret now req s w e w'
  proof -
    from that have auth: "rq_secret req = Some s" "s \<noteq> []" "expectedSecret = Some s"
      and run: "secured_process rt now (rq_body req) w = (Inl e, w')" by simp_all
    show ?thesis
      using secured_throw_response [OF auth run]
      by (simp add: internal_error_def res_json_def)
  qed
  have B: "handleIncomingWebhook_secured rt expectedSecret now req w =
          (Inr (internal_error (Error (''Deal with ID '' @ i @ '' not found''))), wc)
        \<and> fst wc = fst w"
    if "rq_secret req = Some s \<and> s \<noteq> [] \<and> expectedSecret = Some s
        \<and> js_get (rq_body req) ''event'' = Inr (JStr ''status_changed'')
        \<and> secured_eventId (rq_body req) = Inr eventId
        \<and> (if truthy eventId then isProcessed eventId else io_ret False) w = (Inr False, wa)
        \<and> secured_user (rq_body req) wa = (Inr (Inr user), wb)
        \<and> status_dealId (rq_body req) = Inr (JStr i) \<and> i \<noteq> []
        \<and> status_newStatus (rq_body req) = Inr ns
        \<and> deal_findFirst_id i (u_id user) wb = (Inr None, wc)"
    for expectedSecret now req s w eventId wa and user :: user and wb i ns wc
  proof -
    from that have auth: "rq_secret req = Some s" "s \<noteq> []" "expectedSecret = Some s"
      and ev: "js_get (rq_body req) ''event'' = Inr (JStr ''status_changed'')"
      and eid: "secured_eventId (rq_body req) = Inr eventId"
      and dup: "(if truthy eventId then isProcessed eventId else io_ret False) w = (Inr False, wa)"
      and usr: "secured_user (rq_body req) wa = (Inr (Inr user), wb)"
      and di: "status_dealId (rq_body req) = Inr (JStr i)" and ne: "i \<noteq> []"
      and ns: "status_newStatus (rq_body req) = Inr ns"
      and fd: "deal_findFirst_id i (u_id user) wb = (Inr None, wc)"
      by blast+
    show ?thesis
      using status_changed_deal_missing [OF auth ev eid dup usr di ne ns fd] by simp
  qed
  show ?thesis
    apply (rule conjI)
     apply (intro allI impI)
     apply (erule A)
    apply (rule conjI)
     apply (intro allI impI)
     apply (erule B)
    apply (intro allI impI)
    apply (erule permissive_always_200)
    done
qed

text \<open>The amended statement at the sample store: the missing deal, with and without a
  pending storage call, and a permissive delivery whose third storage call fails.\<close>

theorem C1_exceptions_witness:
  "handleIncomingWebhook_secured sample_rt (Some ''k'') sample_now req_missing_deal (sample_db, []) =
     (Inr (internal_error (Error ''Deal with ID nope not found'')), (sample_db, []))
   \<and> handleIncomingWebhook_secured sample_rt (Some ''k'') sample_now req_missing_deal (sample_db, [None]) =
     (Inr (internal_error (Error ''Deal with ID nope not found'')), (sample_db, []))
   \<and> (\<exists>resp w'. handleIncomingWebhook_permissive sample_rt sample_sha256 (js_toString sample_rt) sample_now req_new_deal
                    (sample_db, [None, None, Some ''connection lost'']) = (Inr resp, w')
          \<and> r_status resp = 200 \<and> map_of (r_body resp) ''status'' = Some (JStr ''success'')
          \<and> map_of (r_body resp) ''error'' = None
          \<and> logged_success [] (webhookLogs (fst w')))"
proof -
  let ?u = "\<lparr>u_id = ''u1'', u_createdAt = 1\<rparr>"
  have run: "secured_process sample_rt sample_now (rq_body req_missing_deal) (sample_db, []) =
               (Inl (Error ''Deal with ID nope not found''), (sample_db, []))"
    by (simp add: req_missing_deal_def secured_defs eval_defs)
  have 1: "handleIncomingWebhook_secured sample_rt (Some ''k'') sample_now req_missing_deal (sample_db, []) =
     (Inr (internal_error (Error ''Deal with ID nope not found'')), (sample_db, []))"
    using C1_exceptions [THEN conjunct1, rule_format,
        where req = req_missing_deal and s = "''k''" and expectedSecret = "Some ''k''"
          and now = sample_now and w = "(sample_db, [])" and w' = "(sample_db, [])"
          and e = "Error ''Deal with ID nope not found''"] run
    by (simp add: req_missing_deal_def)
  have ev: "js_get (rq_body req_missing_deal) ''event'' = Inr (JStr ''status_changed'')"
    by (simp add: req_missing_deal_def)
  have eid: "secured_eventId (rq_body req_missing_deal) = Inr (JStr ''E4'')"
    by (simp add: req_missing_deal_def eval_defs)
  have dup: "(if truthy (JStr ''E4'') then isProcessed (JStr ''E4'') else io_ret False)
               (sample_db, [None]) = (Inr False, (sample_db, []))"
    by (simp add: eval_defs)
  have usr: "secured_user (rq_body req_missing_deal) (sample_db, []) =
               (Inr (Inr ?u), (sample_db, []))"
    by (simp add: req_missing_deal_def eval_defs)
  have di: "status_dealId (rq_body req_missing_deal) = Inr (JStr ''nope'')"
    by (simp add: req_missing_deal_def eval_defs)
  have ns: "status_newStatus (rq_body req_missing_deal) = Inr (JStr ''New'')"
    by (simp add: req_missing_deal_def eval_defs)
  have fd: "deal_findFirst_id ''nope'' (u_id ?u) (sample_db, []) = (Inr None, (sample_db, []))"
    by (simp add: eval_defs)
  have 2: "handleIncomingWebhook_secured sample_rt (Some ''k'') sample_now req_missing_deal (sample_db, [None]) =
     (Inr (internal_error (Error ''Deal with ID nope not found'')), (sample_db, []))"
    using C1_exceptions [THEN conjunct2, THEN conjunct1, rule_format,
        where req = req_missing_deal and s = "''k''" and expectedSecret = "Some ''k''"
          and now = sample_now and w = "(sample_db, [None])" and wa = "(sample_db, [])"
          and wb = "(sample_db, [])" and wc = "(sample_db, [])" and user = ?u
          and eventId = "JStr ''E4''" and i = "''nope''" and ns = "JStr ''New''"]
      ev eid dup usr di ns fd
    by (simp add: req_missing_deal_def)
  have 3: "\<exists>resp w'. handleIncomingWebhook_permissive sample_rt sample_sha256 (js_toString sample_rt) sample_now req_new_deal
                    (sample_db, [None, None, Some ''connection lost'']) = (Inr resp, w')
          \<and> r_status resp = 200 \<and> map_of (r_body resp) ''status'' = Some (JStr ''success'')
          \<and> map_of (r_body resp) ''error'' = None
          \<and> logged_success [] (webhookLogs (fst w'))"
    using C1_exceptions [THEN conjunct2, THEN conjunct2, rule_format,
        of req_new_deal sample_rt sample_sha256 "js_toString sample_rt" sample_now
          "(sample_db, [None, None, Some ''connection lost''])"]
    by (simp add: req_new_deal_def sample_db_def)
  show ?thesis
    by (intro conjI 1 2 3)
qed

text \<open>Claim C1 as stated fails: the secured handler answers a \<^verbatim>\<open>status_changed\<close> delivery for
  a deal that does not exist with 500, not 200.\<close>

theorem C1_counterexample:
  "handleIncomingWebhook_secured sample_rt (Some ''k'') sample_now req_missing_deal (sample_db, []) =
     (Inr \<lparr>r_status = 500,
           r_body = [(''status'', JStr ''error''),
                     (''message'', JStr ''Internal Server Error: Failed to process webhook''),
                     (''error'', JStr ''Deal with ID nope not found'')]\<rparr>,
      (sample_db, []))"
  by (simp add: req_missing_deal_def secured_defs eval_defs)

section \<open>Duplicate deliveries\<close>

lemma webhookLog_findUnique_ok:
  "no_faults (Suc n) fs \<Longrightarrow>
   webhookLog_findUnique k (d, fs) = (Inr (find (\<lambda>l. l_key l = k) (webhookLogs d)), (d, tl fs))"
  by (simp add: webhookLog_findUnique_def dbcall_ok)

lemma isWebhookProcessed_present:
  assumes "find (\<lambda>l. l_key l = k) (webhookLogs d) = Some l" and "no_faults 1 fs"
  shows "isWebhookProcessed k (d, fs) = (Inr True, (d, tl fs))"
  using assms
  by (simp add: isWebhookProcessed_def io_catch_run io_bind_run io_ret_def
        webhookLog_findUnique_ok [where n = 0])

lemma isProcessed_present:
  assumes "find (\<lambda>l. l_key l = k) (webhookLogs d) = Some l" and "no_faults 1 fs" and "k \<noteq> []"
  shows "isProcessed (JStr k) (d, fs) = (Inr True, (d, tl fs))"
  using assms
  by (simp add: isProcessed_def io_catch_run io_bind_run io_ret_def io_lift_def req_str_def
        webhookLog_findUnique_ok [where n = 0])

lemma lookup_fault:
  "isWebhookProcessed k (d, Some m # fs) = (Inr False, (d, fs))"
  "k \<noteq> [] \<Longrightarrow> isProcessed (JStr k) (d, Some m # fs) = (Inr False, (d, fs))"
  by (simp_all add: isWebhookProcessed_def isProcessed_def io_catch_run io_bind_run io_ret_def
        io_lift_def req_str_def webhookLog_findUnique_def dbcall_def)

lemma permissive_duplicate:
  assumes pl: "permissive_payload (rq_body req) = Inr payload"
      and ex: "find (\<lambda>l. l_key l = generateIdempotencyKey sha256 stringify payload now)
                 (webhookLogs d) = Some l"
      and nf: "no_faults 1 fs"
  shows "handleIncomingWebhook_permissive rt sha256 stringify now req (d, fs) =
           (Inr (duplicate_webhook (generateIdempotencyKey sha256 stringify payload now)), (d, tl fs))"
  by (simp add: handleIncomingWebhook_permissive_def pl io_catch_run io_bind_run io_ret_def
        isWebhookProcessed_present [OF ex nf])

lemma secured_duplicate:
  assumes auth: "rq_secret req = Some s" "s \<noteq> []" "expectedSecret = Some s"
      and ev: "js_get (rq_body req) ''event'' = Inr event" "truthy event"
      and eid: "secured_eventId (rq_body req) = Inr (JStr k)" "k \<noteq> []"
      and ex: "find (\<lambda>l. l_key l = k) (webhookLogs d) = Some l"
      and nf: "no_faults 1 fs"
  shows "handleIncomingWebhook_secured rt expectedSecret now req (d, fs) =
           (Inr (duplicate_event (JStr k)), (d, tl fs))"
proof -
  have tp: "truthy (rq_body req)"
    using js_get_truthy [OF ev(1)] ev(2) by (cases event) auto
  show ?thesis
    using auth tp ev(2) eid(2)
    by (simp add: handleIncomingWebhook_secured_def secured_process_def ev(1) eid(1)
          io_catch_run io_bind_run io_ret_def isProcessed_present [OF ex nf eid(2)])
qed

lemma permissive_lookup_fault:
  assumes pl: "permissive_payload (rq_body req) = Inr payload"
  shows "handleIncomingWebhook_permissive rt sha256 stringify now req (d, Some m # fs) =
           io_catch (permissive_process rt (generateIdempotencyKey sha256 stringify payload now) payload now)
             (\<lambda>error. io_throw (ReferenceError ''idempotencyKey is not defined'')) (d, fs)"
  by (simp add: handleIncomingWebhook_permissive_def pl io_catch_run io_bind_run lookup_fault)

text \<open>Claim C2, amended. The permissive identifier is the SHA-256 of the serialised payload
  followed by the calendar day; the secured one is the \<^verbatim>\<open>event_id\<close> of the caller. When a
  WebhookLog row with the identifier exists and the lookup meets no storage fault, the
  handler answers 200 with the duplicate message, and the lookup is its only storage call:
  the store is unchanged. In the secured variant this comes after the secret check and the
  check for an event, and needs a non-empty \<^verbatim>\<open>event_id\<close>. When the lookup itself fails, both
  \<^verbatim>\<open>isWebhookProcessed\<close> and \<^verbatim>\<open>isProcessed\<close> answer that the delivery is new.\<close>

theorem C2_idempotency:
  "(\<forall>sha256 stringify now req d fs payload l.
      permissive_payload (rq_body req) = Inr payload
      \<and> find (\<lambda>l. l_key l = generateIdempotencyKey sha256 stringify payload now) (webhookLogs d) = Some l
      \<and> no_faults 1 fs \<longrightarrow>
      handleIncomingWebhook_permissive rt sha256 stringify now req (d, fs) =
        (Inr (duplicate_webhook (generateIdempotencyKey sha256 stringify payload now)), (d, tl fs)))
   \<and> (\<forall>expectedSecret now req s event k d fs l.
        rq_secret req = Some s \<and> s \<noteq> [] \<and> expectedSecret = Some s
        \<and> js_get (rq_body req) ''event'' = Inr event \<and> truthy event
        \<and> secured_eventId (rq_body req) = Inr (JStr k) \<and> k \<noteq> []
        \<and> find (\<lambda>l. l_key l = k) (webhookLogs d) = Some l
        \<and> no_faults 1 fs \<longrightarrow>
        handleIncomingWebhook_secured rt expectedSecret now req (d, fs) =
          (Inr (duplicate_event (JStr k)), (d, tl fs)))
   \<and> (\<forall>sha256 stringify payload now.
        generateIdempotencyKey sha256 stringify payload now = sha256 (stringify payload @ take 10 now))
   \<and> (\<forall>k d m fs. isWebhookProcessed k (d, Some m # fs) = (Inr False, (d, fs)))
   \<and> (\<forall>k d m fs. k \<noteq> [] \<longrightarrow> isProcessed (JStr k) (d, Some m # fs) = (Inr False, (d, fs)))"
proof -
  have P: "handleIncomingWebhook_permissive rt sha256 stringify now req (d, fs) =
        (Inr (duplicate_webhook (generateIdempotencyKey sha256 stringify payload now)), (d, tl fs))"
    if "permissive_payload (rq_body req) = Inr payload
      \<and> find (\<lambda>l. l_key l = generateIdempotencyKey sha256 stringify payload now) (webhookLogs d) = Some l
      \<and> no_faults 1 fs"
    for sha256 stringify now req d fs payload l
    using that permissive_duplicate by blast
  have S: "handleIncomingWebhook_secured rt expectedSecret now req (d, fs) =
          (Inr (duplicate_event (JStr k)), (d, tl fs))"
    if "rq_secret req = Some s \<and> s \<noteq> [] \<and> expectedSecret = Some s
        \<and> js_get (rq_body req) ''event'' = Inr event \<and> truthy event
        \<and> secured_eventId (rq_body req) = Inr (JStr k) \<and> k \<noteq> []
        \<and> find (\<lambda>l. l_key l = k) (webhookLogs d) = Some l
        \<and> no_faults 1 fs"
    for expectedSecret now req s event k d fs l
  proof -
    from that have auth: "rq_secret req = Some s" "s \<noteq> []" "expectedSecret = Some s"
      and ev: "js_get (rq_body req) ''event'' = Inr event" "truthy event"
      and eid: "secured_eventId (rq_body req) = Inr (JStr k)" "k \<noteq> []"
      and ex: "find (\<lambda>l. l_key l = k) (webhookLogs d) = Some l"
      and nf: "no_faults 1 fs"
      by blast+
    show ?thesis
      by (rule secured_duplicate [OF auth ev eid ex nf])
  qed
  show ?thesis
    apply (rule conjI)
     apply (intro allI impI)
     apply (erule P)
    apply (rule conjI)
     apply (intro allI impI)
     apply (erule S)
    apply (rule conjI)
     apply (simp add: generateIdempotencyKey_def)
    apply (rule conjI)
     apply (simp add: lookup_fault)
    apply (simp add: lookup_fault)
    done
qed

text \<open>The amended statement on stores that hold the log row of the delivery.\<close>

theorem C2_idempotency_witness:
  "handleIncomingWebhook_permissive sample_rt sample_sha256 (js_toString sample_rt) sample_now req_new_deal
     (sample_db\<lparr>webhookLogs :=
        [\<lparr>l_key = ''sha:[object Object]2025-01-01'', l_endpoint = ''/api/v1/webhooks/iclosed'',
          l_payload = rq_body req_new_deal, l_status = 200, l_processedAt = sample_now\<rparr>]\<rparr>, []) =
     (Inr (duplicate_webhook ''sha:[object Object]2025-01-01''),
      (sample_db\<lparr>webhookLogs :=
        [\<lparr>l_key = ''sha:[object Object]2025-01-01'', l_endpoint = ''/api/v1/webhooks/iclosed'',
          l_payload = rq_body req_new_deal, l_status = 200, l_processedAt = sample_now\<rparr>]\<rparr>, []))
   \<and> handleIncomingWebhook_secured sample_rt (Some ''k'') sample_now req_booked_again (booked_db, [None]) =
     (Inr (duplicate_event (JStr ''E3'')), (booked_db, []))
   \<and> isProcessed (JStr ''E3'') (booked_db, [Some ''connection lost'']) = (Inr False, (booked_db, []))"
proof -
  let ?row = "\<lparr>l_key = ''sha:[object Object]2025-01-01'', l_endpoint = ''/api/v1/webhooks/iclosed'',
          l_payload = rq_body req_new_deal, l_status = 200, l_processedAt = sample_now\<rparr>"
  let ?d = "sample_db\<lparr>webhookLogs := [?row]\<rparr>"
  have pl: "permissive_payload (rq_body req_new_deal) = Inr (rq_body req_new_deal)"
    by (simp add: req_new_deal_def permissive_payload_def or_else_def)
  have key: "generateIdempotencyKey sample_sha256 (js_toString sample_rt) (rq_body req_new_deal) sample_now =
               ''sha:[object Object]2025-01-01''"
    by (simp add: req_new_deal_def generateIdempotencyKey_def sample_sha256_def sample_now_def)
  have f: "find (\<lambda>l. l_key l = generateIdempotencyKey sample_sha256 (js_toString sample_rt) (rq_body req_new_deal)
                         sample_now) (webhookLogs ?d) = Some ?row"
    by (simp add: key)
  have nf: "no_faults 1 []" "no_faults 1 [None]"
    by simp_all
  have 1: "handleIncomingWebhook_permissive sample_rt sample_sha256 (js_toString sample_rt) sample_now req_new_deal (?d, []) =
             (Inr (duplicate_webhook ''sha:[object Object]2025-01-01''), (?d, []))"
    using C2_idempotency [THEN conjunct1, rule_format, OF conjI [OF pl conjI [OF f nf(1)]]]
    by (simp add: key)
  have ev: "js_get (rq_body req_booked_again) ''event'' = Inr (JStr ''appointment_booked'')"
    by (simp add: req_booked_again_def)
  have eid: "secured_eventId (rq_body req_booked_again) = Inr (JStr ''E3'')"
    by (simp add: req_booked_again_def eval_defs)
  have g: "find (\<lambda>l. l_key l = ''E3'') (webhookLogs booked_db) =
             Some \<lparr>l_key = ''E3'', l_endpoint = ''/api/v1/webhooks/iclosed'',
                   l_payload = rq_body req_booked_again, l_status = 200, l_processedAt = sample_now\<rparr>"
    by (simp add: booked_db_def)
  have 2: "handleIncomingWebhook_secured sample_rt (Some ''k'') sample_now req_booked_again (booked_db, [None]) =
             (Inr (duplicate_event (JStr ''E3'')), (booked_db, []))"
    using C2_idempotency [THEN conjunct2, THEN conjunct1, rule_format,
        where req = req_booked_again and s = "''k''" and expectedSecret = "Some ''k''"
          and event = "JStr ''appointment_booked''" and k = "''E3''" and d = booked_db
          and fs = "[None]" and now = sample_now] ev eid g nf(2)
    by (simp add: req_booked_again_def)
  have 3: "isProcessed (JStr ''E3'') (booked_db, [Some ''connection lost'']) = (Inr False, (booked_db, []))"
    using C2_idempotency [THEN conjunct2, THEN conjunct2, THEN conjunct2, THEN conjunct2, rule_format,
        of "''E3''" booked_db "''connection lost''" "[]"]
    by simp
  from 1 2 3 show ?thesis by blast
qed

text \<open>Claim C2 as stated fails: after a first delivery of \<open>req_booked_again\<close> its log row
  exists; when the lookup of a second delivery fails, the handler creates a third deal and
  a second activity, and answers 500 when the log row cannot be written again.\<close>

theorem C2_counterexample:
  "handleIncomingWebhook_secured sample_rt (Some ''k'') sample_now req_booked_again (sample_db, []) =
     (Inr \<lparr>r_status = 200,
           r_body = [(''status'', JStr ''success''),
                     (''message'', JStr ''Webhook processed successfully''),
                     (''eventId'', JStr ''E3'')]\<rparr>,
      (booked_db, []))
   \<and> handleIncomingWebhook_secured sample_rt (Some ''k'') sample_now req_booked_again
       (booked_db, [Some ''connection lost'']) =
     (Inr \<lparr>r_status = 500,
           r_body = [(''status'', JStr ''error''),
                     (''message'', JStr ''Internal Server Error: Failed to process webhook''),
                     (''error'', JStr ''Unique constraint failed'')]\<rparr>,
      (booked_db
         \<lparr>deals := deals booked_db @
            [\<lparr>d_id = ''id-2'', d_title = ''D1'', d_value = 20, d_stageId = ''s1'',
              d_pipelineId = ''p1'', d_contactId = Some ''c1'', d_userId = ''u1'',
              d_data = JObj [(''source'', JStr ''iClosed'')]\<rparr>],
          activities := activities booked_db @
            [\<lparr>a_id = ''id-3'', a_type = ''APPOINTMENT_BOOKED'',
              a_note = ''Appointment booked for 2025-01-01T00:00:00.000Z'',
              a_data = JObj [(''source'', JStr ''iClosed''),
                             (''appointmentTime'', JStr ''2025-01-01T00:00:00.000Z''),
                             (''dealName'', JStr ''D1''), (''bookingDetails'', JObj [])],
              a_contactId = Some ''c1'', a_dealId = Some ''id-2'', a_userId = ''u1''\<rparr>],
          nextId := 4\<rparr>, []))"
  by (simp add: booked_db_def req_booked_again_def secured_defs eval_defs parseName_def Let_def)

section \<open>Deal identity and provenance\<close>

lemma deal_findFirst_title_ok:
  "no_faults (Suc n) fs \<Longrightarrow>
   deal_findFirst_title t pid uid (d, fs) =
     (Inr (find (\<lambda>r. d_title r = t \<and> d_pipelineId r = pid \<and> d_userId r = uid) (deals d)), (d, tl fs))"
  by (simp add: deal_findFirst_title_def dbcall_ok)

lemma deal_update_ok:
  "no_faults (Suc n) fs \<Longrightarrow> find (\<lambda>r. d_id r = i) (deals d) = Some r \<Longrightarrow>
   deal_update i upd (d, fs) =
     (Inr (upd r), (d\<lparr>deals := map (\<lambda>r. if d_id r = i then upd r else r) (deals d)\<rparr>, tl fs))"
  by (simp add: deal_update_def dbcall_ok)

lemma deal_create_ok:
  "no_faults (Suc n) fs \<Longrightarrow>
   deal_create t v sid pid cid uid dat (d, fs) =
     (Inr \<lparr>d_id = fresh_id d, d_title = t, d_value = v, d_stageId = sid, d_pipelineId = pid,
           d_contactId = cid, d_userId = uid, d_data = dat\<rparr>,
      (d\<lparr>deals := deals d @ [\<lparr>d_id = fresh_id d, d_title = t, d_value = v, d_stageId = sid,
                               d_pipelineId = pid, d_contactId = cid, d_userId = uid,
                               d_data = dat\<rparr>],
         nextId := Suc (nextId d)\<rparr>, tl fs))"
  by (simp add: deal_create_def dbcall_ok Let_def)

lemma upsert_existing:
  assumes ex: "find (\<lambda>r. d_title r = t \<and> d_pipelineId r = p_id pipeline \<and> d_userId r = u_id user)
                 (deals d) = Some ex"
      and nf: "no_faults 2 fs"
  shows "permissive_upsertDeal rt payload (JStr t) (JNum v) (Some st) pipeline dealContact user email (d, fs) =
           permissive_afterUpdate rt dealContact
             (d\<lparr>deals := map (\<lambda>r. if d_id r = d_id ex
                                    then updated_deal v (s_id st) dealContact user r else r) (deals d)\<rparr>,
              tl (tl fs))"
proof -
  from nf have nf1: "no_faults (Suc (Suc 0)) fs" by (simp add: numeral_2_eq_2)
  then have nf2: "no_faults (Suc 0) (tl fs)" by (rule no_faults_tl)
  obtain r where r: "find (\<lambda>r. d_id r = d_id ex) (deals d) = Some r"
    using find_by_id_of_found [OF ex] by blast
  show ?thesis
    unfolding updated_deal_def
    by (simp add: permissive_upsertDeal_def req_str_def req_num_def stage_id_def io_lift_def
          io_bind_run deal_findFirst_title_ok [OF nf1] ex deal_update_ok [OF nf2 r])
qed

lemma upsert_absent:
  assumes ex: "find (\<lambda>r. d_title r = t \<and> d_pipelineId r = p_id pipeline \<and> d_userId r = u_id user)
                 (deals d) = None"
      and nf: "no_faults 2 fs"
  shows "permissive_upsertDeal rt payload (JStr t) (JNum v) (Some st) pipeline dealContact user email (d, fs) =
           permissive_afterCreate rt payload t dealContact user
             (d\<lparr>deals := deals d @ [\<lparr>d_id = fresh_id d, d_title = t, d_value = v,
                                      d_stageId = s_id st, d_pipelineId = p_id pipeline,
                                      d_contactId = map_option c_id dealContact,
                                      d_userId = u_id user, d_data = JNull\<rparr>],
                nextId := Suc (nextId d)\<rparr>,
              tl (tl fs))"
proof -
  from nf have nf1: "no_faults (Suc (Suc 0)) fs" by (simp add: numeral_2_eq_2)
  then have nf2: "no_faults (Suc 0) (tl fs)" by (rule no_faults_tl)
  show ?thesis
    by (simp add: permissive_upsertDeal_def req_str_def req_num_def stage_id_def io_lift_def
          io_bind_run deal_findFirst_title_ok [OF nf1] ex deal_create_ok [OF nf2])
qed

lemma automation_frame_no_stage: "automation_frame (\<lambda>x. map no_stage (deals x) = Y)"
  by (auto simp: automation_frame_def no_stage_def o_def intro!: arg_cong [where f = "\<lambda>f. map f _"])

lemma keeps_afterUpdate:
  "automation_frame I \<Longrightarrow> keeps I (permissive_afterUpdate rt dealContact)"
  unfolding permissive_afterUpdate_def
  by (intro keeps_intros keeps_triggerWorkflow)

lemma keeps_afterCreate:
  assumes "automation_frame I"
  shows "keeps I (permissive_afterCreate rt payload title dealContact user)"
proof -
  have A: "\<And>d x n. I d \<Longrightarrow> I (d\<lparr>activities := x, nextId := n\<rparr>)"
    using assms unfolding automation_frame_def by blast
  show ?thesis
    unfolding permissive_afterCreate_def
    by (intro keeps_intros keeps_triggerWorkflow keeps_activity_create assms A)
qed

lemma hoare_deal_create:
  "hoare (\<lambda>w. deals (fst w) = X) (deal_create t n sid pid cid uid dat)
     (\<lambda>row w. deals (fst w) = X @ [row] \<and> d_data row = dat \<and> d_title row = t
               \<and> d_pipelineId row = pid \<and> d_userId row = uid)
     (\<lambda>_ w. deals (fst w) = X)"
  by (rule hoareI)
     (auto simp: deal_create_def dbcall_def Let_def split: list.splits option.splits)

lemma keeps_deals_prefix:
  "keeps (\<lambda>d. deals d = X) (pipeline_findFirst userId)"
  "keeps (\<lambda>d. deals d = X) (pipeline_findUnique pid)"
  "keeps (\<lambda>d. deals d = X) (pipeline_create nm userId)"
  "keeps (\<lambda>d. deals d = X) (pipelineStage_createMany pid rows)"
  by (intro keeps_intros keeps_writes; simp)+

lemma createDeal_appends:
  "hoare (\<lambda>w. deals (fst w) = X)
     (createDeal title v stageId pipelineId contactId userId source)
     (\<lambda>row w. deals (fst w) = X @ [row]
               \<and> d_data row = JObj [(''source'', js_or source (JStr ''iClosed''))]
               \<and> title = JStr (d_title row) \<and> d_userId row = userId)
     (\<lambda>_ w. deals (fst w) = X)"
  unfolding createDeal_def
  apply (rule hoare_rethrow)
  apply (rule hoare_bind_keeps [where I = "\<lambda>d. deals d = X"])
    apply (intro keeps_intros keeps_deals_prefix)
   apply (rule hoare_bind_keeps [where I = "\<lambda>d. deals d = X"])
     apply (intro keeps_intros keeps_deals_prefix)
    apply (rule hoare_bind_lift)
     apply (rule hoare_bind_lift)
      apply (rule hoare_bind_lift)
       apply (rule hoare_bind_lift)
        apply (rule hoare_conseq [OF hoare_deal_create])
          apply (auto simp: req_str_def split: json.splits)
  done

lemma keeps_deals_upsertContact:
  "keeps (\<lambda>d. deals d = X) (upsertContact email firstName lastName phone userId)"
  unfolding upsertContact_def
  by (intro keeps_intros keeps_writes; simp)

lemma keeps_deals_logActivity:
  "keeps (\<lambda>d. deals d = X) (logActivity ty note cid did uid dat)"
  unfolding logActivity_def
  by (intro keeps_intros keeps_writes; simp)

lemma handleAppointmentBooked_appends:
  "hoare (\<lambda>w. deals (fst w) = X) (handleAppointmentBooked rt payload user now)
     (\<lambda>_ w. \<exists>row. deals (fst w) = X @ [row]
                  \<and> d_data row = JObj [(''source'', JStr ''iClosed'')]
                  \<and> d_userId row = u_id user)
     (\<lambda>_ _. True)"
  unfolding handleAppointmentBooked_def
  apply (rule hoare_rethrow)
  apply (rule hoare_bind_lift)
   apply (rule hoare_bind_lift)
    apply (rule hoare_bind_lift)
     apply (rule hoare_case_prod)
     apply (rule hoare_bind_keeps [where I = "\<lambda>d. deals d = X"])
       apply (rule keeps_deals_upsertContact)
      apply (rule hoare_bind_lift)
       apply (rule hoare_bind_lift)
        apply (rule hoare_bind_lift)
         apply (rule hoare_bind [where R = "\<lambda>row w. deals (fst w) = X @ [row]
                  \<and> (d_data row = JObj [(''source'', JStr ''iClosed'')] \<and> d_userId row = u_id user)"])
          apply (rule hoare_conseq [OF createDeal_appends])
            apply (simp_all add: js_or_def) [3]
         apply (rule hoare_pure)
         apply (rule hoare_bind_lift)
          apply (rule hoare_bind_lift)
           apply (rule hoare_bind_keeps)
             apply (rule keeps_deals_logActivity)
            apply (rule hoare_ret)
            apply simp_all
  done

lemma createDeal_result:
  assumes "createDeal title v stageId pipelineId contactId userId source w = (Inr row, w')"
  shows "deals (fst w') = deals (fst w) @ [row]
         \<and> d_data row = JObj [(''source'', js_or source (JStr ''iClosed''))]
         \<and> title = JStr (d_title row) \<and> d_userId row = userId"
  using hoare_Inr [OF createDeal_appends [of "deals (fst w)"] _ assms] by simp

lemma handleAppointmentBooked_result:
  assumes "handleAppointmentBooked rt payload user now w = (Inr u, w')"
  shows "\<exists>row. deals (fst w') = deals (fst w) @ [row]
               \<and> d_data row = JObj [(''source'', JStr ''iClosed'')]
               \<and> d_userId row = u_id user"
  using hoare_Inr [OF handleAppointmentBooked_appends [of "deals (fst w)"] _ assms] by simp

lemma keeps_deals_permissive_dealContact:
  "keeps (\<lambda>d. deals d = X) (permissive_dealContact rt dealData dealContactEmail email user)"
  unfolding permissive_dealContact_def
  by (intro keeps_intros keeps_writes; simp)

lemma keeps_deals_permissive_pipeline:
  "keeps (\<lambda>d. deals d = X) (permissive_pipeline user)"
  unfolding permissive_pipeline_def
  by (intro keeps_intros keeps_writes; simp)

lemma keeps_deals_permissive_contact:
  "keeps (\<lambda>d. deals d = X) (permissive_contact rt email name phone user)"
  by (rule keeps_permissive_contact) simp_all

lemma keeps_deals_logProcessedWebhook:
  "keeps (\<lambda>d. deals d = X) (logProcessedWebhook k p st now)"
  by (rule keeps_logProcessedWebhook) simp

text \<open>The deal block on a deal with a title and a value, once the contact of the deal, the
  pipeline and the stage are there: whatever the upsert does, the block swallows it.\<close>

lemma permissive_deal_upsert:
  assumes dd: "js_get payload ''deal'' = Inr dealData" "truthy dealData"
      and ti: "permissive_dealTitle dealData = Inr (JStr t)" "t \<noteq> []"
      and va: "permissive_dealValue dealData = Inr (JNum v)"
      and si: "or_fields dealData [''stageId'', ''pipeline_stage_id'', ''StageId'']
                 (js_get dealData ''Pipeline_Stage_Id'') = Inr dealStageId"
      and ce: "or_fields dealData [''contactEmail'', ''contact_email'', ''ContactEmail'']
                 (Inr email) = Inr dealContactEmail"
      and dc: "permissive_dealContact rt dealData dealContactEmail email user w3 = (Inr dealContact, w4)"
      and pl: "permissive_pipeline user w4 = (Inr (pipeline, stgs), w5)"
      and ev: "js_get payload ''event'' = Inr event"
      and ns: "js_get dealData ''new_status'' = Inr new_status"
      and ts: "permissive_targetStage rt event new_status dealStageId stgs = Inr (Some st)"
  shows "permissive_deal rt payload email user w3 =
           (Inr None, snd (permissive_upsertDeal rt payload (JStr t) (JNum v) (Some st) pipeline
                             dealContact user email w5))"
proof -
  obtain r6 w6 where up: "permissive_upsertDeal rt payload (JStr t) (JNum v) (Some st) pipeline
                            dealContact user email w5 = (r6, w6)"
    by (cases "permissive_upsertDeal rt payload (JStr t) (JNum v) (Some st) pipeline
                 dealContact user email w5")
  show ?thesis
    unfolding permissive_deal_def
    by (cases r6) (simp_all add: dd ti va si [simplified] ce [simplified] dc pl ev ns ts up io_bind_run
          io_catch_run io_ret_def)
qed

lemma permissive_process_deal:
  assumes em: "permissive_email payload = Inr email"
      and nm: "permissive_name payload = Inr name"
      and ph: "permissive_phone payload = Inr phone"
      and us: "permissive_user payload w1 = (Inr (Inr user), w2)"
      and co: "permissive_contact rt email name phone user w2 = (Inr u, w3)"
      and de: "permissive_deal rt payload email user w3 = (Inr None, w6)"
  shows "permissive_process rt k payload now w1 =
           (Inr (received_with_key k), snd (logProcessedWebhook k payload ''success'' now w6))"
proof -
  obtain u' w7 where lg: "logProcessedWebhook k payload ''success'' now w6 = (Inr u', w7)"
    using nothrow_logProcessedWebhook [of k payload "''success''" now] unfolding nothrow_def by blast
  show ?thesis
    unfolding permissive_process_def
    by (simp add: em nm ph us co de lg io_bind_run io_ret_def)
qed

lemma permissive_handler_deal:
  assumes pay: "permissive_payload (rq_body req) = Inr payload"
      and dup: "isWebhookProcessed (generateIdempotencyKey sha256 stringify payload now) w = (Inr False, w1)"
      and pr: "permissive_process rt (generateIdempotencyKey sha256 stringify payload now) payload now w1 =
                 (Inr resp, w')"
  shows "handleIncomingWebhook_permissive rt sha256 stringify now req w = (Inr resp, w')"
  unfolding handleIncomingWebhook_permissive_def
  by (simp add: pay dup pr io_bind_run io_catch_run)

text \<open>A delivery to the permissive endpoint that reaches the upsert: the response and the
  deals it leaves.\<close>

lemma permissive_delivery_upsert:
  assumes pay: "permissive_payload (rq_body req) = Inr payload"
      and dup: "isWebhookProcessed (generateIdempotencyKey sha256 stringify payload now) w = (Inr False, w1)"
      and em: "permissive_email payload = Inr email"
      and nm: "permissive_name payload = Inr name"
      and ph: "permissive_phone payload = Inr phone"
      and us: "permissive_user payload w1 = (Inr (Inr user), w2)"
      and co: "permissive_contact rt email name phone user w2 = (Inr u, w3)"
      and dd: "js_get payload ''deal'' = Inr dealData" "truthy dealData"
      and ti: "permissive_dealTitle dealData = Inr (JStr t)" "t \<noteq> []"
      and va: "permissive_dealValue dealData = Inr (JNum v)"
      and si: "or_fields dealData [''stageId'', ''pipeline_stage_id'', ''StageId'']
                 (js_get dealData ''Pipeline_Stage_Id'') = Inr dealStageId"
      and ce: "or_fields dealData [''contactEmail'', ''contact_email'', ''ContactEmail'']
                 (Inr email) = Inr dealContactEmail"
      and dc: "permissive_dealContact rt dealData dealContactEmail email user w3 = (Inr dealContact, w4)"
      and pl: "permissive_pipeline user w4 = (Inr (pipeline, stgs), w5)"
      and ev: "js_get payload ''event'' = Inr event"
      and ns: "js_get dealData ''new_status'' = Inr new_status"
      and ts: "permissive_targetStage rt event new_status dealStageId stgs = Inr (Some st)"
  shows "fst (handleIncomingWebhook_permissive rt sha256 stringify now req w) =
           Inr (received_with_key (generateIdempotencyKey sha256 stringify payload now))"
    and "deals (fst (snd (handleIncomingWebhook_permissive rt sha256 stringify now req w))) =
           deals (fst (snd (permissive_upsertDeal rt payload (JStr t) (JNum v) (Some st) pipeline
                              dealContact user email w5)))"
    and "deals (fst w5) = deals (fst w)"
proof -
  let ?k = "generateIdempotencyKey sha256 stringify payload now"
  let ?w6 = "snd (permissive_upsertDeal rt payload (JStr t) (JNum v) (Some st) pipeline
                    dealContact user email w5)"
  have de: "permissive_deal rt payload email user w3 = (Inr None, ?w6)"
    by (rule permissive_deal_upsert [OF dd ti va si ce dc pl ev ns ts])
  have pr: "permissive_process rt ?k payload now w1 =
              (Inr (received_with_key ?k), snd (logProcessedWebhook ?k payload ''success'' now ?w6))"
    by (rule permissive_process_deal [OF em nm ph us co de])
  have h: "handleIncomingWebhook_permissive rt sha256 stringify now req w =
             (Inr (received_with_key ?k), snd (logProcessedWebhook ?k payload ''success'' now ?w6))"
    by (rule permissive_handler_deal [OF pay dup pr])
  show "fst (handleIncomingWebhook_permissive rt sha256 stringify now req w) = Inr (received_with_key ?k)"
    by (simp add: h)
  have "deals (fst (snd (logProcessedWebhook ?k payload ''success'' now ?w6))) = deals (fst ?w6)"
    by (rule keeps_snd [OF keeps_deals_logProcessedWebhook]) (rule refl)
  then show "deals (fst (snd (handleIncomingWebhook_permissive rt sha256 stringify now req w))) =
               deals (fst ?w6)"
    by (simp add: h)
  have 1: "deals (fst w1) = deals (fst w)"
    by (rule keepsD [OF keeps_isWebhookProcessed _ dup]) (rule refl)
  have 2: "deals (fst w2) = deals (fst w)"
    by (rule keepsD [OF keeps_permissive_user _ us]) (rule 1)
  have 3: "deals (fst w3) = deals (fst w)"
    by (rule keepsD [OF keeps_deals_permissive_contact _ co]) (rule 2)
  have 4: "deals (fst w4) = deals (fst w)"
    by (rule keepsD [OF keeps_deals_permissive_dealContact _ dc]) (rule 3)
  show "deals (fst w5) = deals (fst w)"
    by (rule keepsD [OF keeps_deals_permissive_pipeline _ pl]) (rule 4)
qed

text \<open>Claim C5, amended. Permissive variant: take a delivery that is no duplicate, whose user
  is found, whose \<^verbatim>\<open>deal\<close> has a non-empty string title and a number as value, for which
  the contact of the deal, the pipeline and a target stage are resolved without exception,
  and whose deal lookup and deal write meet no storage fault. The identity of its deal is
  the triple (title, pipeline, user). The handler answers 200. When the store holds a row
  with the triple, the delivery rewrites value, stage, contact and user of that row in place
  and then runs the automation from that store: no row is added, and every row keeps its
  identifier, title and pipeline (the automation can only move stages). When no row has the
  triple, one row is appended, with the given fields and with no \<^verbatim>\<open>data\<close>: this variant
  writes no provenance tag. In the secured variant \<^verbatim>\<open>createDeal\<close> looks no deal up:
  whenever it returns, it has appended a row whose \<^verbatim>\<open>data\<close> is
  \<^verbatim>\<open>{source: source || 'iClosed'}\<close>, and every \<^verbatim>\<open>appointment_booked\<close> handled without
  error has added one deal row.\<close>

theorem C5_deal_upsert:
  "(\<forall>sha256 stringify now req w payload w1 email name phone user w2 u w3 dealData t v
      dealStageId dealContactEmail dealContact w4 pipeline stgs w5 event new_status st.
      permissive_payload (rq_body req) = Inr payload
      \<and> isWebhookProcessed (generateIdempotencyKey sha256 stringify payload now) w = (Inr False, w1)
      \<and> permissive_email payload = Inr email
      \<and> permissive_name payload = Inr name
      \<and> permissive_phone payload = Inr phone
      \<and> permissive_user payload w1 = (Inr (Inr user), w2)
      \<and> permissive_contact rt email name phone user w2 = (Inr u, w3)
      \<and> js_get payload ''deal'' = Inr dealData \<and> truthy dealData
      \<and> permissive_dealTitle dealData = Inr (JStr t) \<and> t \<noteq> []
      \<and> permissive_dealValue dealData = Inr (JNum v)
      \<and> or_fields dealData [''stageId'', ''pipeline_stage_id'', ''StageId'']
           (js_get dealData ''Pipeline_Stage_Id'') = Inr dealStageId
      \<and> or_fields dealData [''contactEmail'', ''contact_email'', ''ContactEmail'']
           (Inr email) = Inr dealContactEmail
      \<and> permissive_dealContact rt dealData dealContactEmail email user w3 = (Inr dealContact, w4)
      \<and> permissive_pipeline user w4 = (Inr (pipeline, stgs), w5)
      \<and> js_get payload ''event'' = Inr event
      \<and> js_get dealData ''new_status'' = Inr new_status
      \<and> permissive_targetStage rt event new_status dealStageId stgs = Inr (Some st)
      \<and> no_faults 2 (snd w5) \<longrightarrow>
      fst (handleIncomingWebhook_permissive rt sha256 stringify now req w) =
        Inr (received_with_key (generateIdempotencyKey sha256 stringify payload now))
      \<and> (\<forall>ex. find (\<lambda>r. d_title r = t \<and> d_pipelineId r = p_id pipeline \<and> d_userId r = u_id user)
                 (deals (fst w)) = Some ex \<longrightarrow>
            deals (fst (snd (handleIncomingWebhook_permissive rt sha256 stringify now req w))) =
              deals (fst (snd (permissive_afterUpdate rt dealContact
                ((fst w5)\<lparr>deals := map (\<lambda>r. if d_id r = d_id ex
                                              then updated_deal v (s_id st) dealContact user r
                                              else r) (deals (fst w))\<rparr>,
                 tl (tl (snd w5))))))
            \<and> map no_stage (deals (fst (snd (handleIncomingWebhook_permissive rt sha256 stringify
                                                now req w)))) =
                map no_stage (map (\<lambda>r. if d_id r = d_id ex
                                        then updated_deal v (s_id st) dealContact user r else r)
                                (deals (fst w))))
      \<and> (find (\<lambda>r. d_title r = t \<and> d_pipelineId r = p_id pipeline \<and> d_userId r = u_id user)
            (deals (fst w)) = None \<longrightarrow>
            map no_stage (deals (fst (snd (handleIncomingWebhook_permissive rt sha256 stringify
                                             now req w)))) =
              map no_stage (deals (fst w) @
                [\<lparr>d_id = fresh_id (fst w5), d_title = t, d_value = v, d_stageId = s_id st,
                  d_pipelineId = p_id pipeline, d_contactId = map_option c_id dealContact,
                  d_userId = u_id user, d_data = JNull\<rparr>])))
   \<and> (\<forall>title v stageId pipelineId contactId userId source w row w'.
        createDeal title v stageId pipelineId contactId userId source w = (Inr row, w') \<longrightarrow>
        deals (fst w') = deals (fst w) @ [row]
        \<and> d_data row = JObj [(''source'', js_or source (JStr ''iClosed''))]
        \<and> title = JStr (d_title row) \<and> d_userId row = userId)
   \<and> (\<forall>payload user now w u w'.
        handleAppointmentBooked rt payload user now w = (Inr u, w') \<longrightarrow>
        (\<exists>row. deals (fst w') = deals (fst w) @ [row]
             \<and> d_data row = JObj [(''source'', JStr ''iClosed'')]
             \<and> d_userId row = u_id user))"
proof -
  have sec: "deals (fst w') = deals (fst w) @ [row]
        \<and> d_data row = JObj [(''source'', js_or source (JStr ''iClosed''))]
        \<and> title = JStr (d_title row) \<and> d_userId row = userId"
    if "createDeal title v stageId pipelineId contactId userId source w = (Inr row, w')"
    for title v stageId pipelineId contactId userId source w row w'
    using that by (rule createDeal_result)
  have hab: "\<exists>row. deals (fst w') = deals (fst w) @ [row]
             \<and> d_data row = JObj [(''source'', JStr ''iClosed'')]
             \<and> d_userId row = u_id user"
    if "handleAppointmentBooked rt payload user now w = (Inr u, w')"
    for payload and user :: user and now w u w'
    using that by (rule handleAppointmentBooked_result)
  have per: "fst (handleIncomingWebhook_permissive rt sha256 stringify now req w) =
        Inr (received_with_key (generateIdempotencyKey sha256 stringify payload now))
      \<and> (\<forall>ex. find (\<lambda>r. d_title r = t \<and> d_pipelineId r = p_id pipeline \<and> d_userId r = u_id user)
                 (deals (fst w)) = Some ex \<longrightarrow>
            deals (fst (snd (handleIncomingWebhook_permissive rt sha256 stringify now req w))) =
              deals (fst (snd (permissive_afterUpdate rt dealContact
                ((fst w5)\<lparr>deals := map (\<lambda>r. if d_id r = d_id ex
                                              then updated_deal v (s_id st) dealContact user r
                                              else r) (deals (fst w))\<rparr>,
                 tl (tl (snd w5))))))
            \<and> map no_stage (deals (fst (snd (handleIncomingWebhook_permissive rt sha256 stringify
                                                now req w)))) =
                map no_stage (map (\<lambda>r. if d_id r = d_id ex
                                        then updated_deal v (s_id st) dealContact user r else r)
                                (deals (fst w))))
      \<and> (find (\<lambda>r. d_title r = t \<and> d_pipelineId r = p_id pipeline \<and> d_userId r = u_id user)
            (deals (fst w)) = None \<longrightarrow>
            map no_stage (deals (fst (snd (handleIncomingWebhook_permissive rt sha256 stringify
                                             now req w)))) =
              map no_stage (deals (fst w) @
                [\<lparr>d_id = fresh_id (fst w5), d_title = t, d_value = v, d_stageId = s_id st,
                  d_pipelineId = p_id pipeline, d_contactId = map_option c_id dealContact,
                  d_userId = u_id user, d_data = JNull\<rparr>]))"
    if pay: "permissive_payload (rq_body req) = Inr payload"
      and dup: "isWebhookProcessed (generateIdempotencyKey sha256 stringify payload now) w = (Inr False, w1)"
      and em: "permissive_email payload = Inr email"
      and nm: "permissive_name payload = Inr name"
      and ph: "permissive_phone payload = Inr phone"
      and us: "permissive_user payload w1 = (Inr (Inr user), w2)"
      and co: "permissive_contact rt email name phone user w2 = (Inr u, w3)"
      and dd: "js_get payload ''deal'' = Inr dealData" "truthy dealData"
      and ti: "permissive_dealTitle dealData = Inr (JStr t)" "t \<noteq> []"
      and va: "permissive_dealValue dealData = Inr (JNum v)"
      and si: "or_fields dealData [''stageId'', ''pipeline_stage_id'', ''StageId'']
                 (js_get dealData ''Pipeline_Stage_Id'') = Inr dealStageId"
      and ce: "or_fields dealData [''contactEmail'', ''contact_email'', ''ContactEmail'']
                 (Inr email) = Inr dealContactEmail"
      and dc: "permissive_dealContact rt dealData dealContactEmail email user w3 = (Inr dealContact, w4)"
      and pl: "permissive_pipeline user w4 = (Inr (pipeline, stgs), w5)"
      and ev: "js_get payload ''event'' = Inr event"
      and ns: "js_get dealData ''new_status'' = Inr new_status"
      and ts: "permissive_targetStage rt event new_status dealStageId stgs = Inr (Some st)"
      and nf: "no_faults 2 (snd w5)"
    for sha256 stringify now req w payload w1 email name phone and user :: user and w2 u w3
      dealData t v dealStageId dealContactEmail and dealContact :: "contact option" and w4
      and pipeline :: pipeline and stgs w5 event new_status and st :: stage
  proof -
    let ?H = "handleIncomingWebhook_permissive rt sha256 stringify now req w"
    let ?up = "permissive_upsertDeal rt payload (JStr t) (JNum v) (Some st) pipeline dealContact
                 user email (fst w5, snd w5)"
    note run = permissive_delivery_upsert [OF pay dup em nm ph us co dd ti va si ce dc pl ev ns ts]
    have d5: "deals (fst w5) = deals (fst w)"
      by (rule run(3))
    have res: "deals (fst (snd ?H)) = deals (fst (snd ?up))"
      using run(2) by simp
    have a: "deals (fst (snd ?H)) =
               deals (fst (snd (permissive_afterUpdate rt dealContact
                 ((fst w5)\<lparr>deals := map (\<lambda>r. if d_id r = d_id ex
                                               then updated_deal v (s_id st) dealContact user r
                                               else r) (deals (fst w))\<rparr>,
                  tl (tl (snd w5))))))"
      and b: "map no_stage (deals (fst (snd ?H))) =
                map no_stage (map (\<lambda>r. if d_id r = d_id ex
                                        then updated_deal v (s_id st) dealContact user r else r)
                                (deals (fst w)))"
      if ex: "find (\<lambda>r. d_title r = t \<and> d_pipelineId r = p_id pipeline \<and> d_userId r = u_id user)
                (deals (fst w)) = Some ex" for ex
    proof -
      let ?d' = "(fst w5)\<lparr>deals := map (\<lambda>r. if d_id r = d_id ex
                                               then updated_deal v (s_id st) dealContact user r
                                               else r) (deals (fst w))\<rparr>"
      have ex5: "find (\<lambda>r. d_title r = t \<and> d_pipelineId r = p_id pipeline \<and> d_userId r = u_id user)
                   (deals (fst w5)) = Some ex"
        using ex d5 by simp
      have eq: "?up = permissive_afterUpdate rt dealContact (?d', tl (tl (snd w5)))"
        using upsert_existing [OF ex5 nf, of rt payload v st dealContact email] d5 by simp
      show a: "deals (fst (snd ?H)) =
                 deals (fst (snd (permissive_afterUpdate rt dealContact (?d', tl (tl (snd w5))))))"
        using res eq by simp
      have "keeps (\<lambda>x. map no_stage (deals x) = map no_stage (deals ?d'))
              (permissive_afterUpdate rt dealContact)"
        by (rule keeps_afterUpdate [OF automation_frame_no_stage])
      from keeps_snd [OF this, of "(?d', tl (tl (snd w5)))"]
      show "map no_stage (deals (fst (snd ?H))) =
              map no_stage (map (\<lambda>r. if d_id r = d_id ex
                                      then updated_deal v (s_id st) dealContact user r else r)
                              (deals (fst w)))"
        by (simp add: a)
    qed
    have c: "map no_stage (deals (fst (snd ?H))) =
               map no_stage (deals (fst w) @
                 [\<lparr>d_id = fresh_id (fst w5), d_title = t, d_value = v, d_stageId = s_id st,
                   d_pipelineId = p_id pipeline, d_contactId = map_option c_id dealContact,
                   d_userId = u_id user, d_data = JNull\<rparr>])"
      if ex: "find (\<lambda>r. d_title r = t \<and> d_pipelineId r = p_id pipeline \<and> d_userId r = u_id user)
                (deals (fst w)) = None"
    proof -
      let ?row = "\<lparr>d_id = fresh_id (fst w5), d_title = t, d_value = v, d_stageId = s_id st,
                   d_pipelineId = p_id pipeline, d_contactId = map_option c_id dealContact,
                   d_userId = u_id user, d_data = JNull\<rparr>"
      let ?d' = "(fst w5)\<lparr>deals := deals (fst w5) @ [?row], nextId := Suc (nextId (fst w5))\<rparr>"
      have ex5: "find (\<lambda>r. d_title r = t \<and> d_pipelineId r = p_id pipeline \<and> d_userId r = u_id user)
                   (deals (fst w5)) = None"
        using ex d5 by simp
      have eq: "?up = permissive_afterCreate rt payload t dealContact user (?d', tl (tl (snd w5)))"
        using upsert_absent [OF ex5 nf, of rt payload v st dealContact email] by simp
      have "keeps (\<lambda>x. map no_stage (deals x) = map no_stage (deals ?d'))
              (permissive_afterCreate rt payload t dealContact user)"
        by (rule keeps_afterCreate [OF automation_frame_no_stage])
      from keeps_snd [OF this, of "(?d', tl (tl (snd w5)))"]
      show ?thesis
        using res eq d5 by simp
    qed
    show ?thesis
      using run(1) a b c by blast
  qed
  show ?thesis
    apply (rule conjI)
     apply (intro allI impI)
     apply (elim conjE)
     apply (rule per; assumption)
    apply (rule conjI)
     apply (intro allI impI)
     apply (erule sec)
    apply (intro allI impI)
    apply (erule hab)
    done
qed

text \<open>The amended statement at the sample store. The permissive endpoint answers the
  delivery \<open>req_deal_again\<close> by updating the deal \<^verbatim>\<open>D1\<close> in place, and the delivery
  \<open>req_new_deal\<close> by a second row, of title \<^verbatim>\<open>T2\<close>, without \<^verbatim>\<open>data\<close>; the secured
  \<^verbatim>\<open>createDeal\<close> and appointment handler append a tagged row.\<close>

theorem C5_deal_upsert_witness:
  "fst (handleIncomingWebhook_permissive sample_rt sample_sha256 (js_toString sample_rt) sample_now
          req_deal_again (sample_db, [])) =
     Inr (received_with_key ''sha:[object Object]2025-01-01'')
   \<and> deals (fst (snd (handleIncomingWebhook_permissive sample_rt sample_sha256
           (js_toString sample_rt) sample_now req_deal_again (sample_db, [])))) =
     [\<lparr>d_id = ''d1'', d_title = ''D1'', d_value = 50, d_stageId = ''s2'', d_pipelineId = ''p1'',
       d_contactId = Some ''c1'', d_userId = ''u1'', d_data = JNull\<rparr>]
   \<and> map no_stage (deals (fst (snd (handleIncomingWebhook_permissive sample_rt sample_sha256
           (js_toString sample_rt) sample_now req_new_deal (sample_db, []))))) =
     [\<lparr>d_id = ''d1'', d_title = ''D1'', d_value = 10, d_stageId = [], d_pipelineId = ''p1'',
       d_contactId = Some ''c1'', d_userId = ''u1'', d_data = JNull\<rparr>,
      \<lparr>d_id = ''id-0'', d_title = ''T2'', d_value = 5, d_stageId = [], d_pipelineId = ''p1'',
       d_contactId = Some ''c1'', d_userId = ''u1'', d_data = JNull\<rparr>]
   \<and> (\<exists>row w'. createDeal (JStr ''D1'') (JNum 20) JUndefined JUndefined (Some ''c1'') ''u1''
                    (JStr ''iClosed'') (sample_db, []) = (Inr row, w')
          \<and> deals (fst w') = deals sample_db @ [row]
          \<and> d_data row = JObj [(''source'', JStr ''iClosed'')] \<and> d_title row = ''D1'')
   \<and> (\<exists>row w'. handleAppointmentBooked sample_rt (rq_body req_booked_again) \<lparr>u_id = ''u1'', u_createdAt = 1\<rparr>
                    sample_now (sample_db, []) = (Inr (), w')
          \<and> deals (fst w') = deals sample_db @ [row]
          \<and> d_data row = JObj [(''source'', JStr ''iClosed'')])"
proof -
  let ?u = "\<lparr>u_id = ''u1'', u_createdAt = 1\<rparr>"
  let ?p = "\<lparr>p_id = ''p1'', p_name = ''Sales'', p_userId = ''u1''\<rparr>"
  let ?s1 = "\<lparr>s_id = ''s1'', s_name = ''New'', s_order = 1, s_pipelineId = ''p1''\<rparr>"
  let ?s2 = "\<lparr>s_id = ''s2'', s_name = ''Proposal Sent'', s_order = 2, s_pipelineId = ''p1''\<rparr>"
  let ?d1 = "\<lparr>d_id = ''d1'', d_title = ''D1'', d_value = 10, d_stageId = ''s1'',
              d_pipelineId = ''p1'', d_contactId = Some ''c1'', d_userId = ''u1'', d_data = JNull\<rparr>"
  let ?new = "\<lparr>d_id = ''id-0'', d_title = ''D1'', d_value = 20, d_stageId = ''s1'',
               d_pipelineId = ''p1'', d_contactId = Some ''c1'', d_userId = ''u1'',
               d_data = JObj [(''source'', JStr ''iClosed'')]\<rparr>"
  let ?w = "(sample_db, []) :: world"
  let ?str = "js_toString sample_rt"
  let ?Ha = "handleIncomingWebhook_permissive sample_rt sample_sha256 ?str sample_now req_deal_again ?w"
  let ?Hn = "handleIncomingWebhook_permissive sample_rt sample_sha256 ?str sample_now req_new_deal ?w"
  let ?da = "JObj [(''title'', JStr ''D1''), (''value'', JNum 50), (''stageId'', JStr ''s2'')]"
  let ?dn = "JObj [(''title'', JStr ''T2''), (''value'', JNum 5)]"
  note per = C5_deal_upsert [THEN conjunct1, rule_format]
  note sec = C5_deal_upsert [THEN conjunct2, THEN conjunct1, rule_format]
  note hab = C5_deal_upsert [THEN conjunct2, THEN conjunct2, rule_format]
  have pa: "permissive_payload (rq_body req_deal_again) = Inr (rq_body req_deal_again)
      \<and> isWebhookProcessed (generateIdempotencyKey sample_sha256 ?str (rq_body req_deal_again) sample_now) ?w
          = (Inr False, ?w)
      \<and> permissive_email (rq_body req_deal_again) = Inr (JStr ''a@x.com'')
      \<and> permissive_name (rq_body req_deal_again) = Inr JUndefined
      \<and> permissive_phone (rq_body req_deal_again) = Inr JUndefined
      \<and> permissive_user (rq_body req_deal_again) ?w = (Inr (Inr ?u), ?w)
      \<and> permissive_contact sample_rt (JStr ''a@x.com'') JUndefined JUndefined ?u ?w = (Inr (), ?w)
      \<and> js_get (rq_body req_deal_again) ''deal'' = Inr ?da \<and> truthy ?da
      \<and> permissive_dealTitle ?da = Inr (JStr ''D1'') \<and> ''D1'' \<noteq> []
      \<and> permissive_dealValue ?da = Inr (JNum 50)
      \<and> or_fields ?da [''stageId'', ''pipeline_stage_id'', ''StageId'']
           (js_get ?da ''Pipeline_Stage_Id'') = Inr (JStr ''s2'')
      \<and> or_fields ?da [''contactEmail'', ''contact_email'', ''ContactEmail'']
           (Inr (JStr ''a@x.com'')) = Inr (JStr ''a@x.com'')
      \<and> permissive_dealContact sample_rt ?da (JStr ''a@x.com'') (JStr ''a@x.com'') ?u ?w = (Inr (Some ada), ?w)
      \<and> permissive_pipeline ?u ?w = (Inr (?p, [?s1, ?s2]), ?w)
      \<and> js_get (rq_body req_deal_again) ''event'' = Inr (JStr ''call_booked'')
      \<and> js_get ?da ''new_status'' = Inr JUndefined
      \<and> permissive_targetStage sample_rt (JStr ''call_booked'') JUndefined (JStr ''s2'') [?s1, ?s2] = Inr (Some ?s2)
      \<and> no_faults 2 (snd ?w)"
    by code_simp
  have fa: "find (\<lambda>r. d_title r = ''D1'' \<and> d_pipelineId r = p_id ?p \<and> d_userId r = u_id ?u)
              (deals (fst ?w)) = Some ?d1"
    by code_simp
  note ra = per [OF pa]
  note ea = ra [THEN conjunct2, THEN conjunct1, rule_format, OF fa, THEN conjunct1]
  have a1: "fst ?Ha = Inr (received_with_key ''sha:[object Object]2025-01-01'')"
    by (subst ra [THEN conjunct1]) code_simp
  have a2: "deals (fst (snd ?Ha)) = [?d1\<lparr>d_value := 50, d_stageId := ''s2''\<rparr>]"
    by (subst ea) code_simp
  have pn: "permissive_payload (rq_body req_new_deal) = Inr (rq_body req_new_deal)
      \<and> isWebhookProcessed (generateIdempotencyKey sample_sha256 ?str (rq_body req_new_deal) sample_now) ?w
          = (Inr False, ?w)
      \<and> permissive_email (rq_body req_new_deal) = Inr (JStr ''a@x.com'')
      \<and> permissive_name (rq_body req_new_deal) = Inr JUndefined
      \<and> permissive_phone (rq_body req_new_deal) = Inr JUndefined
      \<and> permissive_user (rq_body req_new_deal) ?w = (Inr (Inr ?u), ?w)
      \<and> permissive_contact sample_rt (JStr ''a@x.com'') JUndefined JUndefined ?u ?w = (Inr (), ?w)
      \<and> js_get (rq_body req_new_deal) ''deal'' = Inr ?dn \<and> truthy ?dn
      \<and> permissive_dealTitle ?dn = Inr (JStr ''T2'') \<and> ''T2'' \<noteq> []
      \<and> permissive_dealValue ?dn = Inr (JNum 5)
      \<and> or_fields ?dn [''stageId'', ''pipeline_stage_id'', ''StageId'']
           (js_get ?dn ''Pipeline_Stage_Id'') = Inr JUndefined
      \<and> or_fields ?dn [''contactEmail'', ''contact_email'', ''ContactEmail'']
           (Inr (JStr ''a@x.com'')) = Inr (JStr ''a@x.com'')
      \<and> permissive_dealContact sample_rt ?dn (JStr ''a@x.com'') (JStr ''a@x.com'') ?u ?w = (Inr (Some ada), ?w)
      \<and> permissive_pipeline ?u ?w = (Inr (?p, [?s1, ?s2]), ?w)
      \<and> js_get (rq_body req_new_deal) ''event'' = Inr (JStr ''call_booked'')
      \<and> js_get ?dn ''new_status'' = Inr JUndefined
      \<and> permissive_targetStage sample_rt (JStr ''call_booked'') JUndefined JUndefined [?s1, ?s2] = Inr (Some ?s1)
      \<and> no_faults 2 (snd ?w)"
    by code_simp
  have fn: "find (\<lambda>r. d_title r = ''T2'' \<and> d_pipelineId r = p_id ?p \<and> d_userId r = u_id ?u)
              (deals (fst ?w)) = None"
    by code_simp
  note en = per [OF pn, THEN conjunct2, THEN conjunct2, rule_format, OF fn]
  have 2: "map no_stage (deals (fst (snd ?Hn))) =
           [no_stage ?d1, no_stage \<lparr>d_id = ''id-0'', d_title = ''T2'', d_value = 5, d_stageId = ''s1'',
               d_pipelineId = ''p1'', d_contactId = Some ''c1'', d_userId = ''u1'', d_data = JNull\<rparr>]"
    by (subst en) code_simp
  have run3: "createDeal (JStr ''D1'') (JNum 20) JUndefined JUndefined (Some ''c1'') ''u1''
                (JStr ''iClosed'') (sample_db, []) =
              (Inr ?new, (sample_db\<lparr>deals := [?d1, ?new], nextId := 1\<rparr>, []))"
    by code_simp
  have 3: "\<exists>row w'. createDeal (JStr ''D1'') (JNum 20) JUndefined JUndefined (Some ''c1'') ''u1''
                    (JStr ''iClosed'') (sample_db, []) = (Inr row, w')
          \<and> deals (fst w') = deals sample_db @ [row]
          \<and> d_data row = JObj [(''source'', JStr ''iClosed'')] \<and> d_title row = ''D1''"
    using sec [OF run3] run3 by (simp add: js_or_def)
  obtain r4 w4 where run4: "handleAppointmentBooked sample_rt (rq_body req_booked_again) ?u sample_now
                              (sample_db, []) = (r4, w4)"
    by (cases "handleAppointmentBooked sample_rt (rq_body req_booked_again) ?u sample_now (sample_db, [])")
  have "fst (handleAppointmentBooked sample_rt (rq_body req_booked_again) ?u sample_now
               (sample_db, [])) = Inr ()"
    by code_simp
  with run4 have run4': "handleAppointmentBooked sample_rt (rq_body req_booked_again) ?u sample_now
                              (sample_db, []) = (Inr (), w4)"
    by simp
  have 4: "\<exists>row w'. handleAppointmentBooked sample_rt (rq_body req_booked_again) ?u sample_now
                    (sample_db, []) = (Inr (), w')
          \<and> deals (fst w') = deals sample_db @ [row]
          \<and> d_data row = JObj [(''source'', JStr ''iClosed'')]"
    using hab [OF run4'] run4' by auto
  from a1 a2 2 3 4 show ?thesis
    by (simp add: no_stage_def)
qed

lemmas deal_defs =
  permissive_upsertDeal_def permissive_afterUpdate_def permissive_afterCreate_def
  permissive_pipeline_def permissive_dealContact_def permissive_targetStage_def stage_id_def
  triggerWorkflow_def

text \<open>Claim C5 as stated fails in both variants: the secured endpoint answers an
  appointment for the title \<^verbatim>\<open>D1\<close>, which the user's pipeline already holds, with a second
  row of that title; the permissive endpoint creates the deal \<^verbatim>\<open>T2\<close> with no provenance
  tag.\<close>

theorem C5_counterexample:
  "deals (fst (snd (handleIncomingWebhook_secured sample_rt (Some ''k'') sample_now req_booked_again
                      (sample_db, [])))) =
     [\<lparr>d_id = ''d1'', d_title = ''D1'', d_value = 10, d_stageId = ''s1'', d_pipelineId = ''p1'',
       d_contactId = Some ''c1'', d_userId = ''u1'', d_data = JNull\<rparr>,
      \<lparr>d_id = ''id-0'', d_title = ''D1'', d_value = 20, d_stageId = ''s1'', d_pipelineId = ''p1'',
       d_contactId = Some ''c1'', d_userId = ''u1'', d_data = JObj [(''source'', JStr ''iClosed'')]\<rparr>]
   \<and> deals (fst (snd (handleIncomingWebhook_permissive sample_rt sample_sha256 (js_toString sample_rt) sample_now
                        req_new_deal (sample_db, [])))) =
     [\<lparr>d_id = ''d1'', d_title = ''D1'', d_value = 10, d_stageId = ''s1'', d_pipelineId = ''p1'',
       d_contactId = Some ''c1'', d_userId = ''u1'', d_data = JNull\<rparr>,
      \<lparr>d_id = ''id-0'', d_title = ''T2'', d_value = 5, d_stageId = ''s1'', d_pipelineId = ''p1'',
       d_contactId = Some ''c1'', d_userId = ''u1'', d_data = JNull\<rparr>]"
proof -
  have 1: "deals (fst (snd (handleIncomingWebhook_secured sample_rt (Some ''k'') sample_now req_booked_again
                      (sample_db, [])))) =
     [\<lparr>d_id = ''d1'', d_title = ''D1'', d_value = 10, d_stageId = ''s1'', d_pipelineId = ''p1'',
       d_contactId = Some ''c1'', d_userId = ''u1'', d_data = JNull\<rparr>,
      \<lparr>d_id = ''id-0'', d_title = ''D1'', d_value = 20, d_stageId = ''s1'', d_pipelineId = ''p1'',
       d_contactId = Some ''c1'', d_userId = ''u1'', d_data = JObj [(''source'', JStr ''iClosed'')]\<rparr>]"
    by (simp add: req_booked_again_def secured_defs eval_defs parseName_def Let_def)
  have 2: "deals (fst (snd (handleIncomingWebhook_permissive sample_rt sample_sha256 (js_toString sample_rt) sample_now
                        req_new_deal (sample_db, [])))) =
     [\<lparr>d_id = ''d1'', d_title = ''D1'', d_value = 10, d_stageId = ''s1'', d_pipelineId = ''p1'',
       d_contactId = Some ''c1'', d_userId = ''u1'', d_data = JNull\<rparr>,
      \<lparr>d_id = ''id-0'', d_title = ''T2'', d_value = 5, d_stageId = ''s1'', d_pipelineId = ''p1'',
       d_contactId = Some ''c1'', d_userId = ''u1'', d_data = JNull\<rparr>]"
    by (simp add: req_new_deal_def permissive_defs deal_defs eval_defs Let_def)
  from 1 2 show ?thesis by (rule conjI)
qed

end
